theory Spec2Isabelle
  imports Main "HOL-Library.Word"
begin

unbundle bit_operations_syntax

chapter \<open>NovaOS kernel core: a shallow embedding\<close>

text \<open>
  The kernel is C for x86_64. Its fixed-width integers are words: \<open>uint8_t\<close> is
  \<open>8 word\<close>, \<open>uint32_t\<close> is \<open>32 word\<close>, \<open>uint64_t\<close> and \<open>size_t\<close> are
  \<open>64 word\<close>; arithmetic wraps as the C does. Global variables of a translation unit
  become the fields of a state record that every operation takes and returns.
\<close>

type_synonym u8 = "8 word"
type_synonym u32 = "32 word"
type_synonym u64 = "64 word"

section \<open>System-call dispatch (kernel/arch/x86_64/syscall.c)\<close>

text \<open>The trap frame \<open>registers_t\<close> of kernel/include/kernel/isr.h, field by field.\<close>

record registers =
  ds :: u64
  es :: u64
  fs :: u64
  gs :: u64
  r15 :: u64
  r14 :: u64
  r13 :: u64
  r12 :: u64
  r11 :: u64
  r10 :: u64
  r9 :: u64
  r8 :: u64
  rbp :: u64
  rdi :: u64
  rsi :: u64
  rdx :: u64
  rcx :: u64
  rbx :: u64
  rax :: u64
  int_no :: u64
  err_code :: u64
  rip :: u64
  cs :: u64
  rflags :: u64
  rsp :: u64
  ss :: u64

definition SYSCALL_COUNT :: u64 where
  "SYSCALL_COUNT = 16"

text \<open>
  A handler \<open>int64_t (*)(registers_t *regs)\<close> receives the trap frame by pointer and
  runs in the kernel: it may change the frame and the rest of the kernel state \<open>'w\<close>
  before it returns its result. A handler that does not return (\<open>sys_exit\<close> of a
  running process halts) is \<open>None\<close>. The table \<open>syscall_table[SYSCALL_COUNT]\<close> holds a handler or \<open>NULL\<close>.
\<close>

type_synonym 'w syscall_handler = "registers \<Rightarrow> 'w \<Rightarrow> (u64 \<times> registers \<times> 'w) option"

definition syscall_register ::
  "'w syscall_handler option list \<Rightarrow> u32 \<Rightarrow> 'w syscall_handler option
     \<Rightarrow> 'w syscall_handler option list" where
  "syscall_register syscall_table num handler =
     (if ucast num < SYSCALL_COUNT then syscall_table[unat num := handler] else syscall_table)"

text \<open>
  The dispatcher returns the list of table slots whose handler it called, and the frame
  and kernel state it leaves behind when it returns.
\<close>

definition syscall_dispatcher ::
  "'w syscall_handler option list \<Rightarrow> registers \<Rightarrow> 'w \<Rightarrow> nat list \<times> (registers \<times> 'w) option" where
  "syscall_dispatcher syscall_table regs w =
     (let syscall_num = rax regs in
      if syscall_num \<ge> SYSCALL_COUNT then ([], Some (regs\<lparr>rax := - 1\<rparr>, w))
      else
        (case syscall_table ! unat syscall_num of
           None \<Rightarrow> ([], Some (regs\<lparr>rax := - 1\<rparr>, w))
         | Some handler \<Rightarrow>
             ([unat syscall_num],
              (case handler regs w of
                 None \<Rightarrow> None
               | Some (result, regs', w') \<Rightarrow> Some (regs'\<lparr>rax := result\<rparr>, w')))))"

text \<open>
  A handler of the file, for concrete runs: \<open>sys_getpid\<close>. The kernel state is the pid
  of the current process, 0 when there is none.
\<close>

definition sys_getpid_handler :: "u64 syscall_handler" where
  "sys_getpid_handler regs current_pid = Some (current_pid, regs, current_pid)"

definition regs0 :: registers where
  "regs0 = \<lparr>ds = 0, es = 0, fs = 0, gs = 0, r15 = 0, r14 = 0, r13 = 0, r12 = 0, r11 = 0,
     r10 = 0, r9 = 0, r8 = 0, rbp = 0, rdi = 0, rsi = 0, rdx = 0, rcx = 0, rbx = 0, rax = 0,
     int_no = 0, err_code = 0, rip = 0, cs = 0, rflags = 0, rsp = 0, ss = 0\<rparr>"

definition demo_table :: "u64 syscall_handler option list" where
  "demo_table = syscall_register (replicate 16 None) 5 (Some sys_getpid_handler)"

text \<open>
  Claim C2. A call number outside the table, or one whose slot is empty, makes the
  dispatcher store \<open>-1\<close> in \<open>rax\<close>, call no handler and change nothing else. A registered
  number makes it call the handler of exactly that slot, once, on the frame it was given,
  and store the handler's result in \<open>rax\<close> of the frame the handler left.
\<close>

theorem syscall_dispatcher_spec:
  "(SYSCALL_COUNT \<le> rax regs \<or> syscall_table ! unat (rax regs) = None \<longrightarrow>
      syscall_dispatcher syscall_table regs w = ([], Some (regs\<lparr>rax := - 1\<rparr>, w)))
   \<and> (\<forall>handler. rax regs < SYSCALL_COUNT \<and> syscall_table ! unat (rax regs) = Some handler \<longrightarrow>
      syscall_dispatcher syscall_table regs w =
        ([unat (rax regs)],
         map_option (\<lambda>(result, regs', w'). (regs'\<lparr>rax := result\<rparr>, w')) (handler regs w)))"
  by (auto simp: syscall_dispatcher_def Let_def split: option.splits)

theorem syscall_dispatcher_spec_witness:
  "syscall_dispatcher demo_table (regs0\<lparr>rax := 16\<rparr>) 42 = ([], Some (regs0\<lparr>rax := - 1\<rparr>, 42))
   \<and> syscall_dispatcher demo_table (regs0\<lparr>rax := 7\<rparr>) 42 = ([], Some (regs0\<lparr>rax := - 1\<rparr>, 42))
   \<and> syscall_dispatcher demo_table (regs0\<lparr>rax := 5\<rparr>) 42 = ([5], Some (regs0\<lparr>rax := 42\<rparr>, 42))"
proof -
  have t5: "demo_table ! 5 = Some sys_getpid_handler" and t7: "demo_table ! 7 = None"
    by (simp_all add: demo_table_def syscall_register_def SYSCALL_COUNT_def)
  have a: "syscall_dispatcher demo_table (regs0\<lparr>rax := 16\<rparr>) 42 = ([], Some (regs0\<lparr>rax := - 1\<rparr>, 42))"
    using syscall_dispatcher_spec [of "regs0\<lparr>rax := 16\<rparr>" demo_table 42]
    by (simp add: SYSCALL_COUNT_def)
  have b: "syscall_dispatcher demo_table (regs0\<lparr>rax := 7\<rparr>) 42 = ([], Some (regs0\<lparr>rax := - 1\<rparr>, 42))"
    using syscall_dispatcher_spec [of "regs0\<lparr>rax := 7\<rparr>" demo_table 42] t7
    by (simp add: SYSCALL_COUNT_def)
  have c: "syscall_dispatcher demo_table (regs0\<lparr>rax := 5\<rparr>) 42 = ([5], Some (regs0\<lparr>rax := 42\<rparr>, 42))"
    using syscall_dispatcher_spec [of "regs0\<lparr>rax := 5\<rparr>" demo_table 42] t5
    by (simp add: SYSCALL_COUNT_def sys_getpid_handler_def)
  from a b c show ?thesis by simp
qed

section \<open>Block layer (kernel/drivers/block.c)\<close>

text \<open>
  \<open>block_device_t\<close> of kernel/include/kernel/block.h. The four operations are function
  pointers and may be \<open>NULL\<close>. A transfer routine works on the driver's own state
  \<open>'d\<close>: a read returns its \<open>int\<close> status with the bytes it stored into the caller's
  buffer, a write takes the caller's bytes and returns its status.
\<close>

record 'd block_device =
  dev_name :: string
  dev_type :: u32
  block_size :: u32
  num_blocks :: u64
  dev_size :: u64
  read_block :: "('d \<Rightarrow> u64 \<Rightarrow> u32 \<times> u8 list \<times> 'd) option"
  write_block :: "('d \<Rightarrow> u64 \<Rightarrow> u8 list \<Rightarrow> u32 \<times> 'd) option"
  read_blocks :: "('d \<Rightarrow> u64 \<Rightarrow> u32 \<Rightarrow> u32 \<times> u8 list \<times> 'd) option"
  write_blocks :: "('d \<Rightarrow> u64 \<Rightarrow> u32 \<Rightarrow> u8 list \<Rightarrow> u32 \<times> 'd) option"
  driver_data :: 'd

text \<open>A call of a multi-block transfer routine: first block and block count.\<close>

datatype transfer = Read_blocks u64 u32 | Write_blocks u64 u32

text \<open>
  What a helper leaves behind: its \<open>int\<close> return value (\<open>- 1\<close> is \<open>0xFFFFFFFF\<close>), the
  transfer routines it called, the bytes the device stored at \<open>buffer\<close>, and the device.
\<close>

record 'd block_outcome =
  ret :: u32
  transfers :: "transfer list"
  stored :: "u8 list"
  device :: "'d block_device option"

definition block_fail :: "'d block_device option \<Rightarrow> 'd block_outcome" where
  "block_fail dev = \<lparr>ret = - 1, transfers = [], stored = [], device = dev\<rparr>"

text \<open>
  \<open>block_read\<close>. \<open>buffer\<close> is the caller's pointer, \<open>0\<close> for \<open>NULL\<close>. The three
  quotients divide by \<open>dev->block_size\<close>, which the C does not check: a zero block size is
  a divide error and the function does not return (\<open>None\<close>). The block count is computed
  in 64 bits and passed as the routine's \<open>uint32_t count\<close>; the \<open>int\<close> result is the low
  32 bits of \<open>size\<close>.
\<close>

definition block_read ::
  "'d block_device option \<Rightarrow> u64 \<Rightarrow> u64 \<Rightarrow> u64 \<Rightarrow> 'd block_outcome option" where
  "block_read dev offset sz buffer =
     (case dev of
        None \<Rightarrow> Some (block_fail dev)
      | Some d \<Rightarrow>
          if buffer = 0 \<or> read_blocks d = None then Some (block_fail dev)
          else if block_size d = 0 then None
          else
            let bs = (ucast (block_size d) :: u64);
                block_start = offset div bs;
                block_offset = offset mod bs;
                blocks_needed = (block_offset + sz + bs - 1) div bs
            in if (block_offset \<noteq> 0 \<or> sz mod bs \<noteq> 0) \<and> block_offset \<noteq> 0
               then Some (block_fail dev)
               else
                 (case the (read_blocks d) (driver_data d) block_start (ucast blocks_needed) of
                    (result, bytes, dd) \<Rightarrow>
                      Some \<lparr>ret = (if result \<noteq> 0 then - 1 else ucast sz),
                            transfers = [Read_blocks block_start (ucast blocks_needed)],
                            stored = bytes,
                            device = Some (d\<lparr>driver_data := dd\<rparr>)\<rparr>))"

text \<open>\<open>block_write\<close>; \<open>data\<close> is what the caller's buffer holds.\<close>

definition block_write ::
  "'d block_device option \<Rightarrow> u64 \<Rightarrow> u64 \<Rightarrow> u64 \<Rightarrow> u8 list \<Rightarrow> 'd block_outcome option" where
  "block_write dev offset sz buffer data =
     (case dev of
        None \<Rightarrow> Some (block_fail dev)
      | Some d \<Rightarrow>
          if buffer = 0 \<or> write_blocks d = None then Some (block_fail dev)
          else if block_size d = 0 then None
          else
            let bs = (ucast (block_size d) :: u64);
                block_start = offset div bs;
                block_offset = offset mod bs;
                blocks_needed = (block_offset + sz + bs - 1) div bs
            in if block_offset \<noteq> 0 \<or> sz mod bs \<noteq> 0
               then Some (block_fail dev)
               else
                 (case the (write_blocks d) (driver_data d) block_start (ucast blocks_needed) data of
                    (result, dd) \<Rightarrow>
                      Some \<lparr>ret = (if result \<noteq> 0 then - 1 else ucast sz),
                            transfers = [Write_blocks block_start (ucast blocks_needed)],
                            stored = [],
                            device = Some (d\<lparr>driver_data := dd\<rparr>)\<rparr>))"

text \<open>
  A RAM disk of 512-byte blocks for concrete runs: its state is the list of its blocks;
  a read of \<open>count\<close> blocks returns their bytes, a read past the end fails.
\<close>

definition ram_read_blocks :: "u8 list list \<Rightarrow> u64 \<Rightarrow> u32 \<Rightarrow> u32 \<times> u8 list \<times> u8 list list" where
  "ram_read_blocks disk start count =
     (if unat start + unat count \<le> length disk
      then (0, concat (take (unat count) (drop (unat start) disk)), disk)
      else (- 1, [], disk))"

definition ram_write_blocks :: "u8 list list \<Rightarrow> u64 \<Rightarrow> u32 \<Rightarrow> u8 list \<Rightarrow> u32 \<times> u8 list list" where
  "ram_write_blocks disk start count data =
     (if unat start + unat count \<le> length disk \<and> length data = 512 * unat count
      then (0, take (unat start) disk
                 @ map (\<lambda>i. take 512 (drop (512 * i) data)) [0..<unat count]
                 @ drop (unat start + unat count) disk)
      else (- 1, disk))"

definition ram_read_block :: "u8 list list \<Rightarrow> u64 \<Rightarrow> u32 \<times> u8 list \<times> u8 list list" where
  "ram_read_block disk block = ram_read_blocks disk block 1"

definition ramdisk :: "u8 list list \<Rightarrow> u8 list list block_device" where
  "ramdisk disk =
     \<lparr>dev_name = ''ram0'', dev_type = 3, block_size = 512,
      num_blocks = of_nat (length disk), dev_size = 512 * of_nat (length disk),
      read_block = Some ram_read_block, write_block = None,
      read_blocks = Some ram_read_blocks, write_blocks = Some ram_write_blocks,
      driver_data = disk\<rparr>"

text \<open>
  The write helper refuses every request that is not block-aligned, in offset or in
  length, before it reaches the device.
\<close>

lemma block_write_misaligned:
  assumes "block_write (Some d) offset sz buffer data = Some out"
    and "offset mod ucast (block_size d) \<noteq> 0 \<or> sz mod ucast (block_size d) \<noteq> 0"
  shows "out = block_fail (Some d)"
  using assms by (auto simp: block_write_def Let_def split: if_splits prod.splits)

text \<open>The read helper refuses a request whose offset is not block-aligned.\<close>

lemma block_read_misaligned_offset:
  assumes "block_read (Some d) offset sz buffer = Some out"
    and "offset mod ucast (block_size d) \<noteq> 0"
  shows "out = block_fail (Some d)"
  using assms by (auto simp: block_read_def Let_def split: if_splits prod.splits)

text \<open>
  Claim C9 fails on the read path. \<open>block_read\<close> tests both the offset and the length
  for alignment, but returns the error only when the offset is misaligned. A read of 100
  bytes at offset 0 of a device with 512-byte blocks is not block-aligned, yet the helper
  calls \<open>read_blocks\<close> for one whole block, which stores 512 bytes at a buffer the caller
  sized for 100, and it returns 100 instead of \<open>- 1\<close>.
\<close>

theorem block_read_unaligned_length_reaches_device:
  "(100 :: u64) mod ucast (block_size (ramdisk [replicate 512 7])) \<noteq> 0
   \<and> block_read (Some (ramdisk [replicate 512 7])) 0 100 4096 =
       Some \<lparr>ret = 100, transfers = [Read_blocks 0 1], stored = replicate 512 7,
             device = Some (ramdisk [replicate 512 7])\<rparr>"
  by (simp add: block_read_def ramdisk_def ram_read_blocks_def Let_def)

text \<open>The same run, read through the fields of what the helper leaves behind.\<close>

theorem block_read_unaligned_length_reaches_device_witness:
  "map_option ret (block_read (Some (ramdisk [replicate 512 7])) 0 100 4096) = Some 100
   \<and> map_option transfers (block_read (Some (ramdisk [replicate 512 7])) 0 100 4096)
       = Some [Read_blocks 0 1]
   \<and> map_option (length \<circ> stored) (block_read (Some (ramdisk [replicate 512 7])) 0 100 4096)
       = Some 512"
  using block_read_unaligned_length_reaches_device by simp

section \<open>Physical frame allocator (the PMM source, kernel/include/kernel/pmm.h)\<close>

definition PAGE_SIZE :: u64 where
  "PAGE_SIZE = 4096"

definition MAX_PAGES :: u64 where
  "MAX_PAGES = 1048576"

definition BITMAP_SIZE :: u64 where
  "BITMAP_SIZE = 131072"

definition KERNEL_PHYSICAL_START :: u64 where
  "KERNEL_PHYSICAL_START = 0x100000"

definition BYTES_TO_PAGES :: "u64 \<Rightarrow> u64" where
  "BYTES_TO_PAGES bytes = (bytes + PAGE_SIZE - 1) div PAGE_SIZE"

text \<open>
  The file's globals. \<open>page_bitmap\<close> is the byte array \<open>uint8_t page_bitmap[BITMAP_SIZE]\<close>,
  read here as a function of the byte index \<open>bit / 8\<close>; the array ends at
  \<open>BITMAP_SIZE\<close> and holds the bits of the frames below \<open>MAX_PAGES\<close>.
\<close>

record pmm =
  page_bitmap :: "u32 \<Rightarrow> u8"
  total_pages :: u32
  used_pages :: u32
  total_memory :: u64

definition bitmap_set :: "(u32 \<Rightarrow> u8) \<Rightarrow> u32 \<Rightarrow> (u32 \<Rightarrow> u8)" where
  "bitmap_set bm b = bm(b div 8 := bm (b div 8) OR push_bit (unat (b mod 8)) 1)"

definition bitmap_clear :: "(u32 \<Rightarrow> u8) \<Rightarrow> u32 \<Rightarrow> (u32 \<Rightarrow> u8)" where
  "bitmap_clear bm b = bm(b div 8 := bm (b div 8) AND NOT (push_bit (unat (b mod 8)) 1))"

definition bitmap_test :: "(u32 \<Rightarrow> u8) \<Rightarrow> u32 \<Rightarrow> bool" where
  "bitmap_test bm b = (bm (b div 8) AND push_bit (unat (b mod 8)) 1 \<noteq> 0)"

lemma word_succ_unat: "i < n \<Longrightarrow> unat (i + 1) = Suc (unat i)" for i n :: "'a::len word"
proof -
  assume "i < n"
  then have "unat i < unat n" by (simp add: word_less_nat_alt)
  moreover have "unat n < 2 ^ LENGTH('a)" by simp
  ultimately have "Suc (unat i) < 2 ^ LENGTH('a)" by linarith
  then have "unat i + unat (1 :: 'a word) < 2 ^ LENGTH('a)" by simp
  then have "unat (i + 1) = unat i + unat (1 :: 'a word)" by (simp only: unat_add_lem)
  then show ?thesis by simp
qed

text \<open>\<open>find_free_page\<close>: the scan \<open>for (i = 0; i < total_pages; i++)\<close> from index \<open>i\<close> on.\<close>

function find_free_from :: "(u32 \<Rightarrow> u8) \<Rightarrow> u32 \<Rightarrow> u32 \<Rightarrow> u32" where
  "find_free_from bm tot i =
     (if i < tot then (if \<not> bitmap_test bm i then i else find_free_from bm tot (i + 1))
      else - 1)"
  by pat_completeness auto
termination
  by (relation "measure (\<lambda>(bm, tot, i). unat tot - unat i)")
     (auto simp: word_less_nat_alt word_succ_unat)

declare find_free_from.simps [simp del]

definition find_free_page :: "pmm \<Rightarrow> u32" where
  "find_free_page s = find_free_from (page_bitmap s) (total_pages s) 0"

text \<open>A counting loop \<open>for (size_t i = i0; i < n; i++) body(i)\<close> over a state.\<close>

function for_u64 :: "u64 \<Rightarrow> u64 \<Rightarrow> (u64 \<Rightarrow> 's \<Rightarrow> 's) \<Rightarrow> 's \<Rightarrow> 's" where
  "for_u64 i n body s = (if i < n then for_u64 (i + 1) n body (body i s) else s)"
  by pat_completeness auto
termination
  by (relation "measure (\<lambda>(i, n, body, s). unat n - unat i)")
     (auto simp: word_less_nat_alt word_succ_unat)

declare for_u64.simps [simp del]

text \<open>
  \<open>find_free_pages\<close>. The inner loop looks for the first used bit of the window at \<open>i\<close>;
  \<open>i + j\<close> is a 64-bit sum cut to the \<open>uint32_t\<close> parameter of \<open>bitmap_test\<close>.
\<close>

function scan_window :: "(u32 \<Rightarrow> u8) \<Rightarrow> u32 \<Rightarrow> u64 \<Rightarrow> u64 \<Rightarrow> u64 option" where
  "scan_window bm i count j =
     (if j < count
      then (if bitmap_test bm (ucast ((ucast i :: u64) + j)) then Some j
            else scan_window bm i count (j + 1))
      else None)"
  by pat_completeness auto
termination
  by (relation "measure (\<lambda>(bm, i, count, j). unat count - unat j)")
     (auto simp: word_less_nat_alt word_succ_unat)

declare scan_window.simps [simp del]

text \<open>
  The outer loop compares the 32-bit \<open>i\<close> with the 64-bit \<open>total_pages - count + 1\<close>,
  which wraps when \<open>count\<close> exceeds \<open>total_pages + 1\<close>; after a used bit at offset \<open>j\<close>
  it continues at \<open>i + j + 1\<close> in 32 bits. Nothing bounds the number of rounds, so the
  loop is a partial function: \<open>None\<close> is a scan that never returns.
\<close>

partial_function (option) find_free_pages_from ::
  "(u32 \<Rightarrow> u8) \<Rightarrow> u32 \<Rightarrow> u64 \<Rightarrow> u32 \<Rightarrow> u32 option" where
  "find_free_pages_from bm tot count i =
     (if (ucast i :: u64) < ucast tot - count + 1
      then (if scan_window bm i count 0 = None then Some i
            else find_free_pages_from bm tot count
                   (ucast ((ucast i :: u64) + the (scan_window bm i count 0)) + 1))
      else Some (- 1))"

declare find_free_pages_from.simps [code]

definition find_free_pages :: "pmm \<Rightarrow> u64 \<Rightarrow> u32 option" where
  "find_free_pages s count =
     (if count = 0 then Some (- 1)
      else if count = 1 then Some (find_free_page s)
      else find_free_pages_from (page_bitmap s) (total_pages s) count 0)"

definition pmm_mark_used :: "pmm \<Rightarrow> u64 \<Rightarrow> pmm" where
  "pmm_mark_used s addr =
     (let page = (ucast (addr div PAGE_SIZE) :: u32) in
      if page \<ge> total_pages s then s
      else if \<not> bitmap_test (page_bitmap s) page
      then s\<lparr>page_bitmap := bitmap_set (page_bitmap s) page, used_pages := used_pages s + 1\<rparr>
      else s)"

definition pmm_mark_used_range :: "pmm \<Rightarrow> u64 \<Rightarrow> u64 \<Rightarrow> pmm" where
  "pmm_mark_used_range s addr count =
     for_u64 0 count (\<lambda>i s. pmm_mark_used s (addr + i * PAGE_SIZE)) s"

text \<open>
  \<open>pmm_init\<close>. \<open>bitmap_addr\<close> is the address of the array \<open>page_bitmap\<close>, fixed at link
  time. The quotient \<open>mem_size / PAGE_SIZE\<close> is stored in the 32-bit \<open>total_pages\<close>.
\<close>

definition pmm_init :: "pmm \<Rightarrow> u64 \<Rightarrow> u64 \<Rightarrow> u64 \<Rightarrow> pmm" where
  "pmm_init s mem_size kernel_end bitmap_addr =
     (let tp = (ucast (mem_size div PAGE_SIZE) :: u32);
          cleared = (\<lambda>i. if (ucast i :: u64) < BITMAP_SIZE then 0 else page_bitmap s i);
          s0 = (if (ucast tp :: u64) > MAX_PAGES
                then \<lparr>page_bitmap = cleared, total_pages = ucast MAX_PAGES, used_pages = 0,
                      total_memory = MAX_PAGES * PAGE_SIZE\<rparr>
                else \<lparr>page_bitmap = cleared, total_pages = tp, used_pages = 0,
                      total_memory = mem_size\<rparr>);
          s1 = pmm_mark_used s0 0;
          kernel_start = KERNEL_PHYSICAL_START;
          kernel_size = kernel_end - kernel_start;
          kernel_pages = BYTES_TO_PAGES kernel_size;
          s2 = for_u64 0 kernel_pages (\<lambda>i s. pmm_mark_used s (kernel_start + i * PAGE_SIZE)) s1;
          bitmap_pages = BYTES_TO_PAGES BITMAP_SIZE
      in for_u64 0 bitmap_pages (\<lambda>i s. pmm_mark_used s (bitmap_addr + i * PAGE_SIZE)) s2)"

text \<open>
  \<open>pmm_alloc_page\<close>. The product \<open>page * PAGE_SIZE\<close> is a 32-bit product (\<open>uint32_t\<close>
  times the \<open>int\<close> constant 4096), widened to the 64-bit result.
\<close>

definition pmm_alloc_page :: "pmm \<Rightarrow> u64 \<times> pmm" where
  "pmm_alloc_page s =
     (let page = find_free_page s in
      if page = - 1 then (0, s)
      else (ucast (page * 4096),
            s\<lparr>page_bitmap := bitmap_set (page_bitmap s) page, used_pages := used_pages s + 1\<rparr>))"

definition pmm_alloc_pages :: "pmm \<Rightarrow> u64 \<Rightarrow> (u64 \<times> pmm) option" where
  "pmm_alloc_pages s count =
     (if count = 0 then Some (0, s)
      else
        (case find_free_pages s count of
           None \<Rightarrow> None
         | Some page \<Rightarrow>
             if page = - 1 then Some (0, s)
             else Some (ucast (page * 4096),
                        s\<lparr>page_bitmap :=
                             for_u64 0 count
                               (\<lambda>i bm. bitmap_set bm (ucast ((ucast page :: u64) + i)))
                               (page_bitmap s),
                          used_pages := used_pages s + ucast count\<rparr>)))"

text \<open>\<open>pmm_free_page\<close>; the warning it prints on a double free is not part of the state.\<close>

definition pmm_free_page :: "pmm \<Rightarrow> u64 \<Rightarrow> pmm" where
  "pmm_free_page s addr =
     (if addr = 0 then s
      else
        let page = (ucast (addr div PAGE_SIZE) :: u32) in
        if page \<ge> total_pages s then s
        else if \<not> bitmap_test (page_bitmap s) page then s
        else s\<lparr>page_bitmap := bitmap_clear (page_bitmap s) page,
                used_pages := used_pages s - 1\<rparr>)"

definition pmm_free_pages :: "pmm \<Rightarrow> u64 \<Rightarrow> u64 \<Rightarrow> pmm" where
  "pmm_free_pages s addr count =
     for_u64 0 count (\<lambda>i s. pmm_free_page s (addr + i * PAGE_SIZE)) s"

definition pmm_get_total_pages :: "pmm \<Rightarrow> u32" where
  "pmm_get_total_pages s = total_pages s"

definition pmm_get_free_pages :: "pmm \<Rightarrow> u32" where
  "pmm_get_free_pages s = total_pages s - used_pages s"

definition pmm_get_used_pages :: "pmm \<Rightarrow> u32" where
  "pmm_get_used_pages s = used_pages s"

definition pmm_is_free :: "pmm \<Rightarrow> u64 \<Rightarrow> bool" where
  "pmm_is_free s addr =
     (let page = (ucast (addr div PAGE_SIZE) :: u32) in
      if page \<ge> total_pages s then False else \<not> bitmap_test (page_bitmap s) page)"

text \<open>The memory before \<open>pmm_init\<close>: the zeroed globals of the loaded image.\<close>

definition pmm_bss :: pmm where
  "pmm_bss = \<lparr>page_bitmap = (\<lambda>_. 0), total_pages = 0, used_pages = 0, total_memory = 0\<rparr>"

subsection \<open>Running the loops on concrete states\<close>

lemma for_u64_step: "i < n \<Longrightarrow> for_u64 i n body s = for_u64 (i + 1) n body (body i s)"
  by (simp add: for_u64.simps [of i n body s])

lemma for_u64_done: "\<not> i < n \<Longrightarrow> for_u64 i n body s = s"
  by (simp add: for_u64.simps [of i n body s])

lemma find_free_from_hit:
  "i < tot \<Longrightarrow> \<not> bitmap_test bm i \<Longrightarrow> find_free_from bm tot i = i"
  by (simp add: find_free_from.simps [of bm tot i])

lemma find_free_from_skip:
  "i < tot \<Longrightarrow> bitmap_test bm i \<Longrightarrow> find_free_from bm tot i = find_free_from bm tot (i + 1)"
  by (simp add: find_free_from.simps [of bm tot i])

lemma find_free_from_end: "\<not> i < tot \<Longrightarrow> find_free_from bm tot i = - 1"
  by (simp add: find_free_from.simps [of bm tot i])

lemma scan_window_hit:
  "j < count \<Longrightarrow> bitmap_test bm (ucast ((ucast i :: u64) + j)) \<Longrightarrow> scan_window bm i count j = Some j"
  by (simp add: scan_window.simps [of bm i count j])

lemma scan_window_skip:
  "j < count \<Longrightarrow> \<not> bitmap_test bm (ucast ((ucast i :: u64) + j))
     \<Longrightarrow> scan_window bm i count j = scan_window bm i count (j + 1)"
  by (simp add: scan_window.simps [of bm i count j])

lemma scan_window_end: "\<not> j < count \<Longrightarrow> scan_window bm i count j = None"
  by (simp add: scan_window.simps [of bm i count j])

lemma find_free_pages_from_found:
  "(ucast i :: u64) < ucast tot - count + 1 \<Longrightarrow> scan_window bm i count 0 = None
     \<Longrightarrow> find_free_pages_from bm tot count i = Some i"
  by (simp add: find_free_pages_from.simps [of bm tot count i])

lemma find_free_pages_from_skip:
  "(ucast i :: u64) < ucast tot - count + 1 \<Longrightarrow> scan_window bm i count 0 = Some j
     \<Longrightarrow> find_free_pages_from bm tot count i =
           find_free_pages_from bm tot count (ucast ((ucast i :: u64) + j) + 1)"
  by (simp add: find_free_pages_from.simps [of bm tot count i])

lemma find_free_pages_from_end:
  "\<not> (ucast i :: u64) < ucast tot - count + 1 \<Longrightarrow> find_free_pages_from bm tot count i = Some (- 1)"
  by (simp add: find_free_pages_from.simps [of bm tot count i])

lemmas pmm_loops =
  for_u64_step for_u64_done find_free_from_hit find_free_from_skip find_free_from_end
  scan_window_hit scan_window_skip scan_window_end
  find_free_pages_from_found find_free_pages_from_skip find_free_pages_from_end

lemmas pmm_defs =
  PAGE_SIZE_def MAX_PAGES_def BITMAP_SIZE_def KERNEL_PHYSICAL_START_def BYTES_TO_PAGES_def
  bitmap_test_def bitmap_set_def bitmap_clear_def find_free_page_def find_free_pages_def
  pmm_mark_used_def pmm_alloc_page_def pmm_alloc_pages_def pmm_free_page_def
  pmm_get_total_pages_def pmm_get_free_pages_def pmm_get_used_pages_def

subsection \<open>The bitmap as a set of used frames\<close>

lemma bitmap_test_bit: "bitmap_test bm b = bit (bm (b div 8)) (unat b mod 8)"
  by (simp add: bitmap_test_def unat_mod and_exp_eq_0_iff_not_bit)

lemma bit_index_eq:
  "(c div 8 = b div 8 \<and> unat c mod 8 = unat b mod 8) = (c = b)" for b c :: u32
proof
  assume L: "c div 8 = b div 8 \<and> unat c mod 8 = unat b mod 8"
  then have "unat (c mod 8) = unat (b mod 8)" by (simp add: unat_mod)
  then have "c mod 8 = b mod 8" by (simp add: word_unat_eq_iff)
  with L have "c div 8 * 8 + c mod 8 = b div 8 * 8 + b mod 8" by simp
  then show "c = b" by (simp only: div_mult_mod_eq)
next
  assume "c = b"
  then show "c div 8 = b div 8 \<and> unat c mod 8 = unat b mod 8" by simp
qed

lemma bitmap_test_set: "bitmap_test (bitmap_set bm b) c = (c = b \<or> bitmap_test bm c)"
  using bit_index_eq [of c b]
  by (auto simp: bitmap_test_bit bitmap_set_def unat_mod bit_or_iff bit_exp_iff)

lemma bitmap_test_clear: "bitmap_test (bitmap_clear bm b) c = (c \<noteq> b \<and> bitmap_test bm c)"
  using bit_index_eq [of c b]
  by (auto simp: bitmap_test_bit bitmap_clear_def unat_mod bit_and_iff bit_not_iff
      bit_exp_iff)

subsection \<open>First fit\<close>

lemma find_free_from_spec:
  "(find_free_from bm tot i = - 1 \<and> (\<forall>k. i \<le> k \<and> k < tot \<longrightarrow> bitmap_test bm k))
   \<or> (i \<le> find_free_from bm tot i \<and> find_free_from bm tot i < tot
       \<and> \<not> bitmap_test bm (find_free_from bm tot i)
       \<and> (\<forall>k. i \<le> k \<and> k < find_free_from bm tot i \<longrightarrow> bitmap_test bm k))"
proof (induction bm tot i rule: find_free_from.induct)
  case (1 bm tot i)
  show ?case
  proof (cases "i < tot")
    case False
    then have "find_free_from bm tot i = - 1" by (simp add: find_free_from.simps [of bm tot i])
    moreover from False have "\<forall>k. i \<le> k \<and> k < tot \<longrightarrow> bitmap_test bm k" by auto
    ultimately show ?thesis by blast
  next
    case lt: True
    show ?thesis
    proof (cases "bitmap_test bm i")
      case False
      with lt have "find_free_from bm tot i = i" by (simp add: find_free_from.simps [of bm tot i])
      with lt False show ?thesis by auto
    next
      case used: True
      from lt used have eq: "find_free_from bm tot i = find_free_from bm tot (i + 1)"
        by (simp add: find_free_from.simps [of bm tot i])
      have u: "unat (i + 1) = Suc (unat i)" using lt by (rule word_succ_unat)
      have step: "k = i \<or> i + 1 \<le> k" if "i \<le> k" for k
        using that u by (auto simp: word_le_nat_alt word_unat_eq_iff)
      have le: "i \<le> i + 1" using u by (simp add: word_le_nat_alt)
      from "1.IH" [OF lt] used
      have ih: "(find_free_from bm tot (i + 1) = - 1
                  \<and> (\<forall>k. i + 1 \<le> k \<and> k < tot \<longrightarrow> bitmap_test bm k))
        \<or> (i + 1 \<le> find_free_from bm tot (i + 1) \<and> find_free_from bm tot (i + 1) < tot
           \<and> \<not> bitmap_test bm (find_free_from bm tot (i + 1))
           \<and> (\<forall>k. i + 1 \<le> k \<and> k < find_free_from bm tot (i + 1) \<longrightarrow> bitmap_test bm k))"
        by simp
      then show ?thesis
      proof
        assume a: "find_free_from bm tot (i + 1) = - 1
                  \<and> (\<forall>k. i + 1 \<le> k \<and> k < tot \<longrightarrow> bitmap_test bm k)"
        have "\<forall>k. i \<le> k \<and> k < tot \<longrightarrow> bitmap_test bm k"
          using a used step by blast
        with a show ?thesis unfolding eq by blast
      next
        assume b: "i + 1 \<le> find_free_from bm tot (i + 1) \<and> find_free_from bm tot (i + 1) < tot
           \<and> \<not> bitmap_test bm (find_free_from bm tot (i + 1))
           \<and> (\<forall>k. i + 1 \<le> k \<and> k < find_free_from bm tot (i + 1) \<longrightarrow> bitmap_test bm k)"
        have "\<forall>k. i \<le> k \<and> k < find_free_from bm tot (i + 1) \<longrightarrow> bitmap_test bm k"
          using b used step by blast
        moreover have "i \<le> find_free_from bm tot (i + 1)"
          using b le order_trans by blast
        ultimately show ?thesis using b unfolding eq by blast
      qed
    qed
  qed
qed

text \<open>
  What \<open>find_free_page\<close> returns: \<open>- 1\<close> when every frame is used, and otherwise a free
  frame below which every frame is used.
\<close>

lemma find_free_page_spec:
  "(find_free_page s = - 1 \<and> (\<forall>k. k < total_pages s \<longrightarrow> bitmap_test (page_bitmap s) k))
   \<or> (find_free_page s < total_pages s
       \<and> \<not> bitmap_test (page_bitmap s) (find_free_page s)
       \<and> (\<forall>k. k < find_free_page s \<longrightarrow> bitmap_test (page_bitmap s) k))"
  using find_free_from_spec [of "page_bitmap s" "total_pages s" 0]
  by (simp add: find_free_page_def)

lemma find_free_page_lowest:
  assumes "p < total_pages s" and "\<not> bitmap_test (page_bitmap s) p"
    and "\<forall>k. k < p \<longrightarrow> bitmap_test (page_bitmap s) k"
  shows "find_free_page s = p"
proof -
  from find_free_page_spec [of s] assms(1,2)
  have q: "find_free_page s < total_pages s"
      "\<not> bitmap_test (page_bitmap s) (find_free_page s)"
      "\<forall>k. k < find_free_page s \<longrightarrow> bitmap_test (page_bitmap s) k"
    by blast+
  have "\<not> p < find_free_page s" using q(3) assms(2) by blast
  moreover have "\<not> find_free_page s < p" using assms(3) q(2) by blast
  ultimately show ?thesis by simp
qed

text \<open>Frame numbers below \<open>MAX_PAGES\<close> and their addresses.\<close>

lemma unat_ucast_u32_u64: "unat (ucast (w :: u32) :: u64) = unat w"
proof -
  have "unat w < 2 ^ 32" using unsigned_less [of w, where 'a = nat] by simp
  then have "unat w < 2 ^ 64" by simp
  then show ?thesis by (simp add: unsigned_ucast_eq take_bit_nat_eq_self)
qed

lemma ucast_u64_u32_eq:
  assumes "unat (x :: u64) = unat (p :: u32)"
  shows "(ucast x :: u32) = p"
proof -
  have "unat (ucast x :: u32) = take_bit 32 (unat p)"
    using assms by (simp add: unsigned_ucast_eq)
  also have "\<dots> = unat p"
    using unsigned_less [of p, where 'a = nat] by (simp add: take_bit_nat_eq_self)
  finally show ?thesis by (simp add: word_unat_eq_iff)
qed

lemma frame_addr_unat:
  assumes "unat p < 1048576"
  shows "unat (ucast (p * 4096 :: u32) :: u64) = unat p * 4096"
proof -
  have "unat p * unat (4096 :: u32) < 2 ^ LENGTH(32)" using assms by simp
  then have "unat (p * 4096) = unat p * unat (4096 :: u32)" by (simp only: unat_mult_lem)
  then show ?thesis by (simp add: unat_ucast_u32_u64)
qed

lemma frame_addr_page:
  assumes "unat p < 1048576"
  shows "(ucast ((ucast (p * 4096 :: u32) :: u64) div PAGE_SIZE) :: u32) = p"
proof -
  have "unat ((ucast (p * 4096 :: u32) :: u64) div PAGE_SIZE) = unat p"
    by (simp add: unat_div frame_addr_unat [OF assms] PAGE_SIZE_def)
  then show ?thesis by (rule ucast_u64_u32_eq)
qed

lemma frame_addr_zero:
  assumes "unat p < 1048576"
  shows "((ucast (p * 4096 :: u32) :: u64) = 0) = (p = 0)"
proof -
  have "((ucast (p * 4096 :: u32) :: u64) = 0) = (unat (ucast (p * 4096 :: u32) :: u64) = 0)"
    by (simp add: unat_eq_0)
  also have "\<dots> = (unat p = 0)" by (simp add: frame_addr_unat [OF assms])
  also have "\<dots> = (p = 0)" by (simp add: unat_eq_0)
  finally show ?thesis .
qed

lemma below_total_small:
  assumes "(ucast (total_pages s) :: u64) \<le> MAX_PAGES" and "p < total_pages s"
  shows "unat p < 1048576"
proof -
  have "unat (ucast (total_pages s) :: u64) \<le> unat MAX_PAGES"
    using assms(1) by (simp add: word_le_nat_alt)
  then have "unat (total_pages s) \<le> 1048576"
    by (simp add: MAX_PAGES_def unat_ucast_u32_u64)
  moreover have "unat p < unat (total_pages s)" using assms(2) by (simp add: word_less_nat_alt)
  ultimately show ?thesis by simp
qed

lemma frame_addr_mult:
  assumes "unat p < 1048576"
  shows "(ucast (p * 4096 :: u32) :: u64) = ucast p * PAGE_SIZE"
proof -
  have "unat (ucast p :: u64) * unat (4096 :: u64) < 2 ^ LENGTH(64)"
    using assms by (simp add: unat_ucast_u32_u64)
  then have "unat ((ucast p :: u64) * 4096) = unat (ucast p :: u64) * unat (4096 :: u64)"
    by (simp only: unat_mult_lem)
  then have "unat ((ucast p :: u64) * 4096) = unat (ucast (p * 4096 :: u32) :: u64)"
    using frame_addr_unat [OF assms] by (simp add: unat_ucast_u32_u64)
  then show ?thesis by (simp add: word_unat_eq_iff PAGE_SIZE_def)
qed

text \<open>
  \<open>lowest_free s p\<close>: frame \<open>p\<close> is managed and free, and every frame of lower index is
  used. \<open>exhausted s\<close>: no managed frame is free.
\<close>

definition lowest_free :: "pmm \<Rightarrow> u32 \<Rightarrow> bool" where
  "lowest_free s p \<longleftrightarrow>
     p < total_pages s \<and> \<not> bitmap_test (page_bitmap s) p
     \<and> (\<forall>k. k < p \<longrightarrow> bitmap_test (page_bitmap s) k)"

definition exhausted :: "pmm \<Rightarrow> bool" where
  "exhausted s \<longleftrightarrow> (\<forall>k. k < total_pages s \<longrightarrow> bitmap_test (page_bitmap s) k)"

lemma exhausted_or_lowest_free: "exhausted s \<or> lowest_free s (find_free_page s)"
  using find_free_page_spec [of s] by (auto simp: exhausted_def lowest_free_def)

lemma lowest_free_find: "lowest_free s p \<Longrightarrow> find_free_page s = p"
  by (rule find_free_page_lowest) (auto simp: lowest_free_def)

lemma exhausted_find: "exhausted s \<Longrightarrow> find_free_page s = - 1"
  using find_free_page_spec [of s] by (auto simp: exhausted_def)

lemma below_total_not_minus_one: "p < (t :: u32) \<Longrightarrow> p \<noteq> - 1"
  by (auto simp: word_order.not_eq_extremum [symmetric] dest: order_less_trans)

lemma pmm_alloc_page_exhausted: "exhausted s \<Longrightarrow> pmm_alloc_page s = (0, s)"
  by (simp add: pmm_alloc_page_def exhausted_find)

lemma pmm_alloc_page_lowest:
  assumes "lowest_free s p"
  shows "pmm_alloc_page s =
           (ucast (p * 4096),
            s\<lparr>page_bitmap := bitmap_set (page_bitmap s) p, used_pages := used_pages s + 1\<rparr>)"
proof -
  have "p \<noteq> - 1" using assms by (auto simp: lowest_free_def dest: below_total_not_minus_one)
  then show ?thesis by (simp add: pmm_alloc_page_def lowest_free_find [OF assms] Let_def)
qed

lemma pmm_free_page_frame:
  assumes "unat p < 1048576" and "p \<noteq> 0" and "p < total_pages s"
    and "bitmap_test (page_bitmap s) p"
  shows "pmm_free_page s (ucast (p * 4096)) =
           s\<lparr>page_bitmap := bitmap_clear (page_bitmap s) p, used_pages := used_pages s - 1\<rparr>"
  using assms
  by (simp add: pmm_free_page_def frame_addr_page frame_addr_zero Let_def)

text \<open>
  Claim C5. In an allocator that manages at most \<open>MAX_PAGES\<close> frames (\<open>pmm_init\<close>
  caps \<open>total_pages\<close> there), whenever some managed frame is free \<open>pmm_alloc_page\<close>
  returns the address \<open>p * PAGE_SIZE\<close> of the free frame \<open>p\<close> of lowest index and marks
  it used. And whatever three calls of \<open>pmm_alloc_page\<close> return as \<open>A\<close>, \<open>B\<close>, \<open>C\<close>,
  after \<open>pmm_free_page B\<close> the next \<open>pmm_alloc_page\<close> returns \<open>B\<close> again.
\<close>

theorem pmm_alloc_page_first_fit:
  assumes small: "(ucast (total_pages s) :: u64) \<le> MAX_PAGES"
  shows "((\<exists>k. k < total_pages s \<and> \<not> bitmap_test (page_bitmap s) k) \<longrightarrow>
            (\<exists>p. p < total_pages s \<and> \<not> bitmap_test (page_bitmap s) p
               \<and> (\<forall>k. k < p \<longrightarrow> bitmap_test (page_bitmap s) k)
               \<and> fst (pmm_alloc_page s) = ucast p * PAGE_SIZE
               \<and> bitmap_test (page_bitmap (snd (pmm_alloc_page s))) p))
       \<and> (\<forall>A s1 B s2 C s3.
            pmm_alloc_page s = (A, s1) \<and> pmm_alloc_page s1 = (B, s2)
              \<and> pmm_alloc_page s2 = (C, s3)
            \<longrightarrow> fst (pmm_alloc_page (pmm_free_page s3 B)) = B)"
proof (intro conjI impI allI)
  assume "\<exists>k. k < total_pages s \<and> \<not> bitmap_test (page_bitmap s) k"
  then have "\<not> exhausted s" by (auto simp: exhausted_def)
  with exhausted_or_lowest_free [of s] have lf: "lowest_free s (find_free_page s)" by simp
  let ?p = "find_free_page s"
  have "unat ?p < 1048576" using small lf by (auto simp: lowest_free_def intro: below_total_small)
  then have "fst (pmm_alloc_page s) = ucast ?p * PAGE_SIZE"
    by (simp add: pmm_alloc_page_lowest [OF lf] frame_addr_mult)
  moreover have "bitmap_test (page_bitmap (snd (pmm_alloc_page s))) ?p"
    by (simp add: pmm_alloc_page_lowest [OF lf] bitmap_test_set)
  ultimately show "\<exists>p. p < total_pages s \<and> \<not> bitmap_test (page_bitmap s) p
               \<and> (\<forall>k. k < p \<longrightarrow> bitmap_test (page_bitmap s) k)
               \<and> fst (pmm_alloc_page s) = ucast p * PAGE_SIZE
               \<and> bitmap_test (page_bitmap (snd (pmm_alloc_page s))) p"
    using lf unfolding lowest_free_def by blast
next
  fix A s1 B s2 C s3
  assume run: "pmm_alloc_page s = (A, s1) \<and> pmm_alloc_page s1 = (B, s2)
              \<and> pmm_alloc_page s2 = (C, s3)"
  show "fst (pmm_alloc_page (pmm_free_page s3 B)) = B"
  proof (cases "exhausted s1")
    case True
    with run have B: "B = 0" and s2: "s2 = s1" by (simp_all add: pmm_alloc_page_exhausted)
    with run True have "s3 = s1" by (simp add: pmm_alloc_page_exhausted)
    with B True show ?thesis by (simp add: pmm_free_page_def pmm_alloc_page_exhausted)
  next
    case False
    with exhausted_or_lowest_free [of s1] have lb: "lowest_free s1 (find_free_page s1)" by simp
    define b where "b = find_free_page s1"
    have lb': "lowest_free s1 b" using lb by (simp add: b_def)
    have tot1: "total_pages s1 = total_pages s"
      using run exhausted_or_lowest_free [of s]
      by (auto simp: pmm_alloc_page_exhausted pmm_alloc_page_lowest)
    have b_small: "unat b < 1048576"
      using small lb' tot1 by (auto simp: lowest_free_def intro: below_total_small [of s])
    have b_nz: "b \<noteq> 0"
    proof
      assume "b = 0"
      with lb' have z: "\<not> bitmap_test (page_bitmap s1) 0" "0 < total_pages s1"
        by (auto simp: lowest_free_def)
      show False
      proof (cases "exhausted s")
        case True
        with run have "s1 = s" by (simp add: pmm_alloc_page_exhausted)
        with True z show False by (auto simp: exhausted_def)
      next
        case False
        with exhausted_or_lowest_free [of s] have la: "lowest_free s (find_free_page s)" by simp
        from run have s1: "page_bitmap s1 = bitmap_set (page_bitmap s) (find_free_page s)"
          by (auto simp: pmm_alloc_page_lowest [OF la])
        from z(1) have "find_free_page s \<noteq> 0" "\<not> bitmap_test (page_bitmap s) 0"
          by (auto simp: s1 bitmap_test_set)
        then show False using la by (auto simp: lowest_free_def word_neq_0_conv)
      qed
    qed
    from run have B: "B = ucast (b * 4096)"
      and s2: "s2 = s1\<lparr>page_bitmap := bitmap_set (page_bitmap s1) b,
                         used_pages := used_pages s1 + 1\<rparr>"
      by (simp_all add: pmm_alloc_page_lowest [OF lb'])
    have used2: "bitmap_test (page_bitmap s2) k = (k = b \<or> bitmap_test (page_bitmap s1) k)" for k
      by (simp add: s2 bitmap_test_set)
    have tot2: "total_pages s2 = total_pages s1" by (simp add: s2)
    have s3: "total_pages s3 = total_pages s1
              \<and> (\<forall>k. bitmap_test (page_bitmap s2) k \<longrightarrow> bitmap_test (page_bitmap s3) k)"
      using run exhausted_or_lowest_free [of s2] tot2
      by (auto simp: pmm_alloc_page_exhausted pmm_alloc_page_lowest bitmap_test_set)
    have b3: "bitmap_test (page_bitmap s3) b" using s3 used2 by blast
    have below3: "\<forall>k. k < b \<longrightarrow> bitmap_test (page_bitmap s3) k"
      using s3 used2 lb' by (auto simp: lowest_free_def)
    have b_tot3: "b < total_pages s3" using s3 lb' by (simp add: lowest_free_def)
    have free: "pmm_free_page s3 B =
                  s3\<lparr>page_bitmap := bitmap_clear (page_bitmap s3) b,
                      used_pages := used_pages s3 - 1\<rparr>"
      unfolding B using b_small b_nz b_tot3 b3 by (rule pmm_free_page_frame)
    have "lowest_free (pmm_free_page s3 B) b"
      using b_tot3 below3 by (auto simp: free lowest_free_def bitmap_test_clear)
    then show ?thesis by (simp add: pmm_alloc_page_lowest B)
  qed
qed

text \<open>
  A small machine for concrete runs: 64 KiB of memory, that is 16 frames, with the kernel
  image and the bitmap above them. After \<open>pmm_init\<close> only frame 0 is used.
\<close>

definition pmm_demo :: pmm where
  "pmm_demo = pmm_init pmm_bss 0x10000 0x122000 0x101000"

lemma pmm_demo_eq:
  "pmm_demo = \<lparr>page_bitmap = (\<lambda>_. 0)(0 := 1), total_pages = 16, used_pages = 1,
                total_memory = 0x10000\<rparr>"
proof -
  have c: "(\<lambda>i :: u32. if (ucast i :: u64) < BITMAP_SIZE then 0 else page_bitmap pmm_bss i)
             = (\<lambda>_. 0)"
    by (auto simp: pmm_bss_def)
  show ?thesis
    unfolding pmm_demo_def pmm_init_def c
    apply (simp add: Let_def split del: if_split)
    apply (simp add: pmm_defs split del: if_split)
    apply (simp add: pmm_loops split del: if_split)
    done
qed

lemma pmm_demo_alloc3:
  "pmm_alloc_page pmm_demo =
     (0x1000, \<lparr>page_bitmap = (\<lambda>_. 0)(0 := 3), total_pages = 16, used_pages = 2,
                total_memory = 0x10000\<rparr>)"
  "pmm_alloc_page \<lparr>page_bitmap = (\<lambda>_. 0)(0 := 3), total_pages = 16, used_pages = 2,
                   total_memory = 0x10000\<rparr> =
     (0x2000, \<lparr>page_bitmap = (\<lambda>_. 0)(0 := 7), total_pages = 16, used_pages = 3,
                total_memory = 0x10000\<rparr>)"
  "pmm_alloc_page \<lparr>page_bitmap = (\<lambda>_. 0)(0 := 7), total_pages = 16, used_pages = 3,
                   total_memory = 0x10000\<rparr> =
     (0x3000, \<lparr>page_bitmap = (\<lambda>_. 0)(0 := 15), total_pages = 16, used_pages = 4,
                total_memory = 0x10000\<rparr>)"
  by (simp_all add: pmm_demo_eq pmm_alloc_page_def find_free_page_def pmm_loops bitmap_test_def
      bitmap_set_def split del: if_split)

theorem pmm_alloc_page_first_fit_witness:
  "(ucast (total_pages pmm_demo) :: u64) \<le> MAX_PAGES
   \<and> (1 :: u32) < total_pages pmm_demo \<and> \<not> bitmap_test (page_bitmap pmm_demo) 1
   \<and> fst (pmm_alloc_page pmm_demo) = 0x1000
   \<and> fst (pmm_alloc_page (snd (pmm_alloc_page pmm_demo))) = 0x2000
   \<and> fst (pmm_alloc_page (snd (pmm_alloc_page (snd (pmm_alloc_page pmm_demo))))) = 0x3000
   \<and> fst (pmm_alloc_page (pmm_free_page
         (snd (pmm_alloc_page (snd (pmm_alloc_page (snd (pmm_alloc_page pmm_demo)))))) 0x2000))
       = 0x2000"
proof -
  have small: "(ucast (total_pages pmm_demo) :: u64) \<le> MAX_PAGES"
    by (simp add: pmm_demo_eq MAX_PAGES_def)
  have free1: "(1 :: u32) < total_pages pmm_demo \<and> \<not> bitmap_test (page_bitmap pmm_demo) 1"
    by (simp add: pmm_demo_eq bitmap_test_def)
  have a: "fst (pmm_alloc_page pmm_demo) = 0x1000"
    and b: "fst (pmm_alloc_page (snd (pmm_alloc_page pmm_demo))) = 0x2000"
    and c: "fst (pmm_alloc_page (snd (pmm_alloc_page (snd (pmm_alloc_page pmm_demo))))) = 0x3000"
    by (simp_all add: pmm_demo_alloc3)
  from pmm_alloc_page_first_fit [OF small]
  have "\<forall>A s1 B s2 C s3.
            pmm_alloc_page pmm_demo = (A, s1) \<and> pmm_alloc_page s1 = (B, s2)
              \<and> pmm_alloc_page s2 = (C, s3)
            \<longrightarrow> fst (pmm_alloc_page (pmm_free_page s3 B)) = B"
    by blast
  then have "fst (pmm_alloc_page (pmm_free_page
         (snd (pmm_alloc_page (snd (pmm_alloc_page (snd (pmm_alloc_page pmm_demo))))))
         (fst (pmm_alloc_page (snd (pmm_alloc_page pmm_demo))))))
       = fst (pmm_alloc_page (snd (pmm_alloc_page pmm_demo)))"
    by (metis prod.collapse)
  with small free1 a b c show ?thesis by simp
qed

subsection \<open>Frame accounting\<close>

lemma minus_one_u64: "(- 1 :: u64) = 0xFFFFFFFFFFFFFFFF"
  by simp

lemma below_minus_one: "(0 :: u64) < - 1" "(1 :: u64) < - 1"
  unfolding minus_one_u64 by simp_all

text \<open>
  Claim C4 fails on \<open>pmm_alloc_pages\<close>. The scan of \<open>find_free_pages\<close> runs while
  \<open>i < total_pages - count + 1\<close>, an unsigned 64-bit bound that wraps to a huge value
  when \<open>count\<close> exceeds \<open>total_pages + 1\<close>; nothing else rejects such a request. On
  the 16-frame machine a request for 18 contiguous frames succeeds: it returns frame 1,
  sets the bits of frames 1 to 18, of which 16, 17 and 18 do not exist, and adds 18 to
  \<open>used_pages\<close>. The allocator then reports 19 used frames out of 16 and
  \<open>pmm_get_free_pages\<close> reports \<open>16 - 19\<close> in 32 bits, 4294967293 free frames: the
  used count plus the free count is not the total.
\<close>

theorem pmm_alloc_pages_oversized_breaks_accounting:
  "(case pmm_alloc_pages pmm_demo 18 of
      None \<Rightarrow> False
    | Some (addr, s') \<Rightarrow>
        addr = 0x1000 \<and> pmm_get_total_pages s' = 16 \<and> pmm_get_used_pages s' = 19
        \<and> pmm_get_free_pages s' = 0xFFFFFFFD
        \<and> unat (pmm_get_used_pages s') + unat (pmm_get_free_pages s')
            \<noteq> unat (pmm_get_total_pages s'))"
  apply (simp add: pmm_alloc_pages_def find_free_pages_def pmm_demo_eq split del: if_split)
  apply (simp add: pmm_loops bitmap_test_def below_minus_one split del: if_split)
  apply (simp add: pmm_defs split del: if_split)
  done

section \<open>Virtual memory manager (kernel/mm/vmm.c, kernel/include/kernel/memory.h)\<close>

definition PAGE_PRESENT :: u64 where
  "PAGE_PRESENT = 1"

definition PAGE_WRITE :: u64 where
  "PAGE_WRITE = 2"

definition PAGE_USER :: u64 where
  "PAGE_USER = 4"

definition PAGE_NX :: u64 where
  "PAGE_NX = push_bit 63 1"

definition PAGE_FLAGS_KERNEL :: u64 where
  "PAGE_FLAGS_KERNEL = PAGE_PRESENT OR PAGE_WRITE"

definition PAGE_FLAGS_USER :: u64 where
  "PAGE_FLAGS_USER = PAGE_PRESENT OR PAGE_WRITE OR PAGE_USER"

definition KERNEL_VIRTUAL_BASE :: u64 where
  "KERNEL_VIRTUAL_BASE = 0xFFFF800000000000"

text \<open>\<open>PAGE_ALIGN_DOWN(addr)\<close> is \<open>addr & ~(PAGE_SIZE - 1)\<close>, with the \<open>int\<close> mask widened.\<close>

definition PAGE_ALIGN_DOWN :: "u64 \<Rightarrow> u64" where
  "PAGE_ALIGN_DOWN addr = addr AND NOT (PAGE_SIZE - 1)"

definition PML4_INDEX :: "u64 \<Rightarrow> u32" where
  "PML4_INDEX addr = ucast (drop_bit 39 addr AND 0x1FF)"

definition PDPT_INDEX :: "u64 \<Rightarrow> u32" where
  "PDPT_INDEX addr = ucast (drop_bit 30 addr AND 0x1FF)"

definition PD_INDEX :: "u64 \<Rightarrow> u32" where
  "PD_INDEX addr = ucast (drop_bit 21 addr AND 0x1FF)"

definition PT_INDEX :: "u64 \<Rightarrow> u32" where
  "PT_INDEX addr = ucast (drop_bit 12 addr AND 0x1FF)"

definition vmm_phys_to_virt :: "u64 \<Rightarrow> u64" where
  "vmm_phys_to_virt phys = phys + KERNEL_VIRTUAL_BASE"

text \<open>
  The memory the manager works on is byte-addressed, \<open>memory s a\<close> being the byte at the
  pointer value \<open>a\<close>. A page table is an array \<open>uint64_t *table\<close>: \<open>table[index]\<close> is the
  little-endian 64-bit word in the eight bytes from \<open>table + 8 * index\<close> on, so two
  tables whose pointers are less than a page apart share entries. \<open>pm\<close> is the frame
  allocator the manager draws its tables from, \<open>cr3\<close> the register of that name. The
  translation cache of the processor, which \<open>vmm_invlpg\<close> flushes, is not part of the
  state. The block headers of the heap and the task structures are kept in maps of their
  own (\<open>blocks\<close>, \<open>procs\<close>) in the sections below.
\<close>

definition load64 :: "(u64 \<Rightarrow> u8) \<Rightarrow> u64 \<Rightarrow> u64" where
  "load64 m a =
     ucast (m a) OR push_bit 8 (ucast (m (a + 1))) OR push_bit 16 (ucast (m (a + 2)))
     OR push_bit 24 (ucast (m (a + 3))) OR push_bit 32 (ucast (m (a + 4)))
     OR push_bit 40 (ucast (m (a + 5))) OR push_bit 48 (ucast (m (a + 6)))
     OR push_bit 56 (ucast (m (a + 7)))"

definition store64 :: "(u64 \<Rightarrow> u8) \<Rightarrow> u64 \<Rightarrow> u64 \<Rightarrow> (u64 \<Rightarrow> u8)" where
  "store64 m a v =
     m(a := ucast v, a + 1 := ucast (drop_bit 8 v), a + 2 := ucast (drop_bit 16 v),
       a + 3 := ucast (drop_bit 24 v), a + 4 := ucast (drop_bit 32 v),
       a + 5 := ucast (drop_bit 40 v), a + 6 := ucast (drop_bit 48 v),
       a + 7 := ucast (drop_bit 56 v))"

text \<open>\<open>memset(a, c, n)\<close> fills the \<open>n\<close> bytes from \<open>a\<close> on, around the end of the address space.\<close>

definition memset :: "(u64 \<Rightarrow> u8) \<Rightarrow> u64 \<Rightarrow> u8 \<Rightarrow> u64 \<Rightarrow> (u64 \<Rightarrow> u8)" where
  "memset m a c n = (\<lambda>x. if x - a < n then c else m x)"

text \<open>The pointer \<open>&table[index]\<close>.\<close>

definition entry_ptr :: "u64 \<Rightarrow> u32 \<Rightarrow> u64" where
  "entry_ptr table index = table + 8 * ucast index"

record mm =
  pm :: pmm
  current_pml4 :: u64
  cr3 :: u64
  memory :: "u64 \<Rightarrow> u8"

text \<open>
  \<open>get_or_create_table\<close>; \<open>memset((void *)virt, 0, PAGE_SIZE)\<close> clears the new table
  before the parent entry is written.
\<close>

definition get_or_create_table :: "mm \<Rightarrow> u64 \<Rightarrow> u32 \<Rightarrow> u64 \<Rightarrow> u64 \<times> mm" where
  "get_or_create_table s table index flags =
     (let entry = load64 (memory s) (entry_ptr table index) in
      if entry AND PAGE_PRESENT \<noteq> 0 then (entry AND NOT 0xFFF, s)
      else
        let (phys, pm') = pmm_alloc_page (pm s);
            s1 = s\<lparr>pm := pm'\<rparr>
        in if phys = 0 then (0, s1)
           else
             let virt = vmm_phys_to_virt phys;
                 cleared = memset (memory s1) virt 0 PAGE_SIZE
             in (phys, s1\<lparr>memory := store64 cleared (entry_ptr table index) (phys OR flags)\<rparr>))"

text \<open>\<open>vmm_map_page\<close> returns the \<open>int\<close> 0 or \<open>- 1\<close>.\<close>

definition vmm_map_page :: "mm \<Rightarrow> u64 \<Rightarrow> u64 \<Rightarrow> u64 \<Rightarrow> u32 \<times> mm" where
  "vmm_map_page s virt0 phys0 flags =
     (let virt = PAGE_ALIGN_DOWN virt0;
          phys = PAGE_ALIGN_DOWN phys0;
          pml4_idx = PML4_INDEX virt;
          pdpt_idx = PDPT_INDEX virt;
          pd_idx = PD_INDEX virt;
          pt_idx = PT_INDEX virt;
          (pdpt_phys, s1) = get_or_create_table s (current_pml4 s) pml4_idx PAGE_FLAGS_KERNEL
      in if pdpt_phys = 0 then (- 1, s1)
         else
           let pdpt = vmm_phys_to_virt pdpt_phys;
               (pd_phys, s2) = get_or_create_table s1 pdpt pdpt_idx PAGE_FLAGS_KERNEL
           in if pd_phys = 0 then (- 1, s2)
              else
                let pd = vmm_phys_to_virt pd_phys;
                    (pt_phys, s3) = get_or_create_table s2 pd pd_idx PAGE_FLAGS_KERNEL
                in if pt_phys = 0 then (- 1, s3)
                   else
                     let pt = vmm_phys_to_virt pt_phys
                     in (0, s3\<lparr>memory := store64 (memory s3) (entry_ptr pt pt_idx)
                                            (phys OR flags OR PAGE_PRESENT)\<rparr>))"

definition vmm_unmap_page :: "mm \<Rightarrow> u64 \<Rightarrow> mm" where
  "vmm_unmap_page s virt0 =
     (let virt = PAGE_ALIGN_DOWN virt0;
          pml4_idx = PML4_INDEX virt;
          pdpt_idx = PDPT_INDEX virt;
          pd_idx = PD_INDEX virt;
          pt_idx = PT_INDEX virt;
          pml4_entry = load64 (memory s) (entry_ptr (current_pml4 s) pml4_idx)
      in if pml4_entry AND PAGE_PRESENT = 0 then s
         else
           let pdpt = vmm_phys_to_virt (pml4_entry AND NOT 0xFFF);
               pdpt_entry = load64 (memory s) (entry_ptr pdpt pdpt_idx)
           in if pdpt_entry AND PAGE_PRESENT = 0 then s
              else
                let pd = vmm_phys_to_virt (pdpt_entry AND NOT 0xFFF);
                    pd_entry = load64 (memory s) (entry_ptr pd pd_idx)
                in if pd_entry AND PAGE_PRESENT = 0 then s
                   else
                     let pt = vmm_phys_to_virt (pd_entry AND NOT 0xFFF)
                     in s\<lparr>memory := store64 (memory s) (entry_ptr pt pt_idx) 0\<rparr>)"

definition vmm_get_physical :: "mm \<Rightarrow> u64 \<Rightarrow> u64" where
  "vmm_get_physical s virt0 =
     (let page_offset = virt0 AND (PAGE_SIZE - 1);
          virt = PAGE_ALIGN_DOWN virt0;
          pml4_idx = PML4_INDEX virt;
          pdpt_idx = PDPT_INDEX virt;
          pd_idx = PD_INDEX virt;
          pt_idx = PT_INDEX virt;
          pml4_entry = load64 (memory s) (entry_ptr (current_pml4 s) pml4_idx)
      in if pml4_entry AND PAGE_PRESENT = 0 then 0
         else
           let pdpt = vmm_phys_to_virt (pml4_entry AND NOT 0xFFF);
               pdpt_entry = load64 (memory s) (entry_ptr pdpt pdpt_idx)
           in if pdpt_entry AND PAGE_PRESENT = 0 then 0
              else
                let pd = vmm_phys_to_virt (pdpt_entry AND NOT 0xFFF);
                    pd_entry = load64 (memory s) (entry_ptr pd pd_idx)
                in if pd_entry AND PAGE_PRESENT = 0 then 0
                   else
                     let pt = vmm_phys_to_virt (pd_entry AND NOT 0xFFF);
                         pt_entry = load64 (memory s) (entry_ptr pt pt_idx)
                     in if pt_entry AND PAGE_PRESENT = 0 then 0
                        else (pt_entry AND NOT 0xFFF) + page_offset)"

definition vmm_is_mapped :: "mm \<Rightarrow> u64 \<Rightarrow> bool" where
  "vmm_is_mapped s virt = (vmm_get_physical s virt \<noteq> 0)"

subsection \<open>Reading and writing entries\<close>

text \<open>
  A 64-bit word is the eight bytes that \<open>store64\<close> writes; reading an entry back gives
  the word written, and a store or a \<open>memset\<close> that does not touch its eight bytes
  leaves it as it was.
\<close>

lemma bytes_of_word:
  "ucast (ucast v :: u8) OR push_bit 8 (ucast (ucast (drop_bit 8 v) :: u8))
   OR push_bit 16 (ucast (ucast (drop_bit 16 v) :: u8))
   OR push_bit 24 (ucast (ucast (drop_bit 24 v) :: u8))
   OR push_bit 32 (ucast (ucast (drop_bit 32 v) :: u8))
   OR push_bit 40 (ucast (ucast (drop_bit 40 v) :: u8))
   OR push_bit 48 (ucast (ucast (drop_bit 48 v) :: u8))
   OR push_bit 56 (ucast (ucast (drop_bit 56 v) :: u8)) = (v :: u64)"
  (is "?w = v")
proof (rule bit_word_eqI)
  fix n :: nat
  assume "n < LENGTH(64)"
  then have n: "n < 64" by simp
  define r where "r = n mod 8"
  define q where "q = n div 8"
  have r: "r < 8" by (simp add: r_def)
  have nq: "n = 8 * q + r" by (simp add: r_def q_def)
  have "q < 8" using n by (simp add: q_def)
  then have "q = 0 \<or> q = 1 \<or> q = 2 \<or> q = 3 \<or> q = 4 \<or> q = 5 \<or> q = 6 \<or> q = 7"
    by linarith
  with nq consider "n = r" | "n = 8 + r" | "n = 16 + r" | "n = 24 + r" | "n = 32 + r"
    | "n = 40 + r" | "n = 48 + r" | "n = 56 + r"
    by auto
  then show "bit ?w n = bit v n"
    using r by cases (simp_all add: bit_simps)
qed

lemma load64_store64_same: "load64 (store64 m a v) a = v"
  by (simp add: load64_def store64_def bytes_of_word)

lemma small_numerals_u64:
  "(0 :: u64) < 8" "(1 :: u64) < 8" "(2 :: u64) < 8" "(3 :: u64) < 8" "(4 :: u64) < 8"
  "(5 :: u64) < 8" "(6 :: u64) < 8" "(7 :: u64) < 8"
  by (simp_all add: word_less_nat_alt)

lemma load64_cong:
  assumes "\<And>i. i < 8 \<Longrightarrow> m' (b + i) = m (b + i)"
  shows "load64 m' b = load64 m b"
  using assms [of 0] assms [of 1] assms [of 2] assms [of 3] assms [of 4] assms [of 5]
    assms [of 6] assms [of 7]
  by (simp add: load64_def small_numerals_u64)

lemma store64_other_byte:
  assumes "\<And>j. j < 8 \<Longrightarrow> x \<noteq> a + j"
  shows "store64 m a v x = m x"
  using assms [of 0] assms [of 1] assms [of 2] assms [of 3] assms [of 4] assms [of 5]
    assms [of 6] assms [of 7]
  by (simp add: store64_def small_numerals_u64)

lemma byte_apart:
  fixes a b i j :: u64
  assumes "8 \<le> b - a" and "8 \<le> a - b" and "i < 8" and "j < 8"
  shows "b + i \<noteq> a + j"
proof
  assume e: "b + i = a + j"
  have "b - a = (b + i) - (a + i)" by simp
  also have "\<dots> = j - i" by (simp add: e)
  finally have d: "b - a = j - i" .
  have "a - b = (a + j) - (b + j)" by simp
  also have "\<dots> = i - j" by (simp add: e [symmetric])
  finally have d': "a - b = i - j" .
  show False
  proof (cases "i \<le> j")
    case True
    then have "j - i \<le> j" by (rule word_sub_le)
    with assms(1,4) d show False by simp
  next
    case False
    then have "j \<le> i" by simp
    then have "i - j \<le> i" by (rule word_sub_le)
    with assms(2,3) d' show False by simp
  qed
qed

lemma load64_store64_other:
  assumes "8 \<le> b - a" and "8 \<le> a - b"
  shows "load64 (store64 m a v) b = load64 m b"
  by (rule load64_cong, rule store64_other_byte) (rule byte_apart [OF assms])

lemma word_add_small:
  fixes d i n :: u64
  assumes "d \<le> - 8" and "i < 8"
  shows "d \<le> d + i"
proof -
  have "unat d + unat i < 2 ^ 64"
    using assms by (simp add: word_le_nat_alt word_less_nat_alt)
  then show ?thesis
    by (simp add: word_le_nat_alt unat_add_lem [THEN iffD1])
qed

lemma load64_memset_outside:
  assumes "n \<le> b - a" and "b - a \<le> - 8"
  shows "load64 (memset m a c n) b = load64 m b"
proof (rule load64_cong)
  fix i :: u64
  assume i: "i < 8"
  have e: "b + i - a = (b - a) + i" by simp
  have "b - a \<le> (b - a) + i"
    using assms(2) i by (rule word_add_small)
  with assms(1) have "n \<le> (b - a) + i"
    by (rule order_trans)
  then have "\<not> b + i - a < n"
    by (simp only: e not_less)
  then show "memset m a c n (b + i) = m (b + i)"
    by (simp only: memset_def if_False)
qed

lemma load64_memset_inside:
  assumes "8 \<le> n" and "b - a \<le> n - 8"
  shows "load64 (memset m a 0 n) b = 0"
proof -
  have in_range: "b + i - a < n" if i: "i < 8" for i :: u64
  proof -
    have e: "b + i - a = (b - a) + i" by simp
    have "unat (b - a) \<le> unat n - 8"
      using assms by (simp add: word_le_nat_alt unat_sub)
    moreover have "8 \<le> unat n"
      using assms(1) by (simp add: word_le_nat_alt)
    moreover have "unat i < 8"
      using i by (simp add: word_less_nat_alt)
    ultimately have s: "unat (b - a) + unat i < unat n"
      by linarith
    have "unat n < 2 ^ 64"
      using unsigned_less [of n, where 'a = nat] by simp
    with s have "unat ((b - a) + i) = unat (b - a) + unat i"
      by (simp add: unat_add_lem [THEN iffD1])
    with s show ?thesis
      by (simp add: e word_less_nat_alt)
  qed
  have "memset m a 0 n (b + i) = 0" if "i < 8" for i :: u64
    using in_range [OF that] by (simp add: memset_def)
  from this [of 0] this [of 1] this [of 2] this [of 3] this [of 4] this [of 5] this [of 6]
    this [of 7]
  show ?thesis
    by (simp add: load64_def small_numerals_u64)
qed

lemma load64_zero: "load64 (\<lambda>_. 0) a = 0"
  by (simp add: load64_def)

lemmas memory_rules =
  load64_store64_same load64_store64_other load64_memset_outside load64_memset_inside
  load64_zero word_le_nat_alt

subsection \<open>Mapping a page on a small machine\<close>


text \<open>
  The 16-frame machine after two allocations: frame 1 holds an empty top-level table,
  which is the current one, and frame 2 is a frame to map. The memory is all zero.
\<close>

definition mm_demo :: mm where
  "mm_demo =
     \<lparr>pm = snd (pmm_alloc_page (snd (pmm_alloc_page pmm_demo))),
      current_pml4 = vmm_phys_to_virt 0x1000, cr3 = 0x1000, memory = (\<lambda>_. 0)\<rparr>"

lemma mm_demo_eq:
  "mm_demo =
     \<lparr>pm = \<lparr>page_bitmap = (\<lambda>_. 0)(0 := 7), total_pages = 16, used_pages = 3,
             total_memory = 0x10000\<rparr>,
      current_pml4 = 0xFFFF800000001000, cr3 = 0x1000, memory = (\<lambda>_. 0)\<rparr>"
  by (simp add: mm_demo_def pmm_demo_alloc3 vmm_phys_to_virt_def KERNEL_VIRTUAL_BASE_def)

lemmas vmm_defs =
  PAGE_PRESENT_def PAGE_WRITE_def PAGE_USER_def PAGE_FLAGS_KERNEL_def PAGE_FLAGS_USER_def
  KERNEL_VIRTUAL_BASE_def PAGE_ALIGN_DOWN_def PML4_INDEX_def PDPT_INDEX_def PD_INDEX_def
  PT_INDEX_def vmm_phys_to_virt_def PAGE_SIZE_def entry_ptr_def

text \<open>
  \<open>vmm_map_page(0x400000, phys, flags)\<close> on this machine takes the frames 3, 4 and 5
  for the three lower tables and writes the entry of the page into the last of them.
\<close>

lemma mm_demo_map:
  "vmm_map_page mm_demo 0x400000 phys flags =
     (0, \<lparr>pm = \<lparr>page_bitmap = (\<lambda>_. 0)(0 := 63), total_pages = 16, used_pages = 6,
                 total_memory = 0x10000\<rparr>,
          current_pml4 = 0xFFFF800000001000, cr3 = 0x1000,
          memory =
            store64
              (store64
                (memset
                  (store64
                    (memset
                      (store64 (memset (\<lambda>_. 0) 0xFFFF800000003000 0 4096)
                         0xFFFF800000001000 0x3003)
                      0xFFFF800000004000 0 4096)
                    0xFFFF800000003000 0x4003)
                  0xFFFF800000005000 0 4096)
                0xFFFF800000004010 0x5003)
              0xFFFF800000005000 (PAGE_ALIGN_DOWN phys OR flags OR PAGE_PRESENT)\<rparr>)"
  apply (simp add: vmm_map_page_def mm_demo_eq Let_def split del: if_split)
  apply (simp add: get_or_create_table_def pmm_alloc_page_def find_free_page_def pmm_loops
      bitmap_test_def bitmap_set_def vmm_defs memory_rules Let_def split del: if_split)
  done

text \<open>
  The scenario of the specification: \<open>0x400000\<close> mapped to frame \<open>0x2000\<close> with
  \<open>PAGE_FLAGS_KERNEL\<close> translates to the frame and is reported mapped, and is reported
  not mapped after \<open>vmm_unmap_page\<close>.
\<close>

lemma mm_demo_round_trip:
  "vmm_get_physical (snd (vmm_map_page mm_demo 0x400000 0x2000 PAGE_FLAGS_KERNEL)) 0x400000
     = 0x2000"
  "vmm_is_mapped (snd (vmm_map_page mm_demo 0x400000 0x2000 PAGE_FLAGS_KERNEL)) 0x400000"
  "\<not> vmm_is_mapped
       (vmm_unmap_page (snd (vmm_map_page mm_demo 0x400000 0x2000 PAGE_FLAGS_KERNEL)) 0x400000)
       0x400000"
  by (simp_all add: mm_demo_map vmm_is_mapped_def vmm_unmap_page_def vmm_get_physical_def
      vmm_defs memory_rules Let_def)

text \<open>
  Claim C6 fails in the code for a flag above bit 11. Every reader of an entry takes its
  address with the mask \<open>~0xFFF\<close>, which removes the twelve low flag bits only, so the
  no-execute flag \<open>PAGE_NX\<close> (bit 63) comes back as part of the address: after the
  successful \<open>vmm_map_page(0x400000, 0x2000, PAGE_NX | PAGE_WRITE)\<close> the address
  translates to \<open>0x8000000000002000\<close>, not to the frame \<open>0x2000\<close>.
\<close>

theorem vmm_map_page_nx_counterexample:
  "fst (vmm_map_page mm_demo 0x400000 0x2000 (PAGE_NX OR PAGE_WRITE)) = 0
   \<and> vmm_get_physical (snd (vmm_map_page mm_demo 0x400000 0x2000 (PAGE_NX OR PAGE_WRITE)))
         0x400000 = 0x8000000000002000
   \<and> vmm_get_physical (snd (vmm_map_page mm_demo 0x400000 0x2000 (PAGE_NX OR PAGE_WRITE)))
         0x400000 \<noteq> 0x2000"
  by (simp add: mm_demo_map vmm_get_physical_def PAGE_NX_def vmm_defs memory_rules Let_def)

text \<open>
  \<open>vmm_init\<close> maps the first 4 MiB onto themselves, page 0 onto frame 0 among them. A
  page mapped to frame 0 with \<open>PAGE_FLAGS_KERNEL\<close> translates to 0 and is reported not
  mapped, as a page without a mapping is.
\<close>

lemma frame_zero_kernel_flags:
  "fst (vmm_map_page mm_demo 0x400000 0 PAGE_FLAGS_KERNEL) = 0"
  "vmm_get_physical (snd (vmm_map_page mm_demo 0x400000 0 PAGE_FLAGS_KERNEL)) 0x400000 = 0"
  "\<not> vmm_is_mapped (snd (vmm_map_page mm_demo 0x400000 0 PAGE_FLAGS_KERNEL)) 0x400000"
  by (simp_all add: mm_demo_map vmm_is_mapped_def vmm_get_physical_def vmm_defs memory_rules
      Let_def)

lemma mm_demo_unmapped:
  "vmm_get_physical mm_demo 0x400000 = 0"
  "\<not> vmm_is_mapped mm_demo 0x400000"
  by (simp_all add: mm_demo_eq vmm_is_mapped_def vmm_get_physical_def vmm_defs memory_rules
      Let_def)

text \<open>
  Claim C10 fails in the code for a mapping that carries a flag above bit 11. After the
  successful \<open>vmm_map_page(0x400000, 0, PAGE_NX | PAGE_WRITE)\<close> the page is mapped to
  frame 0, but \<open>vmm_get_physical\<close> returns \<open>0x8000000000000000\<close> and \<open>vmm_is_mapped\<close>
  returns true: the page is told apart from one without a mapping, for which both
  return 0 and false.
\<close>

theorem frame_zero_nx_reads_as_mapped:
  "fst (vmm_map_page mm_demo 0x400000 0 (PAGE_NX OR PAGE_WRITE)) = 0
   \<and> vmm_get_physical (snd (vmm_map_page mm_demo 0x400000 0 (PAGE_NX OR PAGE_WRITE))) 0x400000
       = 0x8000000000000000
   \<and> vmm_is_mapped (snd (vmm_map_page mm_demo 0x400000 0 (PAGE_NX OR PAGE_WRITE))) 0x400000
   \<and> vmm_get_physical mm_demo 0x400000 = 0
   \<and> \<not> vmm_is_mapped mm_demo 0x400000"
proof -
  have "fst (vmm_map_page mm_demo 0x400000 0 (PAGE_NX OR PAGE_WRITE)) = 0"
    and "vmm_get_physical (snd (vmm_map_page mm_demo 0x400000 0 (PAGE_NX OR PAGE_WRITE)))
           0x400000 = 0x8000000000000000"
    by (simp_all add: mm_demo_map vmm_get_physical_def PAGE_NX_def vmm_defs memory_rules Let_def)
  then show ?thesis
    by (simp add: vmm_is_mapped_def mm_demo_unmapped)
qed

section \<open>Kernel heap (kernel/mm/heap.c)\<close>

definition HEAP_MAGIC :: u32 where
  "HEAP_MAGIC = 0x48454150"

definition MIN_BLOCK_SIZE :: u64 where
  "MIN_BLOCK_SIZE = 32"

text \<open>
  \<open>heap_block_t\<close>: two 32-bit fields, a \<open>bool\<close> and two pointers, 32 bytes on x86_64
  (\<open>sizeof_heap_block\<close>). The field \<open>size\<close> is \<open>bsize\<close> here; a \<open>NULL\<close> pointer is 0.
\<close>

record heap_block =
  magic :: u32
  bsize :: u32
  free :: bool
  "next" :: u64
  prev :: u64

definition sizeof_heap_block :: u64 where
  "sizeof_heap_block = 32"

text \<open>
  The file's globals, and the memory of the arena read as block headers: \<open>blocks h a\<close> is
  the header the kernel sees at address \<open>a\<close>, whatever the bytes there are.
\<close>

record heap =
  heap_start :: u64
  heap_end :: u64
  heap_size :: u64
  first_block :: u64
  allocation_count :: u32
  blocks :: "u64 \<Rightarrow> heap_block"

text \<open>The error lines the allocator prints.\<close>

datatype heap_report =
    Expand_out_of_memory
  | Expand_map_failed
  | Heap_corruption u64
  | Invalid_free u64
  | Double_free u64

text \<open>
  \<open>coalesce_blocks\<close>: the loop from block \<open>current\<close> on, statement by statement on the
  memory. It follows \<open>next\<close> pointers and ends only at a \<open>NULL\<close>, so it is a partial
  function: \<open>None\<close> is a loop that never returns.
\<close>

definition merge_next :: "(u64 \<Rightarrow> heap_block) \<Rightarrow> u64 \<Rightarrow> (u64 \<Rightarrow> heap_block)" where
  "merge_next bl current =
     (let b1 = bl(current := (bl current)
                  \<lparr>bsize := bsize (bl current) + bsize (bl (next (bl current)))\<rparr>);
          b2 = b1(current := (b1 current)\<lparr>next := next (b1 (next (b1 current)))\<rparr>)
      in if next (b2 current) \<noteq> 0
         then b2(next (b2 current) := (b2 (next (b2 current)))\<lparr>prev := current\<rparr>)
         else b2)"

partial_function (option) coalesce_from ::
  "(u64 \<Rightarrow> heap_block) \<Rightarrow> u64 \<Rightarrow> (u64 \<Rightarrow> heap_block) option" where
  "coalesce_from bl current =
     (if current \<noteq> 0 \<and> next (bl current) \<noteq> 0
      then (if free (bl current) \<and> free (bl (next (bl current)))
            then coalesce_from (merge_next bl current) current
            else coalesce_from bl (next (bl current)))
      else Some bl)"

definition coalesce_blocks :: "heap \<Rightarrow> heap option" where
  "coalesce_blocks h = map_option (\<lambda>bl. h\<lparr>blocks := bl\<rparr>) (coalesce_from (blocks h) (first_block h))"

text \<open>
  \<open>kfree\<close>. The result is the heap it leaves and the error line it printed, if any;
  \<open>None\<close> when the coalescing loop does not return.
\<close>

definition kfree :: "heap \<Rightarrow> u64 \<Rightarrow> (heap \<times> heap_report option) option" where
  "kfree h ptr =
     (if ptr = 0 then Some (h, None)
      else
        let block = ptr - sizeof_heap_block in
        if magic (blocks h block) \<noteq> HEAP_MAGIC then Some (h, Some (Invalid_free ptr))
        else if free (blocks h block) then Some (h, Some (Double_free ptr))
        else
          map_option (\<lambda>h'. (h', None))
            (coalesce_blocks
               (h\<lparr>blocks := (blocks h)(block := (blocks h block)\<lparr>free := True\<rparr>),
                   allocation_count := allocation_count h - 1\<rparr>)))"

text \<open>
  \<open>heap_expand\<close>: the loop from page \<open>i\<close> on. It draws frames from the allocator and maps
  them behind \<open>heap_end\<close>; the result is the \<open>int\<close>, the memory state and the printed
  error.
\<close>

definition PAGE_ALIGN :: "u64 \<Rightarrow> u64" where
  "PAGE_ALIGN addr = (addr + PAGE_SIZE - 1) AND NOT (PAGE_SIZE - 1)"

function heap_expand_from ::
  "u64 \<Rightarrow> u64 \<Rightarrow> u64 \<Rightarrow> mm \<Rightarrow> u32 \<times> mm \<times> heap_report option" where
  "heap_expand_from hend i pages_needed m =
     (if i < pages_needed
      then
        (let phys = fst (pmm_alloc_page (pm m));
             m1 = m\<lparr>pm := snd (pmm_alloc_page (pm m))\<rparr>
         in if phys = 0 then (- 1, m1, Some Expand_out_of_memory)
            else
              let virt = hend + i * PAGE_SIZE;
                  mapped = vmm_map_page m1 virt phys PAGE_FLAGS_KERNEL
              in if fst mapped \<noteq> 0
                 then (- 1, (snd mapped)\<lparr>pm := pmm_free_page (pm (snd mapped)) phys\<rparr>,
                       Some Expand_map_failed)
                 else heap_expand_from hend (i + 1) pages_needed (snd mapped))
      else (0, m, None))"
  by pat_completeness auto
termination
  by (relation "measure (\<lambda>(hend, i, pages_needed, m). unat pages_needed - unat i)")
     (auto simp: word_less_nat_alt word_succ_unat)

declare heap_expand_from.simps [simp del]

definition heap_expand :: "heap \<Rightarrow> mm \<Rightarrow> u64 \<Rightarrow> u32 \<times> heap \<times> mm \<times> heap_report option" where
  "heap_expand h m additional_size0 =
     (let additional_size = PAGE_ALIGN additional_size0;
          pages_needed = BYTES_TO_PAGES additional_size;
          (r, m', report) = heap_expand_from (heap_end h) 0 pages_needed m
      in if r \<noteq> 0 then (- 1, h, m', report)
         else (0, h\<lparr>heap_end := heap_end h + additional_size,
                      heap_size := heap_size h + additional_size\<rparr>, m', None))"

text \<open>\<open>heap_init\<close>; on a failed expansion it leaves \<open>first_block\<close> as it was.\<close>

definition heap_init :: "heap \<Rightarrow> mm \<Rightarrow> u64 \<Rightarrow> u64 \<Rightarrow> heap \<times> mm" where
  "heap_init h0 m start_addr initial_size =
     (let h = h0\<lparr>heap_start := start_addr, heap_end := start_addr, heap_size := 0\<rparr>;
          (r, h1, m1, report) = heap_expand h m initial_size
      in if r \<noteq> 0 then (h1, m1)
         else
           (h1\<lparr>first_block := heap_start h1,
                blocks := (blocks h1)(heap_start h1 :=
                  \<lparr>magic = HEAP_MAGIC, bsize = ucast (heap_size h1), free = True,
                   next = 0, prev = 0\<rparr>),
                allocation_count := 0\<rparr>, m1))"

text \<open>
  \<open>find_free_block\<close> returns the block, or \<open>NULL\<close> with the corruption it reported.
\<close>

partial_function (option) find_free_block_from ::
  "(u64 \<Rightarrow> heap_block) \<Rightarrow> u64 \<Rightarrow> u64 \<Rightarrow> (u64 \<times> heap_report option) option" where
  "find_free_block_from bl sz current =
     (if current \<noteq> 0
      then (if magic (bl current) \<noteq> HEAP_MAGIC then Some (0, Some (Heap_corruption current))
            else if free (bl current) \<and> ucast (bsize (bl current)) \<ge> sz then Some (current, None)
            else find_free_block_from bl sz (next (bl current)))
      else Some (0, None))"

definition find_free_block :: "heap \<Rightarrow> u64 \<Rightarrow> (u64 \<times> heap_report option) option" where
  "find_free_block h sz = find_free_block_from (blocks h) sz (first_block h)"

definition split_block :: "(u64 \<Rightarrow> heap_block) \<Rightarrow> u64 \<Rightarrow> u64 \<Rightarrow> (u64 \<Rightarrow> heap_block)" where
  "split_block bl block sz =
     (if (ucast (bsize (bl block)) :: u64) \<ge> sz + sizeof_heap_block + MIN_BLOCK_SIZE
      then
        let new_block = block + sz;
            b1 = bl(new_block := (bl new_block)\<lparr>magic := HEAP_MAGIC\<rparr>);
            b2 = b1(new_block := (b1 new_block)
                     \<lparr>bsize := ucast ((ucast (bsize (b1 block)) :: u64) - sz)\<rparr>);
            b3 = b2(new_block := (b2 new_block)\<lparr>free := True\<rparr>);
            b4 = b3(new_block := (b3 new_block)\<lparr>next := next (b3 block)\<rparr>);
            b5 = b4(new_block := (b4 new_block)\<lparr>prev := block\<rparr>);
            b6 = (if next (b5 block) \<noteq> 0
                  then b5(next (b5 block) := (b5 (next (b5 block)))\<lparr>prev := new_block\<rparr>)
                  else b5);
            b7 = b6(block := (b6 block)\<lparr>next := new_block\<rparr>)
        in b7(block := (b7 block)\<lparr>bsize := ucast sz\<rparr>)
      else bl)"

text \<open>The walk \<open>while (last->next != NULL) last = last->next\<close> of \<open>kmalloc\<close>.\<close>

partial_function (option) last_block_from :: "(u64 \<Rightarrow> heap_block) \<Rightarrow> u64 \<Rightarrow> u64 option" where
  "last_block_from bl lastb =
     (if next (bl lastb) \<noteq> 0 then last_block_from bl (next (bl lastb)) else Some lastb)"

text \<open>
  \<open>kmalloc\<close> returns the pointer (\<open>NULL\<close> is 0), the heap, the memory state and what it
  printed.
\<close>

definition kmalloc_take :: "heap \<Rightarrow> u64 \<Rightarrow> u64 \<Rightarrow> u64 \<times> heap" where
  "kmalloc_take h block total_size =
     (let b1 = split_block (blocks h) block total_size;
          b2 = b1(block := (b1 block)\<lparr>free := False\<rparr>)
      in (block + sizeof_heap_block,
          h\<lparr>blocks := b2, allocation_count := allocation_count h + 1\<rparr>))"

definition kmalloc :: "heap \<Rightarrow> mm \<Rightarrow> u64 \<Rightarrow> (u64 \<times> heap \<times> mm \<times> heap_report option) option" where
  "kmalloc h m sz =
     (if sz = 0 then Some (0, h, m, None)
      else
        let t0 = sizeof_heap_block + sz;
            t1 = (if t0 < MIN_BLOCK_SIZE then MIN_BLOCK_SIZE else t0);
            total_size = (t1 + 7) AND NOT 7
        in case find_free_block h total_size of
             None \<Rightarrow> None
           | Some (found, report) \<Rightarrow>
               if found \<noteq> 0
               then Some (fst (kmalloc_take h found total_size),
                          snd (kmalloc_take h found total_size), m, report)
               else
                 let e0 = total_size * 2;
                     expand_size = (if e0 < PAGE_SIZE then PAGE_SIZE else e0);
                     (r, h1, m1, report1) = heap_expand h m expand_size
                 in if r \<noteq> 0 then Some (0, h1, m1, report1)
                    else
                      let block = heap_end h1 - expand_size;
                          fresh = (blocks h1)(block :=
                            \<lparr>magic = HEAP_MAGIC, bsize = ucast expand_size, free = True,
                             next = 0, prev = 0\<rparr>)
                      in if first_block h1 = 0
                         then Some (fst (kmalloc_take (h1\<lparr>blocks := fresh, first_block := block\<rparr>)
                                           block total_size),
                                    snd (kmalloc_take (h1\<lparr>blocks := fresh, first_block := block\<rparr>)
                                           block total_size), m1, report)
                         else
                           (case last_block_from fresh (first_block h1) of
                              None \<Rightarrow> None
                            | Some lastb \<Rightarrow>
                                let linked = fresh(lastb := (fresh lastb)\<lparr>next := block\<rparr>);
                                    linked' = linked(block := (linked block)\<lparr>prev := lastb\<rparr>)
                                in Some (fst (kmalloc_take (h1\<lparr>blocks := linked'\<rparr>) block total_size),
                                         snd (kmalloc_take (h1\<lparr>blocks := linked'\<rparr>) block total_size),
                                         m1, report)))"

text \<open>\<open>kzalloc\<close> is \<open>kmalloc\<close> followed by clearing the payload, which no header holds.\<close>

definition kzalloc :: "heap \<Rightarrow> mm \<Rightarrow> u64 \<Rightarrow> (u64 \<times> heap \<times> mm \<times> heap_report option) option" where
  "kzalloc h m sz = kmalloc h m sz"

subsection \<open>Running the heap on concrete states\<close>

lemma coalesce_from_merge:
  "current \<noteq> 0 \<Longrightarrow> next (bl current) \<noteq> 0 \<Longrightarrow> free (bl current)
     \<Longrightarrow> free (bl (next (bl current)))
     \<Longrightarrow> coalesce_from bl current = coalesce_from (merge_next bl current) current"
  by (simp add: coalesce_from.simps [of bl current])

lemma coalesce_from_advance:
  "current \<noteq> 0 \<Longrightarrow> next (bl current) \<noteq> 0
     \<Longrightarrow> \<not> (free (bl current) \<and> free (bl (next (bl current))))
     \<Longrightarrow> coalesce_from bl current = coalesce_from bl (next (bl current))"
  by (auto simp add: coalesce_from.simps [of bl current])

lemma coalesce_from_end:
  "current = 0 \<or> next (bl current) = 0 \<Longrightarrow> coalesce_from bl current = Some bl"
  by (auto simp add: coalesce_from.simps [of bl current])

lemma find_free_block_from_corrupt:
  "current \<noteq> 0 \<Longrightarrow> magic (bl current) \<noteq> HEAP_MAGIC
     \<Longrightarrow> find_free_block_from bl sz current = Some (0, Some (Heap_corruption current))"
  by (simp add: find_free_block_from.simps [of bl sz current])

lemma find_free_block_from_hit:
  "current \<noteq> 0 \<Longrightarrow> magic (bl current) = HEAP_MAGIC \<Longrightarrow> free (bl current)
     \<Longrightarrow> ucast (bsize (bl current)) \<ge> sz
     \<Longrightarrow> find_free_block_from bl sz current = Some (current, None)"
  by (simp add: find_free_block_from.simps [of bl sz current])

lemma find_free_block_from_skip:
  "current \<noteq> 0 \<Longrightarrow> magic (bl current) = HEAP_MAGIC
     \<Longrightarrow> \<not> (free (bl current) \<and> ucast (bsize (bl current)) \<ge> sz)
     \<Longrightarrow> find_free_block_from bl sz current = find_free_block_from bl sz (next (bl current))"
  by (auto simp add: find_free_block_from.simps [of bl sz current])

lemma find_free_block_from_end: "find_free_block_from bl sz 0 = Some (0, None)"
  by (simp add: find_free_block_from.simps [of bl sz 0])

lemma last_block_from_step:
  "next (bl lastb) \<noteq> 0 \<Longrightarrow> last_block_from bl lastb = last_block_from bl (next (bl lastb))"
  by (simp add: last_block_from.simps [of bl lastb])

lemma last_block_from_end: "next (bl lastb) = 0 \<Longrightarrow> last_block_from bl lastb = Some lastb"
  by (simp add: last_block_from.simps [of bl lastb])

lemma heap_expand_from_done:
  "\<not> i < pages_needed \<Longrightarrow> heap_expand_from hend i pages_needed m = (0, m, None)"
  by (simp add: heap_expand_from.simps [of hend i pages_needed m])

lemma heap_expand_from_step:
  "i < pages_needed \<Longrightarrow> fst (pmm_alloc_page (pm m)) \<noteq> 0
     \<Longrightarrow> fst (vmm_map_page (m\<lparr>pm := snd (pmm_alloc_page (pm m))\<rparr>) (hend + i * PAGE_SIZE)
               (fst (pmm_alloc_page (pm m))) PAGE_FLAGS_KERNEL) = 0
     \<Longrightarrow> heap_expand_from hend i pages_needed m =
           heap_expand_from hend (i + 1) pages_needed
             (snd (vmm_map_page (m\<lparr>pm := snd (pmm_alloc_page (pm m))\<rparr>) (hend + i * PAGE_SIZE)
                     (fst (pmm_alloc_page (pm m))) PAGE_FLAGS_KERNEL))"
  by (simp add: heap_expand_from.simps [of hend i pages_needed m] Let_def)

lemmas heap_loops =
  coalesce_from_merge coalesce_from_advance coalesce_from_end
  find_free_block_from_corrupt find_free_block_from_hit find_free_block_from_skip
  find_free_block_from_end last_block_from_step last_block_from_end

text \<open>
  Claim C7. A pointer other than \<open>NULL\<close> whose header carries the magic tag and has the
  free flag set makes \<open>kfree\<close> print the double-free line and return with the heap as
  it was: the block list, every size and flag, and the allocation counter.
\<close>

theorem kfree_double_free:
  assumes "ptr \<noteq> 0"
    and "magic (blocks h (ptr - sizeof_heap_block)) = HEAP_MAGIC"
    and "free (blocks h (ptr - sizeof_heap_block))"
  shows "kfree h ptr = Some (h, Some (Double_free ptr))"
  using assms by (simp add: kfree_def Let_def)

text \<open>
  A heap of one 4096-byte block at \<open>0xFFFF800200000000\<close>, as \<open>heap_init\<close> creates it.
  An allocation of 100 bytes splits the block and returns the payload address behind the
  first header; the first \<open>kfree\<close> of it merges the two blocks again, the second is the
  double free.
\<close>

definition heap_demo :: heap where
  "heap_demo =
     \<lparr>heap_start = 0xFFFF800200000000, heap_end = 0xFFFF800200001000, heap_size = 4096,
      first_block = 0xFFFF800200000000, allocation_count = 0,
      blocks = (\<lambda>_. \<lparr>magic = 0, bsize = 0, free = False, next = 0, prev = 0\<rparr>)
        (0xFFFF800200000000 :=
           \<lparr>magic = HEAP_MAGIC, bsize = 4096, free = True, next = 0, prev = 0\<rparr>)\<rparr>"

lemma heap_demo_kmalloc:
  "kmalloc heap_demo m 100 =
     Some (0xFFFF800200000020,
           heap_demo\<lparr>allocation_count := 1,
             blocks := (\<lambda>_. \<lparr>magic = 0, bsize = 0, free = False, next = 0, prev = 0\<rparr>)
               (0xFFFF800200000088 :=
                  \<lparr>magic = HEAP_MAGIC, bsize = 3960, free = True, next = 0,
                   prev = 0xFFFF800200000000\<rparr>,
                0xFFFF800200000000 :=
                  \<lparr>magic = HEAP_MAGIC, bsize = 136, free = False, next = 0xFFFF800200000088,
                   prev = 0\<rparr>)\<rparr>, m, None)"
  apply (simp add: kmalloc_def find_free_block_def heap_demo_def sizeof_heap_block_def
      MIN_BLOCK_SIZE_def Let_def split del: if_split)
  apply (simp add: heap_loops HEAP_MAGIC_def split del: if_split)
  apply (simp add: kmalloc_take_def split_block_def sizeof_heap_block_def MIN_BLOCK_SIZE_def
      HEAP_MAGIC_def Let_def fun_upd_twist split del: if_split)
  done

lemma heap_demo_kfree:
  "kfree (heap_demo\<lparr>allocation_count := 1,
             blocks := (\<lambda>_. \<lparr>magic = 0, bsize = 0, free = False, next = 0, prev = 0\<rparr>)
               (0xFFFF800200000088 :=
                  \<lparr>magic = HEAP_MAGIC, bsize = 3960, free = True, next = 0,
                   prev = 0xFFFF800200000000\<rparr>,
                0xFFFF800200000000 :=
                  \<lparr>magic = HEAP_MAGIC, bsize = 136, free = False, next = 0xFFFF800200000088,
                   prev = 0\<rparr>)\<rparr>) 0xFFFF800200000020 =
     Some (heap_demo\<lparr>allocation_count := 0,
             blocks := (\<lambda>_. \<lparr>magic = 0, bsize = 0, free = False, next = 0, prev = 0\<rparr>)
               (0xFFFF800200000088 :=
                  \<lparr>magic = HEAP_MAGIC, bsize = 3960, free = True, next = 0,
                   prev = 0xFFFF800200000000\<rparr>,
                0xFFFF800200000000 :=
                  \<lparr>magic = HEAP_MAGIC, bsize = 4096, free = True, next = 0, prev = 0\<rparr>)\<rparr>,
           None)"
  apply (simp add: kfree_def coalesce_blocks_def heap_demo_def sizeof_heap_block_def
      HEAP_MAGIC_def Let_def split del: if_split)
  apply (simp add: heap_loops merge_next_def Let_def split del: if_split)
  done

theorem kfree_double_free_witness:
  "(case kmalloc heap_demo mm_demo 100 of
      None \<Rightarrow> False
    | Some (p, h1, m1, r1) \<Rightarrow>
        p = 0xFFFF800200000020 \<and> p \<noteq> 0
        \<and> (case kfree h1 p of
               None \<Rightarrow> False
             | Some (h2, r2) \<Rightarrow>
                 r2 = None \<and> magic (blocks h2 (p - sizeof_heap_block)) = HEAP_MAGIC
                 \<and> free (blocks h2 (p - sizeof_heap_block))
                 \<and> kfree h2 p = Some (h2, Some (Double_free p))))"
proof -
  let ?p = "0xFFFF800200000020 :: u64"
  let ?h2 = "heap_demo\<lparr>allocation_count := 0,
             blocks := (\<lambda>_. \<lparr>magic = 0, bsize = 0, free = False, next = 0, prev = 0\<rparr>)
               (0xFFFF800200000088 :=
                  \<lparr>magic = HEAP_MAGIC, bsize = 3960, free = True, next = 0,
                   prev = 0xFFFF800200000000\<rparr>,
                0xFFFF800200000000 :=
                  \<lparr>magic = HEAP_MAGIC, bsize = 4096, free = True, next = 0, prev = 0\<rparr>)\<rparr>"
  have nz: "?p \<noteq> 0" by simp
  have mg: "magic (blocks ?h2 (?p - sizeof_heap_block)) = HEAP_MAGIC"
    and fr: "free (blocks ?h2 (?p - sizeof_heap_block))"
    by (simp_all add: sizeof_heap_block_def)
  from kfree_double_free [OF nz mg fr] mg fr
  show ?thesis
    by (simp add: heap_demo_kmalloc heap_demo_kfree)
qed

section \<open>The in-tree filesystem: reading a file (kernel/fs/simplefs.c)\<close>

definition BLOCK_SIZE :: u64 where
  "BLOCK_SIZE = 512"

definition SIMPLEFS_MAX_FILE_BLOCKS :: u64 where
  "SIMPLEFS_MAX_FILE_BLOCKS = 12"

definition SIMPLEFS_TYPE_FILE :: u32 where
  "SIMPLEFS_TYPE_FILE = 1"

definition SIMPLEFS_TYPE_DIR :: u32 where
  "SIMPLEFS_TYPE_DIR = 2"

text \<open>
  \<open>simplefs_inode_t\<close>; its fields \<open>type\<close>, \<open>size\<close> and \<open>blocks\<close> are \<open>itype\<close>, \<open>isize\<close>
  and \<open>iblocks\<close> here, and \<open>direct\<close> is the array of the twelve direct block pointers.
\<close>

record simplefs_inode =
  number :: u32
  itype :: u32
  isize :: u32
  iblocks :: u32
  direct :: "u32 list"
  created :: u32
  modified :: u32

text \<open>
  The loop of \<open>simplefs_vfs_read\<close> from \<open>bytes_read\<close> on. \<open>rd\<close> is the device's
  \<open>read_block\<close>; a \<open>NULL\<close> there is a call through a null pointer, from which the
  function does not return (\<open>None\<close>). The bytes copied to \<open>buffer\<close> are collected in
  order, each slice landing at \<open>buffer + bytes_read\<close>. The result is the \<open>int\<close> the
  function returns, the bytes it has stored from the start of \<open>buffer\<close>, and the device.
\<close>

lemma read_step_decreases:
  fixes to_read bytes_read pos :: u64
  assumes "bytes_read < to_read"
  shows "unat to_read
           - unat (bytes_read + (if to_read - bytes_read < 512 - pos mod 512
                                 then to_read - bytes_read else 512 - pos mod 512))
         < unat to_read - unat bytes_read"
proof -
  define c where "c = (if to_read - bytes_read < 512 - pos mod 512
                       then to_read - bytes_read else 512 - pos mod 512)"
  have lt: "unat bytes_read < unat to_read" using assms by (simp add: word_less_nat_alt)
  have d: "unat (to_read - bytes_read) = unat to_read - unat bytes_read"
    using assms by (simp add: unat_sub word_le_nat_alt word_less_nat_alt)
  have m: "unat (pos mod 512) < 512"
    by (simp add: unat_mod)
  have r: "unat (512 - pos mod 512) = 512 - unat (pos mod 512)"
    using m by (simp add: unat_sub word_le_nat_alt)
  have c1: "unat c \<le> unat to_read - unat bytes_read"
    using d by (auto simp: c_def word_less_nat_alt)
  have c2: "0 < unat c"
    using d r m lt by (auto simp: c_def)
  have "unat bytes_read + unat c < 2 ^ 64"
    using c1 lt unsigned_less [of to_read, where 'a = nat] by simp
  then have "unat (bytes_read + c) = unat bytes_read + unat c"
    by (simp add: unat_add_lem [where 'a = 64, simplified])
  with c1 c2 lt show ?thesis unfolding c_def [symmetric] by simp
qed

function simplefs_read_loop ::
  "('d \<Rightarrow> u64 \<Rightarrow> u32 \<times> u8 list \<times> 'd) option \<Rightarrow> u32 list \<Rightarrow> u64 \<Rightarrow> u64 \<Rightarrow> u64
     \<Rightarrow> u8 list \<Rightarrow> 'd \<Rightarrow> (u32 \<times> u8 list \<times> 'd) option" where
  "simplefs_read_loop rd direct_ptrs offset to_read bytes_read stored_bytes d =
     (if bytes_read < to_read
      then
        (if (offset + bytes_read) div 512 \<ge> SIMPLEFS_MAX_FILE_BLOCKS
         then Some (ucast bytes_read, stored_bytes, d)
         else if direct_ptrs ! unat ((offset + bytes_read) div 512) = 0
         then Some (ucast bytes_read, stored_bytes, d)
         else if rd = None then None
         else if fst (the rd d (ucast (direct_ptrs ! unat ((offset + bytes_read) div 512)))) \<noteq> 0
         then Some (- 1, stored_bytes,
                    snd (snd (the rd d (ucast (direct_ptrs ! unat ((offset + bytes_read) div 512))))))
         else
           simplefs_read_loop rd direct_ptrs offset to_read
             (bytes_read + (if to_read - bytes_read < 512 - (offset + bytes_read) mod 512
                            then to_read - bytes_read else 512 - (offset + bytes_read) mod 512))
             (stored_bytes @
                take (unat (if to_read - bytes_read < 512 - (offset + bytes_read) mod 512
                            then to_read - bytes_read else 512 - (offset + bytes_read) mod 512))
                  (drop (unat ((offset + bytes_read) mod 512))
                     (fst (snd (the rd d
                        (ucast (direct_ptrs ! unat ((offset + bytes_read) div 512))))))))
             (snd (snd (the rd d (ucast (direct_ptrs ! unat ((offset + bytes_read) div 512)))))))
      else Some (ucast bytes_read, stored_bytes, d))"
  by pat_completeness auto
termination
  by (relation "measure (\<lambda>(rd, direct_ptrs, offset, to_read, bytes_read, stored_bytes, d).
                   unat to_read - unat bytes_read)")
     (simp_all add: read_step_decreases)

declare simplefs_read_loop.simps [simp del]

text \<open>
  \<open>simplefs_vfs_read\<close>. \<open>node\<close> is the inode behind \<open>node->fs_data\<close>, \<open>None\<close> when the
  node or that pointer is \<open>NULL\<close>; \<open>buffer\<close> is the caller's pointer.
\<close>

definition simplefs_vfs_read ::
  "'d block_device \<Rightarrow> simplefs_inode option \<Rightarrow> u64 \<Rightarrow> u64 \<Rightarrow> u64
     \<Rightarrow> (u32 \<times> u8 list \<times> 'd) option" where
  "simplefs_vfs_read dev node offset sz buffer =
     (case node of
        None \<Rightarrow> Some (- 1, [], driver_data dev)
      | Some inode \<Rightarrow>
          if buffer = 0 \<or> itype inode \<noteq> SIMPLEFS_TYPE_FILE then Some (- 1, [], driver_data dev)
          else if offset \<ge> ucast (isize inode) then Some (0, [], driver_data dev)
          else
            let to_read = (if offset + sz > ucast (isize inode)
                           then ucast (isize inode) - offset else sz)
            in simplefs_read_loop (read_block dev) (direct inode) offset to_read 0 []
                 (driver_data dev))"

lemma simplefs_read_loop_done:
  "\<not> bytes_read < to_read \<Longrightarrow>
     simplefs_read_loop rd direct_ptrs offset to_read bytes_read stored_bytes d
       = Some (ucast bytes_read, stored_bytes, d)"
  by (simp add: simplefs_read_loop.simps [of rd direct_ptrs offset to_read bytes_read stored_bytes d])

lemma simplefs_read_loop_limit:
  "bytes_read < to_read \<Longrightarrow> (offset + bytes_read) div 512 \<ge> SIMPLEFS_MAX_FILE_BLOCKS \<Longrightarrow>
     simplefs_read_loop rd direct_ptrs offset to_read bytes_read stored_bytes d
       = Some (ucast bytes_read, stored_bytes, d)"
  by (simp add: simplefs_read_loop.simps [of rd direct_ptrs offset to_read bytes_read stored_bytes d])

lemma simplefs_read_loop_hole:
  "bytes_read < to_read \<Longrightarrow> \<not> (offset + bytes_read) div 512 \<ge> SIMPLEFS_MAX_FILE_BLOCKS \<Longrightarrow>
     direct_ptrs ! unat ((offset + bytes_read) div 512) = 0 \<Longrightarrow>
     simplefs_read_loop rd direct_ptrs offset to_read bytes_read stored_bytes d
       = Some (ucast bytes_read, stored_bytes, d)"
  by (simp add: simplefs_read_loop.simps [of rd direct_ptrs offset to_read bytes_read stored_bytes d])

lemma simplefs_read_loop_copy:
  "bytes_read < to_read \<Longrightarrow> \<not> (offset + bytes_read) div 512 \<ge> SIMPLEFS_MAX_FILE_BLOCKS \<Longrightarrow>
     direct_ptrs ! unat ((offset + bytes_read) div 512) \<noteq> 0 \<Longrightarrow>
     rd d (ucast (direct_ptrs ! unat ((offset + bytes_read) div 512))) = (0, block_buffer, d') \<Longrightarrow>
     simplefs_read_loop (Some rd) direct_ptrs offset to_read bytes_read stored_bytes d
       = simplefs_read_loop (Some rd) direct_ptrs offset to_read
           (bytes_read + (if to_read - bytes_read < 512 - (offset + bytes_read) mod 512
                          then to_read - bytes_read else 512 - (offset + bytes_read) mod 512))
           (stored_bytes @
              take (unat (if to_read - bytes_read < 512 - (offset + bytes_read) mod 512
                          then to_read - bytes_read else 512 - (offset + bytes_read) mod 512))
                (drop (unat ((offset + bytes_read) mod 512)) block_buffer))
           d'"
  by (simp add: simplefs_read_loop.simps [of "Some rd" direct_ptrs offset to_read bytes_read stored_bytes d])

text \<open>
  A disk of eight blocks whose block 7 holds a file of 100 bytes \<open>0x41\<close>; the rest of the
  block is what an earlier owner left there, bytes \<open>0x53\<close>.
\<close>

definition fs_disk :: "u8 list list" where
  "fs_disk = replicate 7 (replicate 512 0) @ [replicate 100 0x41 @ replicate 412 0x53]"

definition file_inode :: simplefs_inode where
  "file_inode =
     \<lparr>number = 1, itype = SIMPLEFS_TYPE_FILE, isize = 100, iblocks = 1,
      direct = [7, 0, 0, 0, 0, 0, 0, 0, 0, 0, 0, 0], created = 0, modified = 0\<rparr>"

lemma fs_disk_block7:
  "ram_read_block fs_disk 7 = (0, replicate 100 0x41 @ replicate 412 0x53, fs_disk)"
  by (simp add: ram_read_block_def ram_read_blocks_def fs_disk_def)

lemma minus_five_u64: "(- 5 :: u64) = 0xFFFFFFFFFFFFFFFB"
  by simp

lemma twelve_not_le_one: "\<not> (12 :: u64) \<le> 1"
  by (simp add: word_le_nat_alt)

lemma below_minus_five: "(0 :: u64) < - 5" "(502 :: u64) < - 5"
  unfolding minus_five_u64 by simp_all

text \<open>
  Claim C8 fails when the sum \<open>offset + size\<close> wraps. The clamp compares the 64-bit sum
  with the file size: for offset 10 and a request of \<open>2^64 - 5\<close> bytes the sum is 5, not
  above the size 100, so the request is taken as it is. The loop then copies every byte
  of block 7 from offset 10 on and stops only at the empty second block pointer: it
  stores 502 bytes at \<open>buffer\<close> and returns 502, where the file has 90 bytes left; the
  last 412 bytes are not the file's.
\<close>

theorem simplefs_vfs_read_wrapped_request_not_clamped:
  "(10 :: u64) < ucast (isize file_inode)
   \<and> simplefs_vfs_read (ramdisk fs_disk) (Some file_inode) 10 (- 5) 0x1000 =
       Some (502, replicate 90 0x41 @ replicate 412 0x53, fs_disk)"
  apply (simp add: simplefs_vfs_read_def file_inode_def ramdisk_def SIMPLEFS_TYPE_FILE_def)
  apply (subst simplefs_read_loop_copy [where block_buffer = "replicate 100 0x41 @ replicate 412 0x53"
        and d' = fs_disk])
      apply (simp_all add: SIMPLEFS_MAX_FILE_BLOCKS_def fs_disk_block7 below_minus_five)
  apply (subst simplefs_read_loop_hole)
     apply (simp_all add: SIMPLEFS_MAX_FILE_BLOCKS_def below_minus_five twelve_not_le_one)
  done

theorem simplefs_vfs_read_wrapped_request_not_clamped_witness:
  "map_option fst (simplefs_vfs_read (ramdisk fs_disk) (Some file_inode) 10 (- 5) 0x1000)
     = Some 502
   \<and> map_option (length \<circ> fst \<circ> snd)
        (simplefs_vfs_read (ramdisk fs_disk) (Some file_inode) 10 (- 5) 0x1000) = Some 502
   \<and> unat (ucast (isize file_inode) - (10 :: u64)) = 90"
  using simplefs_vfs_read_wrapped_request_not_clamped by (simp add: file_inode_def)

section \<open>Tasks and the scheduler (kernel/sched/process.c, kernel/sched/scheduler.c)\<close>

definition MAX_PROCESSES :: u32 where
  "MAX_PROCESSES = 256"

datatype process_state =
    PROCESS_STATE_READY
  | PROCESS_STATE_RUNNING
  | PROCESS_STATE_BLOCKED
  | PROCESS_STATE_SLEEPING
  | PROCESS_STATE_ZOMBIE
  | PROCESS_STATE_DEAD

text \<open>
  \<open>cpu_context_t\<close> and \<open>process_t\<close> of the process header. The context has the register
  names of the trap frame; they are written \<open>cpu_context.rax\<close> and \<open>registers.rax\<close>
  where both occur. The links \<open>next\<close> and \<open>prev\<close> of a task are \<open>process.next\<close> and
  \<open>process.prev\<close>.
\<close>

record cpu_context =
  rax :: u64
  rbx :: u64
  rcx :: u64
  rdx :: u64
  rsi :: u64
  rdi :: u64
  rbp :: u64
  rsp :: u64
  r8 :: u64
  r9 :: u64
  r10 :: u64
  r11 :: u64
  r12 :: u64
  r13 :: u64
  r14 :: u64
  r15 :: u64
  rip :: u64
  rflags :: u64
  cs :: u64
  ss :: u64
  ds :: u64
  es :: u64
  fs :: u64
  gs :: u64

record process =
  pid :: u32
  parent_pid :: u32
  name :: string
  state :: process_state
  exit_code :: u32
  "context" :: cpu_context
  page_directory :: u64
  kernel_stack :: u64
  user_stack :: u64
  priority :: u32
  time_slice :: u32
  time_used :: u32
  total_time :: u64
  sleep_until :: u64
  "next" :: u64
  prev :: u64

text \<open>
  The globals of the two files. \<open>procs s p\<close> is the \<open>process_t\<close> at address \<open>p\<close>, a
  \<open>NULL\<close> pointer is 0, \<open>process_table\<close> is the array of \<open>MAX_PROCESSES\<close> pointers and
  \<open>hw_cr3\<close> the register CR3.
\<close>

record sched =
  procs :: "u64 \<Rightarrow> process"
  process_table :: "u64 list"
  next_pid :: u32
  process_count :: u32
  current_process :: u64
  scheduler_running :: bool
  total_switches :: u32
  ready_queue_head :: u64
  ready_queue_tail :: u64
  ready_count :: u32
  hw_cr3 :: u64

definition scheduler_add_process :: "sched \<Rightarrow> u64 \<Rightarrow> sched" where
  "scheduler_add_process s p =
     (if p = 0 then s
      else
        let m1 = (procs s)(p := (procs s p)\<lparr>process.next := 0\<rparr>);
            m2 = m1(p := (m1 p)\<lparr>process.prev := 0\<rparr>);
            s1 = (if ready_queue_head s = 0
                  then s\<lparr>procs := m2, ready_queue_head := p, ready_queue_tail := p\<rparr>
                  else
                    let t = ready_queue_tail s;
                        m3 = m2(t := (m2 t)\<lparr>process.next := p\<rparr>);
                        m4 = m3(p := (m3 p)\<lparr>process.prev := ready_queue_tail s\<rparr>)
                    in s\<lparr>procs := m4, ready_queue_tail := p\<rparr>);
            s2 = s1\<lparr>ready_count := ready_count s1 + 1\<rparr>
        in s2\<lparr>procs := (procs s2)(p := (procs s2 p)\<lparr>state := PROCESS_STATE_READY\<rparr>)\<rparr>)"

definition scheduler_remove_process :: "sched \<Rightarrow> u64 \<Rightarrow> sched" where
  "scheduler_remove_process s p =
     (if p = 0 then s
      else
        let s1 = (if process.prev (procs s p) \<noteq> 0
                  then s\<lparr>procs := (procs s)(process.prev (procs s p) :=
                            (procs s (process.prev (procs s p)))
                              \<lparr>process.next := process.next (procs s p)\<rparr>)\<rparr>
                  else s\<lparr>ready_queue_head := process.next (procs s p)\<rparr>);
            s2 = (if process.next (procs s1 p) \<noteq> 0
                  then s1\<lparr>procs := (procs s1)(process.next (procs s1 p) :=
                            (procs s1 (process.next (procs s1 p)))
                              \<lparr>process.prev := process.prev (procs s1 p)\<rparr>)\<rparr>
                  else s1\<lparr>ready_queue_tail := process.prev (procs s1 p)\<rparr>);
            m3 = (procs s2)(p := (procs s2 p)\<lparr>process.next := 0\<rparr>);
            m4 = m3(p := (m3 p)\<lparr>process.prev := 0\<rparr>)
        in s2\<lparr>procs := m4, ready_count := ready_count s2 - 1\<rparr>)"

text \<open>
  \<open>process_wakeup_sleeping\<close> visits the slots of the table in order; \<open>now\<close> is what
  \<open>timer_get_ticks\<close> returns.
\<close>

definition wake_slot :: "u64 \<Rightarrow> u64 \<Rightarrow> (u64 \<Rightarrow> process) \<Rightarrow> (u64 \<Rightarrow> process)" where
  "wake_slot now p m =
     (if p \<noteq> 0 \<and> state (m p) = PROCESS_STATE_SLEEPING \<and> now \<ge> sleep_until (m p)
      then m(p := (m p)\<lparr>state := PROCESS_STATE_READY\<rparr>)
      else m)"

definition process_wakeup_sleeping :: "sched \<Rightarrow> u64 \<Rightarrow> sched" where
  "process_wakeup_sleeping s now = s\<lparr>procs := fold (wake_slot now) (process_table s) (procs s)\<rparr>"

text \<open>\<open>scheduler_pick_next\<close> returns the task it picked, \<open>NULL\<close> when the queue is empty.\<close>

definition scheduler_pick_next :: "sched \<Rightarrow> u64 \<Rightarrow> u64 \<times> sched" where
  "scheduler_pick_next s now =
     (let s1 = process_wakeup_sleeping s now in
      if ready_queue_head s1 = 0 then (0, s1)
      else
        let nxt = ready_queue_head s1
        in (nxt, scheduler_add_process (scheduler_remove_process s1 nxt) nxt))"

definition save_context :: "cpu_context \<Rightarrow> registers \<Rightarrow> cpu_context" where
  "save_context c regs =
     c\<lparr>cpu_context.rax := registers.rax regs, cpu_context.rbx := registers.rbx regs,
       cpu_context.rcx := registers.rcx regs, cpu_context.rdx := registers.rdx regs,
       cpu_context.rsi := registers.rsi regs, cpu_context.rdi := registers.rdi regs,
       cpu_context.rbp := registers.rbp regs, cpu_context.rsp := registers.rsp regs,
       cpu_context.r8 := registers.r8 regs, cpu_context.r9 := registers.r9 regs,
       cpu_context.r10 := registers.r10 regs, cpu_context.r11 := registers.r11 regs,
       cpu_context.r12 := registers.r12 regs, cpu_context.r13 := registers.r13 regs,
       cpu_context.r14 := registers.r14 regs, cpu_context.r15 := registers.r15 regs,
       cpu_context.rip := registers.rip regs, cpu_context.rflags := registers.rflags regs,
       cpu_context.cs := registers.cs regs, cpu_context.ss := registers.ss regs\<rparr>"

definition restore_context :: "registers \<Rightarrow> cpu_context \<Rightarrow> registers" where
  "restore_context regs c =
     regs\<lparr>registers.rax := cpu_context.rax c, registers.rbx := cpu_context.rbx c,
          registers.rcx := cpu_context.rcx c, registers.rdx := cpu_context.rdx c,
          registers.rsi := cpu_context.rsi c, registers.rdi := cpu_context.rdi c,
          registers.rbp := cpu_context.rbp c, registers.rsp := cpu_context.rsp c,
          registers.r8 := cpu_context.r8 c, registers.r9 := cpu_context.r9 c,
          registers.r10 := cpu_context.r10 c, registers.r11 := cpu_context.r11 c,
          registers.r12 := cpu_context.r12 c, registers.r13 := cpu_context.r13 c,
          registers.r14 := cpu_context.r14 c, registers.r15 := cpu_context.r15 c,
          registers.rip := cpu_context.rip c, registers.rflags := cpu_context.rflags c,
          registers.cs := cpu_context.cs c, registers.ss := cpu_context.ss c\<rparr>"

text \<open>
  \<open>scheduler_schedule\<close>, the handler of vector 32: called on a timer interrupt and by
  the \<open>int $0x20\<close> of a task that yields, sleeps or exits. It works on the trap frame
  \<open>regs\<close> of the interrupted task and returns the frame to resume from.
\<close>

definition scheduler_schedule :: "sched \<Rightarrow> u64 \<Rightarrow> registers \<Rightarrow> sched \<times> registers" where
  "scheduler_schedule s now regs =
     (if \<not> scheduler_running s then (s, regs)
      else
        let current = current_process s;
            (nxt, s1) = scheduler_pick_next s now
        in if nxt = 0 then (s1, regs)
           else if current = nxt then (s1, regs)
           else
             let s2 = (if current \<noteq> 0
                       then
                         let m1 = (procs s1)(current := (procs s1 current)
                                     \<lparr>context := save_context (context (procs s1 current)) regs\<rparr>);
                             m2 = (if state (m1 current) = PROCESS_STATE_RUNNING
                                   then m1(current := (m1 current)\<lparr>state := PROCESS_STATE_READY\<rparr>)
                                   else m1)
                         in s1\<lparr>procs := m2(current := (m2 current)\<lparr>time_used := 0\<rparr>)\<rparr>
                       else s1);
                 m3 = (procs s2)(nxt := (procs s2 nxt)\<lparr>state := PROCESS_STATE_RUNNING\<rparr>);
                 m4 = m3(nxt := (m3 nxt)\<lparr>total_time := total_time (m3 nxt) + 1\<rparr>);
                 s3 = s2\<lparr>procs := m4, current_process := nxt,
                         total_switches := total_switches s2 + 1\<rparr>;
                 regs' = restore_context regs (context (procs s3 nxt))
             in (if page_directory (procs s3 nxt) \<noteq> 0
                    \<and> hw_cr3 s3 \<noteq> page_directory (procs s3 nxt)
                 then s3\<lparr>hw_cr3 := page_directory (procs s3 nxt)\<rparr>
                 else s3, regs'))"

definition scheduler_start :: "sched \<Rightarrow> sched" where
  "scheduler_start s = s\<lparr>scheduler_running := True\<rparr>"

text \<open>
  \<open>process_sleep\<close>: the deadline and the state are set, then \<open>int $0x20\<close> enters
  \<open>scheduler_schedule\<close> with the frame of the sleeping task.
\<close>

definition process_sleep :: "sched \<Rightarrow> u64 \<Rightarrow> u64 \<Rightarrow> registers \<Rightarrow> sched \<times> registers" where
  "process_sleep s now ticks regs =
     (if current_process s = 0 then (s, regs)
      else
        let c = current_process s;
            m1 = (procs s)(c := (procs s c)\<lparr>sleep_until := now + ticks\<rparr>);
            m2 = m1(c := (m1 c)\<lparr>state := PROCESS_STATE_SLEEPING\<rparr>)
        in scheduler_schedule (s\<lparr>procs := m2\<rparr>) now regs)"

text \<open>\<open>scheduler_block\<close>, the sibling of \<open>process_sleep\<close>: it takes the task off the queue.\<close>

definition scheduler_block :: "sched \<Rightarrow> u64 \<Rightarrow> registers \<Rightarrow> sched \<times> registers" where
  "scheduler_block s now regs =
     (if current_process s = 0 then (s, regs)
      else
        let c = current_process s;
            s1 = s\<lparr>procs := (procs s)(c := (procs s c)\<lparr>state := PROCESS_STATE_BLOCKED\<rparr>)\<rparr>
        in scheduler_schedule (scheduler_remove_process s1 c) now regs)"

subsection \<open>A sleeping task on the ready queue\<close>

definition context0 :: cpu_context where
  "context0 =
     \<lparr>cpu_context.rax = 0, rbx = 0, rcx = 0, rdx = 0, rsi = 0, rdi = 0, rbp = 0, rsp = 0,
      r8 = 0, r9 = 0, r10 = 0, r11 = 0, r12 = 0, r13 = 0, r14 = 0, r15 = 0, rip = 0,
      rflags = 0, cs = 0, ss = 0, ds = 0, es = 0, fs = 0, gs = 0\<rparr>"

text \<open>
  The structure that \<open>process_create_kernel_task(entry, name, priority)\<close> fills in for
  the pid \<open>i\<close> when no task is running, the four frames of the stack start at
  \<open>stack_phys\<close> and CR3 holds \<open>0x1000\<close>.
\<close>

definition kernel_task :: "u32 \<Rightarrow> u64 \<Rightarrow> string \<Rightarrow> u32 \<Rightarrow> u64 \<Rightarrow> process" where
  "kernel_task i entry n prio stack_phys =
     \<lparr>pid = i, parent_pid = 0, name = take 63 n, state = PROCESS_STATE_READY, exit_code = 0,
      context = context0
        \<lparr>rip := entry, rsp := vmm_phys_to_virt stack_phys + 4 * PAGE_SIZE, rflags := 0x202,
         cs := 0x08, ss := 0x10\<rparr>,
      page_directory = 0x1000,
      kernel_stack = vmm_phys_to_virt stack_phys + 4 * PAGE_SIZE, user_stack = 0,
      priority = prio, time_slice = 10, time_used = 0, total_time = 0, sleep_until = 0,
      process.next = 0, process.prev = 0\<rparr>"

text \<open>
  A \<open>process_t\<close> whose bytes are all zero: what \<open>kzalloc\<close> returns, and what the memory
  reads as where no task lies.
\<close>

definition zero_process :: process where
  "zero_process =
     \<lparr>pid = 0, parent_pid = 0, name = [], state = PROCESS_STATE_READY, exit_code = 0,
      context = context0, page_directory = 0, kernel_stack = 0, user_stack = 0,
      priority = 0, time_slice = 0, time_used = 0, total_time = 0, sleep_until = 0,
      process.next = 0, process.prev = 0\<rparr>"

text \<open>
  Two kernel tasks at the addresses \<open>0xA000\<close> and \<open>0xB000\<close>, as
  \<open>process_create_kernel_task\<close> leaves them in the table: entry points
  \<open>0xFFFF800000101000\<close> and \<open>0xFFFF800000102000\<close>, stacks in the frames from \<open>0x2000\<close>
  and from \<open>0x6000\<close>. They are put on the ready queue by \<open>scheduler_add_process\<close>, and
  the scheduler is started.
\<close>

definition sched_boot :: sched where
  "sched_boot =
     \<lparr>procs = (\<lambda>_. zero_process)
        (0xA000 := kernel_task 1 0xFFFF800000101000 ''task1'' 0 0x2000,
         0xB000 := kernel_task 2 0xFFFF800000102000 ''task2'' 0 0x6000),
      process_table = [0xA000, 0xB000] @ replicate 254 0,
      next_pid = 3, process_count = 2, current_process = 0, scheduler_running = False,
      total_switches = 0, ready_queue_head = 0, ready_queue_tail = 0, ready_count = 0,
      hw_cr3 = 0x1000\<rparr>"

definition sched_started :: sched where
  "sched_started =
     scheduler_start (scheduler_add_process (scheduler_add_process sched_boot 0xA000) 0xB000)"

text \<open>
  The run: the first timer interrupt, at tick 1, gives the processor to task 1; task 1
  calls \<open>process_sleep(100)\<close> at tick 1 and task 2 runs; the timer interrupt at tick 2
  enters the scheduler again.
\<close>

definition sched_run1 :: sched where
  "sched_run1 = fst (scheduler_schedule sched_started 1 regs0)"

definition sched_run2 :: sched where
  "sched_run2 = fst (process_sleep sched_run1 1 100 regs0)"

definition sched_run3 :: sched where
  "sched_run3 = fst (scheduler_schedule sched_run2 2 regs0)"

lemma wake_slot_null: "wake_slot now 0 m = m"
  by (simp add: wake_slot_def)

lemma fold_wake_slot_null: "fold (wake_slot now) (replicate n 0) m = m"
  by (induction n) (simp_all add: wake_slot_null)

lemma funpow_wake_slot_null: "(wake_slot now 0 ^^ n) m = m"
  by (induction n) (simp_all add: wake_slot_null)

lemmas sched_defs =
  scheduler_schedule_def scheduler_pick_next_def process_wakeup_sleeping_def
  scheduler_add_process_def scheduler_remove_process_def process_sleep_def
  wake_slot_null funpow_wake_slot_null Let_def

lemma sched_started_facts:
  "process_table sched_started = [0xA000, 0xB000] @ replicate 254 0"
  "scheduler_running sched_started"
  "current_process sched_started = 0"
  "ready_queue_head sched_started = 0xA000"
  "ready_queue_tail sched_started = 0xB000"
  "state (procs sched_started 0xA000) = PROCESS_STATE_READY"
  "process.next (procs sched_started 0xA000) = 0xB000"
  "process.prev (procs sched_started 0xA000) = 0"
  "page_directory (procs sched_started 0xA000) = 0x1000"
  "state (procs sched_started 0xB000) = PROCESS_STATE_READY"
  "process.next (procs sched_started 0xB000) = 0"
  "process.prev (procs sched_started 0xB000) = 0xA000"
  "page_directory (procs sched_started 0xB000) = 0x1000"
  "hw_cr3 sched_started = 0x1000"
  by (simp_all add: sched_started_def sched_boot_def scheduler_add_process_def
      scheduler_start_def kernel_task_def Let_def)

lemma sched_started_wakeup: "process_wakeup_sleeping sched_started 1 = sched_started"
  by (simp add: process_wakeup_sleeping_def sched_started_facts funpow_wake_slot_null
      wake_slot_def)

definition sched_pick1 :: sched where
  "sched_pick1 = scheduler_add_process (scheduler_remove_process sched_started 0xA000) 0xA000"

lemma sched_pick1_facts:
  "process_table sched_pick1 = [0xA000, 0xB000] @ replicate 254 0"
  "scheduler_running sched_pick1"
  "current_process sched_pick1 = 0"
  "ready_queue_head sched_pick1 = 0xB000"
  "ready_queue_tail sched_pick1 = 0xA000"
  "state (procs sched_pick1 0xA000) = PROCESS_STATE_READY"
  "process.next (procs sched_pick1 0xA000) = 0"
  "process.prev (procs sched_pick1 0xA000) = 0xB000"
  "page_directory (procs sched_pick1 0xA000) = 0x1000"
  "state (procs sched_pick1 0xB000) = PROCESS_STATE_READY"
  "process.next (procs sched_pick1 0xB000) = 0xA000"
  "process.prev (procs sched_pick1 0xB000) = 0"
  "page_directory (procs sched_pick1 0xB000) = 0x1000"
  "hw_cr3 sched_pick1 = 0x1000"
  by (simp_all add: sched_pick1_def scheduler_add_process_def scheduler_remove_process_def
      Let_def sched_started_facts split del: if_split)

lemma sched_started_pick: "scheduler_pick_next sched_started 1 = (0xA000, sched_pick1)"
  by (simp add: scheduler_pick_next_def sched_started_wakeup sched_started_facts sched_pick1_def
      Let_def)

lemma sched_run1_facts:
  "process_table sched_run1 = [0xA000, 0xB000] @ replicate 254 0"
  "scheduler_running sched_run1"
  "current_process sched_run1 = 0xA000"
  "ready_queue_head sched_run1 = 0xB000"
  "ready_queue_tail sched_run1 = 0xA000"
  "state (procs sched_run1 0xA000) = PROCESS_STATE_RUNNING"
  "process.next (procs sched_run1 0xA000) = 0"
  "process.prev (procs sched_run1 0xA000) = 0xB000"
  "page_directory (procs sched_run1 0xA000) = 0x1000"
  "state (procs sched_run1 0xB000) = PROCESS_STATE_READY"
  "process.next (procs sched_run1 0xB000) = 0xA000"
  "process.prev (procs sched_run1 0xB000) = 0"
  "page_directory (procs sched_run1 0xB000) = 0x1000"
  "hw_cr3 sched_run1 = 0x1000"
  by (simp_all add: sched_run1_def scheduler_schedule_def sched_started_pick sched_started_facts
      sched_pick1_facts Let_def split del: if_split)

text \<open>Task 1 calls \<open>process_sleep(100)\<close> at tick 1: the state just before \<open>int $0x20\<close>.\<close>

definition sched_asleep :: sched where
  "sched_asleep =
     (let c = current_process sched_run1;
          m1 = (procs sched_run1)(c := (procs sched_run1 c)\<lparr>sleep_until := 1 + 100\<rparr>);
          m2 = m1(c := (m1 c)\<lparr>state := PROCESS_STATE_SLEEPING\<rparr>)
      in sched_run1\<lparr>procs := m2\<rparr>)"

lemma sched_run1_sleep: "process_sleep sched_run1 1 100 regs0 = scheduler_schedule sched_asleep 1 regs0"
  by (simp add: process_sleep_def sched_asleep_def sched_run1_facts Let_def)

lemma sched_asleep_facts:
  "process_table sched_asleep = [0xA000, 0xB000] @ replicate 254 0"
  "scheduler_running sched_asleep"
  "current_process sched_asleep = 0xA000"
  "ready_queue_head sched_asleep = 0xB000"
  "ready_queue_tail sched_asleep = 0xA000"
  "state (procs sched_asleep 0xA000) = PROCESS_STATE_SLEEPING"
  "sleep_until (procs sched_asleep 0xA000) = 101"
  "process.next (procs sched_asleep 0xA000) = 0"
  "process.prev (procs sched_asleep 0xA000) = 0xB000"
  "page_directory (procs sched_asleep 0xA000) = 0x1000"
  "state (procs sched_asleep 0xB000) = PROCESS_STATE_READY"
  "process.next (procs sched_asleep 0xB000) = 0xA000"
  "process.prev (procs sched_asleep 0xB000) = 0"
  "page_directory (procs sched_asleep 0xB000) = 0x1000"
  "hw_cr3 sched_asleep = 0x1000"
  by (simp_all add: sched_asleep_def sched_run1_facts Let_def)

lemma one_below_101: "\<not> (101::u64) \<le> 1" "(2::u64) < 101"
  by (simp_all add: word_le_nat_alt word_less_nat_alt)

lemma sched_asleep_wakeup: "process_wakeup_sleeping sched_asleep 1 = sched_asleep"
  by (simp add: process_wakeup_sleeping_def sched_asleep_facts funpow_wake_slot_null
      wake_slot_def one_below_101)

definition sched_pick2 :: sched where
  "sched_pick2 = scheduler_add_process (scheduler_remove_process sched_asleep 0xB000) 0xB000"

lemma sched_pick2_facts:
  "process_table sched_pick2 = [0xA000, 0xB000] @ replicate 254 0"
  "scheduler_running sched_pick2"
  "current_process sched_pick2 = 0xA000"
  "ready_queue_head sched_pick2 = 0xA000"
  "ready_queue_tail sched_pick2 = 0xB000"
  "state (procs sched_pick2 0xA000) = PROCESS_STATE_SLEEPING"
  "sleep_until (procs sched_pick2 0xA000) = 101"
  "process.next (procs sched_pick2 0xA000) = 0xB000"
  "process.prev (procs sched_pick2 0xA000) = 0"
  "page_directory (procs sched_pick2 0xA000) = 0x1000"
  "state (procs sched_pick2 0xB000) = PROCESS_STATE_READY"
  "process.next (procs sched_pick2 0xB000) = 0"
  "process.prev (procs sched_pick2 0xB000) = 0xA000"
  "page_directory (procs sched_pick2 0xB000) = 0x1000"
  "hw_cr3 sched_pick2 = 0x1000"
  by (simp_all add: sched_pick2_def scheduler_add_process_def scheduler_remove_process_def
      Let_def sched_asleep_facts split del: if_split)

lemma sched_asleep_pick: "scheduler_pick_next sched_asleep 1 = (0xB000, sched_pick2)"
  by (simp add: scheduler_pick_next_def sched_asleep_wakeup sched_asleep_facts sched_pick2_def
      Let_def)

lemma sched_run2_facts:
  "scheduler_running sched_run2"
  "current_process sched_run2 = 0xB000"
  "ready_queue_head sched_run2 = 0xA000"
  "ready_queue_tail sched_run2 = 0xB000"
  "state (procs sched_run2 0xA000) = PROCESS_STATE_SLEEPING"
  "sleep_until (procs sched_run2 0xA000) = 101"
  "state (procs sched_run2 0xB000) = PROCESS_STATE_RUNNING"
  by (simp_all add: sched_run2_def sched_run1_sleep scheduler_schedule_def sched_asleep_pick
      sched_asleep_facts sched_pick2_facts Let_def split del: if_split)

subsection \<open>What the scheduler does with the head of the queue\<close>

lemma wake_slot_sleep_until: "sleep_until (wake_slot now p m q) = sleep_until (m q)"
  by (simp add: wake_slot_def)

lemma fold_wake_slot_sleep_until:
  "sleep_until (fold (wake_slot now) ps m q) = sleep_until (m q)"
  by (induction ps arbitrary: m) (simp_all add: wake_slot_sleep_until)

lemma process_wakeup_sleeping_frame:
  "ready_queue_head (process_wakeup_sleeping s now) = ready_queue_head s"
  "scheduler_running (process_wakeup_sleeping s now) = scheduler_running s"
  "current_process (process_wakeup_sleeping s now) = current_process s"
  "sleep_until (procs (process_wakeup_sleeping s now) q) = sleep_until (procs s q)"
  by (simp_all add: process_wakeup_sleeping_def fold_wake_slot_sleep_until)

lemma scheduler_remove_process_sleep_until:
  "sleep_until (procs (scheduler_remove_process s p) q) = sleep_until (procs s q)"
  by (simp add: scheduler_remove_process_def Let_def)

lemma scheduler_add_process_sleep_until:
  "sleep_until (procs (scheduler_add_process s p) q) = sleep_until (procs s q)"
  by (simp add: scheduler_add_process_def Let_def)

lemma scheduler_remove_process_current:
  "current_process (scheduler_remove_process s p) = current_process s"
  by (simp add: scheduler_remove_process_def Let_def)

lemma scheduler_add_process_current:
  "current_process (scheduler_add_process s p) = current_process s"
  by (simp add: scheduler_add_process_def Let_def)

lemma scheduler_pick_next_head:
  "ready_queue_head s \<noteq> 0 \<Longrightarrow> fst (scheduler_pick_next s now) = ready_queue_head s"
  by (simp add: scheduler_pick_next_def Let_def process_wakeup_sleeping_frame)

lemma scheduler_pick_next_sleep_until:
  "sleep_until (procs (snd (scheduler_pick_next s now)) q) = sleep_until (procs s q)"
  by (simp add: scheduler_pick_next_def Let_def process_wakeup_sleeping_frame
      scheduler_remove_process_sleep_until scheduler_add_process_sleep_until)

lemma scheduler_pick_next_current:
  "current_process (snd (scheduler_pick_next s now)) = current_process s"
  by (simp add: scheduler_pick_next_def Let_def process_wakeup_sleeping_frame
      scheduler_remove_process_current scheduler_add_process_current)

lemma scheduler_schedule_head:
  assumes "scheduler_running s" and "ready_queue_head s = p" and "p \<noteq> 0"
    and "current_process s \<noteq> p"
  shows "current_process (fst (scheduler_schedule s now regs)) = p"
    and "state (procs (fst (scheduler_schedule s now regs)) p) = PROCESS_STATE_RUNNING"
    and "sleep_until (procs (fst (scheduler_schedule s now regs)) p) = sleep_until (procs s p)"
proof -
  obtain nxt s1 where pick: "scheduler_pick_next s now = (nxt, s1)"
    by (cases "scheduler_pick_next s now")
  have nxt: "nxt = p"
    using scheduler_pick_next_head [of s now] assms pick by simp
  have su: "sleep_until (procs s1 q) = sleep_until (procs s q)" for q
    using scheduler_pick_next_sleep_until [of s now q] pick by simp
  show "current_process (fst (scheduler_schedule s now regs)) = p"
    using assms nxt pick by (simp add: scheduler_schedule_def Let_def)
  show "state (procs (fst (scheduler_schedule s now regs)) p) = PROCESS_STATE_RUNNING"
    using assms nxt pick by (simp add: scheduler_schedule_def Let_def)
  show "sleep_until (procs (fst (scheduler_schedule s now regs)) p) = sleep_until (procs s p)"
    using assms nxt pick su by (simp add: scheduler_schedule_def Let_def)
qed

text \<open>
  C1. The claim is that a task in state \<open>SLEEPING\<close> is never marked \<open>RUNNING\<close> before
  the tick counter reaches its \<open>sleep_until\<close>. \<open>process_sleep\<close> leaves the task on the
  ready queue, and \<open>scheduler_pick_next\<close> takes the head of the queue whatever its
  state: when a sleeping task whose deadline lies ahead is at the head of the queue and
  is not the current task, \<open>scheduler_schedule\<close> marks it \<open>RUNNING\<close> and makes it the current
  task, with its deadline still ahead.
\<close>

theorem scheduler_schedule_runs_sleeping_task:
  assumes "scheduler_running s" and "ready_queue_head s = p" and "p \<noteq> 0"
    and "current_process s \<noteq> p"
    and "state (procs s p) = PROCESS_STATE_SLEEPING" and "now < sleep_until (procs s p)"
  shows "state (procs (fst (scheduler_schedule s now regs)) p) = PROCESS_STATE_RUNNING
         \<and> current_process (fst (scheduler_schedule s now regs)) = p
         \<and> now < sleep_until (procs (fst (scheduler_schedule s now regs)) p)"
  using assms scheduler_schedule_head [of s p now regs] by simp

text \<open>
  The run from boot reaches such a state: at tick 2 task 1 has been asleep since tick 1
  with deadline 101, and the timer interrupt gives it the processor.
\<close>

theorem scheduler_schedule_runs_sleeping_task_witness:
  "state (procs sched_run2 0xA000) = PROCESS_STATE_SLEEPING
   \<and> sleep_until (procs sched_run2 0xA000) = 101
   \<and> state (procs sched_run3 0xA000) = PROCESS_STATE_RUNNING
   \<and> current_process sched_run3 = 0xA000
   \<and> (2::u64) < sleep_until (procs sched_run3 0xA000)"
  using scheduler_schedule_runs_sleeping_task [of sched_run2 "0xA000" 2 regs0]
  by (simp add: sched_run2_facts sched_run3_def one_below_101)

section \<open>Creating a user task (kernel/sched/process.c, kernel/mm/vmm.c)\<close>

text \<open>A loop \<open>for (uint32_t i = ...; i < n; i++)\<close> from index \<open>i\<close> on.\<close>

function for_u32 :: "u32 \<Rightarrow> u32 \<Rightarrow> (u32 \<Rightarrow> 's \<Rightarrow> 's) \<Rightarrow> 's \<Rightarrow> 's" where
  "for_u32 i n body s = (if i < n then for_u32 (i + 1) n body (body i s) else s)"
  by pat_completeness auto
termination
  by (relation "measure (\<lambda>(i, n, body, s). unat n - unat i)")
     (auto simp: word_less_nat_alt word_succ_unat)

declare for_u32.simps [simp del]

text \<open>
  \<open>vmm_create_address_space\<close> and \<open>vmm_destroy_address_space\<close> of the memory manager.
\<close>

definition vmm_create_address_space :: "mm \<Rightarrow> u64 \<times> mm" where
  "vmm_create_address_space m =
     (let pml4_phys = fst (pmm_alloc_page (pm m));
          m1 = m\<lparr>pm := snd (pmm_alloc_page (pm m))\<rparr>
      in if pml4_phys = 0 then (0, m1)
         else
           let pml4 = vmm_phys_to_virt pml4_phys;
               cleared = memset (memory m1) pml4 0 PAGE_SIZE;
               copied = for_u32 256 512
                          (\<lambda>i mem. store64 mem (entry_ptr pml4 i)
                                      (load64 mem (entry_ptr (current_pml4 m1) i)))
                          cleared
           in (pml4_phys, m1\<lparr>memory := copied\<rparr>))"

text \<open>The loop over \<open>k\<close>: the page tables that the directory \<open>pd\<close> names.\<close>

definition destroy_pd :: "(u64 \<Rightarrow> u8) \<Rightarrow> u64 \<Rightarrow> pmm \<Rightarrow> pmm" where
  "destroy_pd mem pd p =
     for_u32 0 512
       (\<lambda>k p. if load64 mem (entry_ptr pd k) AND PAGE_PRESENT \<noteq> 0
               then
                 let pt = vmm_phys_to_virt (load64 mem (entry_ptr pd k) AND NOT 0xFFF)
                 in pmm_free_page p (pt - KERNEL_VIRTUAL_BASE)
               else p)
       p"

text \<open>The loop over \<open>j\<close>: the directories that the table \<open>pdpt\<close> names.\<close>

definition destroy_pdpt :: "(u64 \<Rightarrow> u8) \<Rightarrow> u64 \<Rightarrow> pmm \<Rightarrow> pmm" where
  "destroy_pdpt mem pdpt p =
     for_u32 0 512
       (\<lambda>j p. if load64 mem (entry_ptr pdpt j) AND PAGE_PRESENT \<noteq> 0
               then
                 let pd = vmm_phys_to_virt (load64 mem (entry_ptr pdpt j) AND NOT 0xFFF)
                 in pmm_free_page (destroy_pd mem pd p) (pd - KERNEL_VIRTUAL_BASE)
               else p)
       p"

definition vmm_destroy_address_space :: "mm \<Rightarrow> u64 \<Rightarrow> mm" where
  "vmm_destroy_address_space m pml4_phys =
     (let pml4 = vmm_phys_to_virt pml4_phys;
          mem = memory m;
          p1 = for_u32 0 256
                 (\<lambda>i p. if load64 mem (entry_ptr pml4 i) AND PAGE_PRESENT \<noteq> 0
                         then
                           let pdpt = vmm_phys_to_virt (load64 mem (entry_ptr pml4 i) AND NOT 0xFFF)
                           in pmm_free_page (destroy_pdpt mem pdpt p) (pdpt - KERNEL_VIRTUAL_BASE)
                         else p)
                 (pm m)
      in m\<lparr>pm := pmm_free_page p1 pml4_phys\<rparr>)"

text \<open>
  \<open>manual_map_page\<close> of the process file. Its three blocks "get or create" are the
  same statements on the three levels, here \<open>manual_next_table\<close>: the frame that
  \<open>pmm_alloc_page\<close> returns is used unchecked, and the result is the pointer to the
  table of the next level.
\<close>

definition manual_next_table :: "mm \<Rightarrow> u64 \<Rightarrow> u32 \<Rightarrow> u64 \<times> mm" where
  "manual_next_table m table idx =
     (let m1 = (if load64 (memory m) (entry_ptr table idx) AND PAGE_PRESENT = 0
                then
                  let phys = fst (pmm_alloc_page (pm m));
                      cleared = memset (memory m) (vmm_phys_to_virt phys) 0 PAGE_SIZE
                  in m\<lparr>pm := snd (pmm_alloc_page (pm m)),
                       memory := store64 cleared (entry_ptr table idx) (phys OR PAGE_FLAGS_USER)\<rparr>
                else m)
      in (vmm_phys_to_virt (load64 (memory m1) (entry_ptr table idx) AND NOT 0xFFF), m1))"

definition manual_map_page :: "mm \<Rightarrow> u64 \<Rightarrow> u64 \<Rightarrow> u64 \<Rightarrow> u64 \<Rightarrow> mm" where
  "manual_map_page m pml4 virt phys flags =
     (let pml4_idx = (ucast (drop_bit 39 virt AND 0x1FF) :: u32);
          pdpt_idx = (ucast (drop_bit 30 virt AND 0x1FF) :: u32);
          pd_idx = (ucast (drop_bit 21 virt AND 0x1FF) :: u32);
          pt_idx = (ucast (drop_bit 12 virt AND 0x1FF) :: u32);
          (pdpt, m1) = manual_next_table m pml4 pml4_idx;
          (pd, m2) = manual_next_table m1 pdpt pdpt_idx;
          (pt, m3) = manual_next_table m2 pd pd_idx
      in m3\<lparr>memory := store64 (memory m3) (entry_ptr pt pt_idx) (phys OR flags OR PAGE_PRESENT)\<rparr>)"

text \<open>
  The process table. \<open>sizeof(process_t)\<close> is 344: two \<open>uint32_t\<close>, the name of 64
  bytes, two \<open>int\<close>-sized fields, the packed context of 24 registers, three 8-byte
  fields, three \<open>uint32_t\<close> and four bytes of padding, and four 8-byte fields.
\<close>

definition sizeof_process_t :: u64 where
  "sizeof_process_t = 344"

definition alloc_pid :: "sched \<Rightarrow> u32 \<times> sched" where
  "alloc_pid s = (next_pid s, s\<lparr>next_pid := next_pid s + 1\<rparr>)"

definition add_process :: "sched \<Rightarrow> u64 \<Rightarrow> u32 \<times> sched" where
  "add_process s proc =
     (case find (\<lambda>i. process_table s ! i = 0) [0 ..< unat MAX_PROCESSES] of
        Some i \<Rightarrow> (0, s\<lparr>process_table := (process_table s)[i := proc],
                         process_count := process_count s + 1\<rparr>)
      | None \<Rightarrow> (- 1, s))"

text \<open>
  The two loops \<open>for (int i = 0; i < 4; i++)\<close> of \<open>manual_map_page\<close> calls in
  \<open>process_create_user\<close>; the counter enters the 64-bit sums \<open>base + i * PAGE_SIZE\<close>.
\<close>

definition map_four :: "mm \<Rightarrow> u64 \<Rightarrow> u64 \<Rightarrow> u64 \<Rightarrow> mm" where
  "map_four m pml4 virt_base phys_base =
     for_u64 0 4
       (\<lambda>i m. manual_map_page m pml4 (virt_base + i * PAGE_SIZE) (phys_base + i * PAGE_SIZE)
                 PAGE_FLAGS_USER)
       m"

text \<open>
  \<open>memcpy(dst, src, n)\<close> for regions that do not overlap: the \<open>n\<close> bytes from \<open>dst\<close> on
  become the bytes from \<open>src\<close> on.
\<close>

definition memcpy :: "(u64 \<Rightarrow> u8) \<Rightarrow> u64 \<Rightarrow> u64 \<Rightarrow> u64 \<Rightarrow> (u64 \<Rightarrow> u8)" where
  "memcpy m dst src n = (\<lambda>x. if x - dst < n then m (src + (x - dst)) else m x)"

text \<open>
  \<open>process_create_user\<close>. The result is the pointer it returns (\<open>NULL\<close> is 0) and the
  state of the process table, the heap and the memory manager; \<open>None\<close> when a loop of the
  heap or of the frame allocator does not return. The line it prints is not part of the
  state. The name is cut to the 63 characters that \<open>strncpy\<close> copies.
\<close>

definition process_create_user ::
  "sched \<Rightarrow> heap \<Rightarrow> mm \<Rightarrow> u64 \<Rightarrow> string \<Rightarrow> u32 \<Rightarrow> (u64 \<times> sched \<times> heap \<times> mm) option" where
  "process_create_user s h m entry nm prio =
     (case kzalloc h m sizeof_process_t of
        None \<Rightarrow> None
      | Some (proc, h1, m1, report) \<Rightarrow>
          if proc = 0 then Some (0, s, h1, m1)
          else
            let s1 = snd (alloc_pid s);
                parent = (if current_process s1 \<noteq> 0 then pid (procs s1 (current_process s1))
                          else 0);
                s2 = s1\<lparr>procs := (procs s1)(proc := zero_process
                        \<lparr>pid := fst (alloc_pid s), parent_pid := parent, name := take 63 nm,
                         state := PROCESS_STATE_READY, priority := prio, time_slice := 10,
                         time_used := 0, total_time := 0\<rparr>)\<rparr>
            in case pmm_alloc_pages (pm m1) 4 of
                 None \<Rightarrow> None
               | Some (kstack_phys, pm2) \<Rightarrow>
                   if kstack_phys = 0
                   then map_option (\<lambda>(h', r). (0, s2, h', m1\<lparr>pm := pm2\<rparr>)) (kfree h1 proc)
                   else
                     let kstack_virt = vmm_phys_to_virt kstack_phys;
                         s3 = s2\<lparr>procs := (procs s2)(proc := (procs s2 proc)
                                 \<lparr>kernel_stack := kstack_virt + 4 * PAGE_SIZE\<rparr>)\<rparr>
                     in case pmm_alloc_pages pm2 4 of
                          None \<Rightarrow> None
                        | Some (ustack_phys, pm3) \<Rightarrow>
                            if ustack_phys = 0
                            then map_option
                                   (\<lambda>(h', r). (0, s3, h', m1\<lparr>pm := pmm_free_pages pm3 kstack_phys 4\<rparr>))
                                   (kfree h1 proc)
                            else
                              let ustack_virt_base = 0x8000000000;
                                  ustack_virt = ustack_virt_base + 4 * PAGE_SIZE;
                                  s4 = s3\<lparr>procs := (procs s3)(proc := (procs s3 proc)
                                          \<lparr>user_stack := ustack_virt\<rparr>)\<rparr>;
                                  (pml4_phys, m4) = vmm_create_address_space (m1\<lparr>pm := pm3\<rparr>)
                              in if pml4_phys = 0
                                 then map_option
                                        (\<lambda>(h', r). (0, s4, h',
                                           m4\<lparr>pm := pmm_free_pages
                                                       (pmm_free_pages (pm m4) kstack_phys 4)
                                                       ustack_phys 4\<rparr>))
                                        (kfree h1 proc)
                                 else
                                   let s5 = s4\<lparr>procs := (procs s4)(proc := (procs s4 proc)
                                               \<lparr>page_directory := pml4_phys\<rparr>)\<rparr>;
                                       user_code_virt = 0x8000010000
                                   in case pmm_alloc_pages (pm m4) 4 of
                                        None \<Rightarrow> None
                                      | Some (user_code_phys, pm5) \<Rightarrow>
                                          if user_code_phys = 0
                                          then
                                            let m5 = vmm_destroy_address_space (m4\<lparr>pm := pm5\<rparr>)
                                                       pml4_phys
                                            in map_option
                                                 (\<lambda>(h', r). (0, s5, h',
                                                    m5\<lparr>pm := pmm_free_pages
                                                                (pmm_free_pages (pm m5) kstack_phys 4)
                                                                ustack_phys 4\<rparr>))
                                                 (kfree h1 proc)
                                          else
                                            let user_pml4 = vmm_phys_to_virt pml4_phys;
                                                m6 = map_four (m4\<lparr>pm := pm5\<rparr>) user_pml4
                                                       ustack_virt_base ustack_phys;
                                                m7a = map_four m6 user_pml4 user_code_virt
                                                        user_code_phys;
                                                m7 = m7a\<lparr>memory := memcpy (memory m7a)
                                                        (vmm_phys_to_virt user_code_phys) entry
                                                        (16 * 1024)\<rparr>;
                                                s6 = s5\<lparr>procs := (procs s5)(proc := (procs s5 proc)
                                                        \<lparr>context := context0
                                                           \<lparr>rip := user_code_virt, rsp := ustack_virt,
                                                            rflags := 0x202, cs := 0x1B, ss := 0x23,
                                                            ds := 0x23, es := 0x23, fs := 0x23,
                                                            gs := 0x23\<rparr>\<rparr>)\<rparr>
                                            in if fst (add_process s6 proc) \<noteq> 0
                                               then
                                                 let m8 = vmm_destroy_address_space m7 pml4_phys
                                                 in map_option
                                                      (\<lambda>(h', r). (0, snd (add_process s6 proc), h',
                                                         m8\<lparr>pm := pmm_free_pages
                                                                     (pmm_free_pages (pm m8)
                                                                        kstack_phys 4)
                                                                     ustack_phys 4\<rparr>))
                                                      (kfree h1 proc)
                                               else Some (proc, snd (add_process s6 proc), h1, m7))"

subsection \<open>The last failure path on a small machine\<close>

text \<open>
  A machine of 32 frames after \<open>pmm_init\<close>, with frame 1 taken for the kernel's
  top-level table, which is empty: frames 0 and 1 are in use and the memory is all zero.
  The heap is \<open>heap_demo\<close>, one free block of 4096 bytes.
\<close>

definition pmm_boot :: pmm where
  "pmm_boot = snd (pmm_alloc_page (pmm_init pmm_bss 0x20000 0x122000 0x101000))"

definition mm_boot :: mm where
  "mm_boot =
     \<lparr>pm = pmm_boot, current_pml4 = vmm_phys_to_virt 0x1000, cr3 = 0x1000, memory = (\<lambda>_. 0)\<rparr>"

lemma pmm_init_32:
  "pmm_init pmm_bss 0x20000 0x122000 0x101000 =
     \<lparr>page_bitmap = (\<lambda>_. 0)(0 := 1), total_pages = 32, used_pages = 1,
      total_memory = 0x20000\<rparr>"
proof -
  have c: "(\<lambda>i :: u32. if (ucast i :: u64) < BITMAP_SIZE then 0 else page_bitmap pmm_bss i)
             = (\<lambda>_. 0)"
    by (auto simp: pmm_bss_def)
  show ?thesis
    unfolding pmm_init_def c
    apply (simp add: Let_def split del: if_split)
    apply (simp add: pmm_defs split del: if_split)
    apply (simp add: pmm_loops split del: if_split)
    done
qed

lemma pmm_boot_eq:
  "pmm_boot = \<lparr>page_bitmap = (\<lambda>_. 0)(0 := 3), total_pages = 32, used_pages = 2,
                total_memory = 0x20000\<rparr>"
  by (simp add: pmm_boot_def pmm_init_32 pmm_alloc_page_def find_free_page_def pmm_loops
      bitmap_test_def bitmap_set_def split del: if_split)

lemma mm_boot_eq:
  "mm_boot =
     \<lparr>pm = \<lparr>page_bitmap = (\<lambda>_. 0)(0 := 3), total_pages = 32, used_pages = 2,
             total_memory = 0x20000\<rparr>,
      current_pml4 = 0xFFFF800000001000, cr3 = 0x1000, memory = (\<lambda>_. 0)\<rparr>"
  by (simp add: mm_boot_def pmm_boot_eq vmm_phys_to_virt_def KERNEL_VIRTUAL_BASE_def)

lemma pmm_boot_stacks:
  "pmm_alloc_pages \<lparr>page_bitmap = (\<lambda>_. 0)(0 := 3), total_pages = 32, used_pages = 2,
                    total_memory = 0x20000\<rparr> 4 =
     Some (0x2000, \<lparr>page_bitmap = (\<lambda>_. 0)(0 := 63), total_pages = 32, used_pages = 6,
                     total_memory = 0x20000\<rparr>)"
  "pmm_alloc_pages \<lparr>page_bitmap = (\<lambda>_. 0)(0 := 63), total_pages = 32, used_pages = 6,
                    total_memory = 0x20000\<rparr> 4 =
     Some (0x6000, \<lparr>page_bitmap = (\<lambda>_. 0)(0 := 255, 1 := 3), total_pages = 32,
                     used_pages = 10, total_memory = 0x20000\<rparr>)"
  "pmm_alloc_pages \<lparr>page_bitmap = (\<lambda>_. 0)(0 := 255, 1 := 7), total_pages = 32,
                    used_pages = 11, total_memory = 0x20000\<rparr> 4 =
     Some (0xB000, \<lparr>page_bitmap = (\<lambda>_. 0)(0 := 255, 1 := 127), total_pages = 32,
                     used_pages = 15, total_memory = 0x20000\<rparr>)"
  apply (simp_all add: pmm_alloc_pages_def find_free_pages_def split del: if_split)
  apply (simp_all add: pmm_loops bitmap_test_def bitmap_set_def split del: if_split)
  done

lemma pmm_boot_tables:
  "pmm_alloc_page \<lparr>page_bitmap = (\<lambda>_. 0)(0 := 255, 1 := 3), total_pages = 32,
                   used_pages = 10, total_memory = 0x20000\<rparr> =
     (0xA000, \<lparr>page_bitmap = (\<lambda>_. 0)(0 := 255, 1 := 7), total_pages = 32,
                used_pages = 11, total_memory = 0x20000\<rparr>)"
  "pmm_alloc_page \<lparr>page_bitmap = (\<lambda>_. 0)(0 := 255, 1 := 127), total_pages = 32,
                   used_pages = 15, total_memory = 0x20000\<rparr> =
     (0xF000, \<lparr>page_bitmap = (\<lambda>_. 0)(0 := 255, 1 := 255), total_pages = 32,
                used_pages = 16, total_memory = 0x20000\<rparr>)"
  "pmm_alloc_page \<lparr>page_bitmap = (\<lambda>_. 0)(0 := 255, 1 := 255), total_pages = 32,
                   used_pages = 16, total_memory = 0x20000\<rparr> =
     (0x10000, \<lparr>page_bitmap = (\<lambda>_. 0)(0 := 255, 1 := 255, 2 := 1), total_pages = 32,
                 used_pages = 17, total_memory = 0x20000\<rparr>)"
  "pmm_alloc_page \<lparr>page_bitmap = (\<lambda>_. 0)(0 := 255, 1 := 255, 2 := 1), total_pages = 32,
                   used_pages = 17, total_memory = 0x20000\<rparr> =
     (0x11000, \<lparr>page_bitmap = (\<lambda>_. 0)(0 := 255, 1 := 255, 2 := 3), total_pages = 32,
                 used_pages = 18, total_memory = 0x20000\<rparr>)"
  by (simp_all add: pmm_alloc_page_def find_free_page_def pmm_loops bitmap_test_def
      bitmap_set_def split del: if_split)

subsection \<open>Entries of page tables that lie a page apart\<close>

lemma unat_bounds:
  fixes d :: u64
  assumes "4096 \<le> d" and "4096 \<le> - d"
  shows "4096 \<le> unat d" and "unat d + 4096 \<le> 2 ^ 64"
proof -
  show a: "4096 \<le> unat d"
    using assms(1) by (simp add: word_le_nat_alt)
  have "unat (0 - d) = (if unat d \<le> unat (0 :: u64) then unat (0 :: u64) - unat d
                         else unat (0 :: u64) + 2 ^ LENGTH(64) - unat d)"
    by (rule unat_sub_if')
  with a have "unat (- d) = 2 ^ 64 - unat d"
    by simp
  moreover have "4096 \<le> unat (- d)"
    using assms(2) by (simp add: word_le_nat_alt)
  moreover have "unat d < 2 ^ 64"
    using unsigned_less [of d, where 'a = nat] by simp
  ultimately show "unat d + 4096 \<le> 2 ^ 64"
    by simp
qed

lemma far_plus:
  fixes d oi :: u64
  assumes "4096 \<le> d" and "4096 \<le> - d" and "oi \<le> 4088"
  shows "unat (d + oi) = unat d + unat oi"
proof -
  have "unat oi \<le> 4088"
    using assms(3) by (simp add: word_le_nat_alt)
  with unat_bounds [OF assms(1,2)] have "unat d + unat oi < 2 ^ LENGTH(64)"
    by simp
  then show ?thesis
    by (simp only: unat_add_lem)
qed

lemma far_memset:
  fixes d oi :: u64
  assumes "4096 \<le> d" and "4096 \<le> - d" and "oi \<le> 4088"
  shows "4096 \<le> d + oi" and "d + oi \<le> - 8"
proof -
  have o: "unat oi \<le> 4088"
    using assms(3) by (simp add: word_le_nat_alt)
  note b = unat_bounds [OF assms(1,2)] and p = far_plus [OF assms]
  show "4096 \<le> d + oi"
    using b by (simp add: word_le_nat_alt p)
  show "d + oi \<le> - 8"
    using b o by (simp add: word_le_nat_alt p)
qed

lemma far_cells:
  fixes d oi oj :: u64
  assumes "4096 \<le> d" and "4096 \<le> - d" and "oi \<le> 4088" and "oj \<le> 4088"
  shows "8 \<le> d + oi - oj"
proof -
  have o: "unat oi \<le> 4088" "unat oj \<le> 4088"
    using assms(3,4) by (simp_all add: word_le_nat_alt)
  note b = unat_bounds [OF assms(1,2)] and p = far_plus [OF assms(1,2,3)]
  have "oj \<le> d + oi"
    using b o by (simp add: word_le_nat_alt p)
  then have "unat (d + oi - oj) = unat (d + oi) - unat oj"
    by (rule unat_sub)
  then show ?thesis
    using b o by (simp add: word_le_nat_alt p)
qed

lemma near_cells:
  fixes oi oj :: u64
  assumes "unat oi + 8 \<le> unat oj" and "unat oj \<le> 4088"
  shows "8 \<le> oj - oi" and "8 \<le> oi - oj"
proof -
  note lt = assms(2)
  have "oi \<le> oj"
    using assms by (simp add: word_le_nat_alt)
  then have "unat (oj - oi) = unat oj - unat oi"
    by (rule unat_sub)
  with assms(1) show "8 \<le> oj - oi"
    by (simp add: word_le_nat_alt)
  have "unat (oi - oj) = (if unat oj \<le> unat oi then unat oi - unat oj
                           else unat oi + 2 ^ LENGTH(64) - unat oj)"
    by (rule unat_sub_if')
  with assms have "8 \<le> unat (oi - oj)"
    by simp
  then show "8 \<le> oi - oj"
    by (simp add: word_le_nat_alt)
qed

lemma entry_offset:
  fixes i :: u32
  assumes "i < 512"
  shows "unat (8 * ucast i :: u64) = 8 * unat i" and "(8 * ucast i :: u64) \<le> 4088"
proof -
  have i: "unat i < 512"
    using assms by (simp add: word_less_nat_alt)
  have "unat (8 :: u64) * unat (ucast i :: u64) < 2 ^ LENGTH(64)"
    using i by (simp add: unat_ucast_u32_u64)
  then have "unat (8 * ucast i :: u64) = unat (8 :: u64) * unat (ucast i :: u64)"
    by (simp only: unat_mult_lem)
  then show a: "unat (8 * ucast i :: u64) = 8 * unat i"
    by (simp add: unat_ucast_u32_u64)
  show "(8 * ucast i :: u64) \<le> 4088"
    using i by (simp add: word_le_nat_alt a)
qed

lemma load64_memcpy_outside:
  assumes "n \<le> b - dst" and "b - dst \<le> - 8"
  shows "load64 (memcpy m dst src n) b = load64 m b"
proof (rule load64_cong)
  fix i :: u64
  assume i: "i < 8"
  have e: "b + i - dst = (b - dst) + i" by simp
  have "b - dst \<le> (b - dst) + i"
    using assms(2) i by (rule word_add_small)
  with assms(1) have "n \<le> (b - dst) + i"
    by (rule order_trans)
  then have "\<not> b + i - dst < n"
    by (simp only: e not_less)
  then show "memcpy m dst src n (b + i) = m (b + i)"
    by (simp only: memcpy_def if_False)
qed

lemma entry_memcpy_other:
  assumes "16384 \<le> t - dst" and "4096 \<le> dst - t" and "i < 512"
  shows "load64 (memcpy m dst src 16384) (entry_ptr t i) = load64 m (entry_ptr t i)"
proof (rule load64_memcpy_outside)
  have "(4096 :: u64) \<le> 16384"
    by (simp add: word_le_nat_alt)
  then have "4096 \<le> t - dst"
    using assms(1) by (rule order_trans)
  moreover have "4096 \<le> - (t - dst)"
    using assms(2) by simp
  ultimately have d: "4096 \<le> t - dst" "4096 \<le> - (t - dst)"
    by simp_all
  have e: "entry_ptr t i - dst = (t - dst) + 8 * ucast i"
    by (simp add: entry_ptr_def)
  have "unat (t - dst + 8 * ucast i) = unat (t - dst) + unat (8 * ucast i :: u64)"
    using d entry_offset(2) [OF assms(3)] by (rule far_plus)
  moreover have "16384 \<le> unat (t - dst)"
    using assms(1) by (simp add: word_le_nat_alt)
  ultimately show "16384 \<le> entry_ptr t i - dst"
    by (simp add: e word_le_nat_alt)
  show "entry_ptr t i - dst \<le> - 8"
    unfolding e using d entry_offset(2) [OF assms(3)] by (rule far_memset)
qed

text \<open>
  Two tables are apart when their pointers differ by a page or more in both directions,
  as the tables in two different frames do.
\<close>

definition tables_apart :: "u64 \<Rightarrow> u64 \<Rightarrow> bool" where
  "tables_apart t t' \<longleftrightarrow> 4096 \<le> t - t' \<and> 4096 \<le> t' - t"

lemma entry_memset_same:
  assumes "i < 512"
  shows "load64 (memset m t 0 4096) (entry_ptr t i) = 0"
proof (rule load64_memset_inside)
  show "(8 :: u64) \<le> 4096"
    by (simp add: word_le_nat_alt)
  show "entry_ptr t i - t \<le> 4096 - 8"
    using entry_offset(2) [OF assms] by (simp add: entry_ptr_def)
qed

lemma entry_memset_other:
  assumes "tables_apart t t'" and "i < 512"
  shows "load64 (memset m t' c 4096) (entry_ptr t i) = load64 m (entry_ptr t i)"
proof (rule load64_memset_outside)
  have d: "4096 \<le> t - t'" "4096 \<le> - (t - t')"
    using assms(1) by (simp_all add: tables_apart_def)
  have e: "entry_ptr t i - t' = (t - t') + 8 * ucast i"
    by (simp add: entry_ptr_def)
  show "4096 \<le> entry_ptr t i - t'"
    unfolding e using d entry_offset(2) [OF assms(2)] by (rule far_memset)
  show "entry_ptr t i - t' \<le> - 8"
    unfolding e using d entry_offset(2) [OF assms(2)] by (rule far_memset)
qed

lemma entry_store_other:
  assumes "tables_apart t t'" and "i < 512" and "j < 512"
  shows "load64 (store64 m (entry_ptr t' j) v) (entry_ptr t i) = load64 m (entry_ptr t i)"
proof (rule load64_store64_other)
  have d: "4096 \<le> t - t'" "4096 \<le> - (t - t')"
    and d': "4096 \<le> t' - t" "4096 \<le> - (t' - t)"
    using assms(1) by (simp_all add: tables_apart_def)
  have e: "entry_ptr t i - entry_ptr t' j = (t - t') + 8 * ucast i - 8 * ucast j"
    and e': "entry_ptr t' j - entry_ptr t i = (t' - t) + 8 * ucast j - 8 * ucast i"
    by (simp_all add: entry_ptr_def)
  show "8 \<le> entry_ptr t i - entry_ptr t' j"
    unfolding e using d entry_offset(2) [OF assms(2)] entry_offset(2) [OF assms(3)]
    by (rule far_cells)
  show "8 \<le> entry_ptr t' j - entry_ptr t i"
    unfolding e' using d' entry_offset(2) [OF assms(3)] entry_offset(2) [OF assms(2)]
    by (rule far_cells)
qed

lemma entry_store_same_table:
  assumes "i \<noteq> j" and "i < 512" and "j < 512"
  shows "load64 (store64 m (entry_ptr t j) v) (entry_ptr t i) = load64 m (entry_ptr t i)"
proof -
  let ?oi = "8 * ucast i :: u64" and ?oj = "8 * ucast j :: u64"
  have e: "entry_ptr t i - entry_ptr t j = ?oi - ?oj" "entry_ptr t j - entry_ptr t i = ?oj - ?oi"
    by (simp_all add: entry_ptr_def)
  have b: "unat i < 512" "unat j < 512"
    using assms(2,3) by (simp_all add: word_less_nat_alt)
  have "unat i \<noteq> unat j"
    using assms(1) by (simp add: word_unat_eq_iff)
  then consider "unat i < unat j" | "unat j < unat i"
    by linarith
  then have "8 \<le> ?oi - ?oj \<and> 8 \<le> ?oj - ?oi"
  proof cases
    case 1
    then have "unat ?oi + 8 \<le> unat ?oj" and "unat ?oj \<le> 4088"
      using b by (simp_all add: entry_offset(1) [OF assms(2)] entry_offset(1) [OF assms(3)])
    then show ?thesis
      using near_cells [of ?oi ?oj] by simp
  next
    case 2
    then have "unat ?oj + 8 \<le> unat ?oi" and "unat ?oi \<le> 4088"
      using b by (simp_all add: entry_offset(1) [OF assms(2)] entry_offset(1) [OF assms(3)])
    then show ?thesis
      using near_cells [of ?oj ?oi] by simp
  qed
  then show ?thesis
    by (intro load64_store64_other) (simp_all add: e)
qed

lemma entry_store_same: "load64 (store64 m (entry_ptr t i) v) (entry_ptr t i) = v"
  by (rule load64_store64_same)

lemma entry_zero: "load64 (\<lambda>_. 0) (entry_ptr t i) = 0"
  by (rule load64_zero)

lemmas entry_rules =
  entry_store_same entry_store_same_table entry_store_other entry_memset_same
  entry_memset_other entry_zero

subsection \<open>The loops over a table\<close>

lemma for_u32_step: "i < n \<Longrightarrow> for_u32 i n body s = for_u32 (i + 1) n body (body i s)"
  by (simp add: for_u32.simps [of i n body s])

lemma for_u32_done: "\<not> i < n \<Longrightarrow> for_u32 i n body s = s"
  by (simp add: for_u32.simps [of i n body s])

lemma word_succ_le:
  fixes i j n :: u32
  assumes "i < n"
  shows "i + 1 \<le> j \<longleftrightarrow> i < j"
  using assms by (simp add: word_le_nat_alt word_less_nat_alt word_succ_unat [OF assms] Suc_le_eq)

lemma for_u32_skip:
  assumes "\<And>j. i \<le> j \<Longrightarrow> j < n \<Longrightarrow> \<not> P j"
  shows "for_u32 i n (\<lambda>i s. if P i then g i s else s) s = s"
  using assms
proof (induction k \<equiv> "unat n - unat i" arbitrary: i)
  case 0
  then have "\<not> i < n"
    by (simp add: word_less_nat_alt)
  then show ?case
    by (rule for_u32_done)
next
  case (Suc k)
  then have lt: "i < n"
    by (simp add: word_less_nat_alt)
  have k: "k = unat n - unat (i + 1)"
    using Suc.hyps(2) by (simp add: word_succ_unat [OF lt])
  have here: "\<not> P i"
    using Suc.prems [of i] lt by simp
  have rest: "for_u32 (i + 1) n (\<lambda>i s. if P i then g i s else s) s = s"
  proof (rule Suc.hyps(1) [OF k])
    fix j
    assume "i + 1 \<le> j" and "j < n"
    then show "\<not> P j"
      using Suc.prems [of j] by (simp add: word_succ_le [OF lt])
  qed
  show ?case
    by (simp add: for_u32_step [OF lt] here rest)
qed

lemma for_u32_upto:
  assumes "i \<le> k" and "k < n" and "\<And>j. i \<le> j \<Longrightarrow> j < k \<Longrightarrow> \<not> P j"
  shows "for_u32 i n (\<lambda>i s. if P i then g i s else s) s
         = for_u32 k n (\<lambda>i s. if P i then g i s else s) s"
  using assms
proof (induction d \<equiv> "unat k - unat i" arbitrary: i)
  case 0
  then have "i = k"
    by (simp add: word_le_nat_alt word_unat_eq_iff)
  then show ?case
    by simp
next
  case (Suc d)
  then have ik: "i < k"
    by (simp add: word_less_nat_alt)
  with Suc.prems(2) have lt: "i < n"
    by simp
  have d: "d = unat k - unat (i + 1)"
    using Suc.hyps(2) by (simp add: word_succ_unat [OF lt])
  have here: "\<not> P i"
    using Suc.prems(3) [of i] ik by simp
  have "for_u32 (i + 1) n (\<lambda>i s. if P i then g i s else s) s
        = for_u32 k n (\<lambda>i s. if P i then g i s else s) s"
  proof (rule Suc.hyps(1) [OF d])
    show "i + 1 \<le> k"
      using ik by (simp add: word_succ_le [OF lt])
    show "k < n"
      by (rule Suc.prems(2))
    fix j
    assume "i + 1 \<le> j" and "j < k"
    then show "\<not> P j"
      using Suc.prems(3) [of j] by (simp add: word_succ_le [OF lt])
  qed
  then show ?case
    by (simp add: for_u32_step [OF lt] here)
qed

lemma for_u32_only:
  assumes "k < n" and "\<And>j. j < n \<Longrightarrow> j \<noteq> k \<Longrightarrow> \<not> P j"
  shows "for_u32 0 n (\<lambda>i s. if P i then g i s else s) s = (if P k then g k s else s)"
proof -
  have "for_u32 0 n (\<lambda>i s. if P i then g i s else s) s
        = for_u32 k n (\<lambda>i s. if P i then g i s else s) s"
  proof (rule for_u32_upto)
    show "0 \<le> k" by simp
    show "k < n" by (rule assms(1))
    fix j
    assume "j < k"
    then show "\<not> P j"
      using assms by simp
  qed
  also have "\<dots> = for_u32 (k + 1) n (\<lambda>i s. if P i then g i s else s) (if P k then g k s else s)"
    by (rule for_u32_step [OF assms(1)])
  also have "\<dots> = (if P k then g k s else s)"
  proof (rule for_u32_skip)
    fix j
    assume "k + 1 \<le> j" and "j < n"
    then show "\<not> P j"
      using assms(2) [of j] by (simp add: word_succ_le [OF assms(1)])
  qed
  finally show ?thesis .
qed

subsection \<open>A new address space on the small machine\<close>

lemma store64_zero_memory: "store64 (\<lambda>_. 0) a 0 = (\<lambda>_. 0)"
  by (rule ext) (simp add: store64_def)

lemma memset_zero_memory: "memset (\<lambda>_. 0) a 0 n = (\<lambda>_. 0)"
  by (simp add: memset_def)

lemma copy_zero_memory:
  "for_u32 i n (\<lambda>i mem. store64 mem (f i) (load64 mem (g i))) (\<lambda>_. 0) = (\<lambda>_. 0)"
proof (induction k \<equiv> "unat n - unat i" arbitrary: i)
  case 0
  then have "\<not> i < n"
    by (simp add: word_less_nat_alt)
  then show ?case
    by (rule for_u32_done)
next
  case (Suc k)
  then have lt: "i < n"
    by (simp add: word_less_nat_alt)
  have k: "k = unat n - unat (i + 1)"
    using Suc.hyps(2) by (simp add: word_succ_unat [OF lt])
  show ?case
    by (simp add: for_u32_step [OF lt] load64_zero store64_zero_memory Suc.hyps(1) [OF k])
qed

lemma mm_boot_create:
  "vmm_create_address_space
     \<lparr>pm = \<lparr>page_bitmap = (\<lambda>_. 0)(0 := 255, 1 := 3), total_pages = 32,
             used_pages = 10, total_memory = 0x20000\<rparr>,
      current_pml4 = 0xFFFF800000001000, cr3 = 0x1000, memory = (\<lambda>_. 0)\<rparr> =
     (0xA000,
      \<lparr>pm = \<lparr>page_bitmap = (\<lambda>_. 0)(0 := 255, 1 := 7), total_pages = 32,
              used_pages = 11, total_memory = 0x20000\<rparr>,
       current_pml4 = 0xFFFF800000001000, cr3 = 0x1000, memory = (\<lambda>_. 0)\<rparr>)"
  by (simp add: vmm_create_address_space_def pmm_boot_tables Let_def memset_zero_memory
      copy_zero_memory)

lemma map_four_calls:
  "map_four m pml4 v p =
     manual_map_page
       (manual_map_page
          (manual_map_page (manual_map_page m pml4 v p PAGE_FLAGS_USER)
             pml4 (v + 0x1000) (p + 0x1000) PAGE_FLAGS_USER)
          pml4 (v + 0x2000) (p + 0x2000) PAGE_FLAGS_USER)
       pml4 (v + 0x3000) (p + 0x3000) PAGE_FLAGS_USER"
  by (simp add: map_four_def for_u64_step for_u64_done word_less_nat_alt PAGE_SIZE_def)

lemmas table_defs =
  PAGE_PRESENT_def PAGE_WRITE_def PAGE_USER_def PAGE_FLAGS_KERNEL_def PAGE_FLAGS_USER_def
  KERNEL_VIRTUAL_BASE_def vmm_phys_to_virt_def PAGE_SIZE_def tables_apart_def word_le_nat_alt
  word_less_nat_alt

lemma mm_boot_map_stack:
  "map_four
     \<lparr>pm = \<lparr>page_bitmap = (\<lambda>_. 0)(0 := 255, 1 := 127), total_pages = 32,
              used_pages = 15, total_memory = 0x20000\<rparr>,
       current_pml4 = 0xFFFF800000001000, cr3 = 0x1000, memory = (\<lambda>_. 0)\<rparr>
     0xFFFF80000000A000 0x8000000000 0x6000 =
     \<lparr>pm = \<lparr>page_bitmap = (\<lambda>_. 0)(0 := 255, 1 := 255, 2 := 3), total_pages = 32,
              used_pages = 18, total_memory = 0x20000\<rparr>,
       current_pml4 = 0xFFFF800000001000, cr3 = 0x1000,
       memory =
         store64
           (store64
             (store64
               (store64
                 (store64
                   (memset
                     (store64
                       (memset
                         (store64 (memset (\<lambda>_. 0) 0xFFFF80000000F000 0 4096)
                            (entry_ptr 0xFFFF80000000A000 1) 0xF007)
                         0xFFFF800000010000 0 4096)
                       (entry_ptr 0xFFFF80000000F000 0) 0x10007)
                     0xFFFF800000011000 0 4096)
                   (entry_ptr 0xFFFF800000010000 0) 0x11007)
                 (entry_ptr 0xFFFF800000011000 0) 0x6007)
               (entry_ptr 0xFFFF800000011000 1) 0x7007)
             (entry_ptr 0xFFFF800000011000 2) 0x8007)
           (entry_ptr 0xFFFF800000011000 3) 0x9007\<rparr>"
  apply (simp add: map_four_calls manual_map_page_def Let_def split del: if_split)
  apply (simp add: manual_next_table_def pmm_boot_tables table_defs entry_rules Let_def
      split del: if_split)
  done

text \<open>The page tables of the new address space once the stack and the code are mapped.\<close>

definition user_tables :: "u64 \<Rightarrow> u8" where
  "user_tables =
     store64
       (store64
         (store64
           (store64
             (store64
               (store64
                 (store64
                   (store64
                     (store64
                       (memset
                         (store64
                           (memset
                             (store64 (memset (\<lambda>_. 0) 0xFFFF80000000F000 0 4096)
                                (entry_ptr 0xFFFF80000000A000 1) 0xF007)
                             0xFFFF800000010000 0 4096)
                           (entry_ptr 0xFFFF80000000F000 0) 0x10007)
                         0xFFFF800000011000 0 4096)
                       (entry_ptr 0xFFFF800000010000 0) 0x11007)
                     (entry_ptr 0xFFFF800000011000 0) 0x6007)
                   (entry_ptr 0xFFFF800000011000 1) 0x7007)
                 (entry_ptr 0xFFFF800000011000 2) 0x8007)
               (entry_ptr 0xFFFF800000011000 3) 0x9007)
             (entry_ptr 0xFFFF800000011000 16) 0xB007)
           (entry_ptr 0xFFFF800000011000 17) 0xC007)
         (entry_ptr 0xFFFF800000011000 18) 0xD007)
       (entry_ptr 0xFFFF800000011000 19) 0xE007"

lemma mm_boot_map_code:
  "map_four
     \<lparr>pm = \<lparr>page_bitmap = (\<lambda>_. 0)(0 := 255, 1 := 255, 2 := 3), total_pages = 32,
              used_pages = 18, total_memory = 0x20000\<rparr>,
       current_pml4 = 0xFFFF800000001000, cr3 = 0x1000,
       memory =
         store64
           (store64
             (store64
               (store64
                 (store64
                   (memset
                     (store64
                       (memset
                         (store64 (memset (\<lambda>_. 0) 0xFFFF80000000F000 0 4096)
                            (entry_ptr 0xFFFF80000000A000 1) 0xF007)
                         0xFFFF800000010000 0 4096)
                       (entry_ptr 0xFFFF80000000F000 0) 0x10007)
                     0xFFFF800000011000 0 4096)
                   (entry_ptr 0xFFFF800000010000 0) 0x11007)
                 (entry_ptr 0xFFFF800000011000 0) 0x6007)
               (entry_ptr 0xFFFF800000011000 1) 0x7007)
             (entry_ptr 0xFFFF800000011000 2) 0x8007)
           (entry_ptr 0xFFFF800000011000 3) 0x9007\<rparr>
     0xFFFF80000000A000 0x8000010000 0xB000 =
     \<lparr>pm = \<lparr>page_bitmap = (\<lambda>_. 0)(0 := 255, 1 := 255, 2 := 3), total_pages = 32,
              used_pages = 18, total_memory = 0x20000\<rparr>,
       current_pml4 = 0xFFFF800000001000, cr3 = 0x1000, memory = user_tables\<rparr>"
  apply (simp add: map_four_calls manual_map_page_def Let_def split del: if_split)
  apply (simp add: manual_next_table_def pmm_boot_tables table_defs entry_rules Let_def
      user_tables_def split del: if_split)
  done

text \<open>
  The memory once the code is copied into its frames. The top-level table has its entry 1
  only in the lower half, and the two tables below it their entry 0 only.
\<close>

definition user_memory :: "u64 \<Rightarrow> u64 \<Rightarrow> u8" where
  "user_memory entry = memcpy user_tables 0xFFFF80000000B000 entry 16384"

lemma below_512: "j < 256 \<Longrightarrow> j < (512 :: u32)"
  by (simp add: word_less_nat_alt)

lemma user_memory_pml4:
  "load64 (user_memory entry) (entry_ptr 0xFFFF80000000A000 1) = 0xF007"
  "j < 256 \<Longrightarrow> j \<noteq> 1 \<Longrightarrow> load64 (user_memory entry) (entry_ptr 0xFFFF80000000A000 j) = 0"
  by (simp_all add: user_memory_def user_tables_def entry_memcpy_other entry_rules table_defs
      below_512)

lemma user_memory_pdpt:
  "load64 (user_memory entry) (entry_ptr 0xFFFF80000000F000 0) = 0x10007"
  "j < 512 \<Longrightarrow> j \<noteq> 0 \<Longrightarrow> load64 (user_memory entry) (entry_ptr 0xFFFF80000000F000 j) = 0"
  by (simp_all add: user_memory_def user_tables_def entry_memcpy_other entry_rules table_defs)

lemma user_memory_pd:
  "load64 (user_memory entry) (entry_ptr 0xFFFF800000010000 0) = 0x11007"
  "j < 512 \<Longrightarrow> j \<noteq> 0 \<Longrightarrow> load64 (user_memory entry) (entry_ptr 0xFFFF800000010000 j) = 0"
  by (simp_all add: user_memory_def user_tables_def entry_memcpy_other entry_rules table_defs)

subsection \<open>Tearing the address space down\<close>

lemma phys_to_virt_back: "vmm_phys_to_virt a - KERNEL_VIRTUAL_BASE = a"
  by (simp add: vmm_phys_to_virt_def)

lemma destroy_pd_only:
  assumes "k < 512"
    and "\<And>j. j < 512 \<Longrightarrow> j \<noteq> k \<Longrightarrow> load64 mem (entry_ptr pd j) = 0"
  shows "destroy_pd mem pd p =
           (if load64 mem (entry_ptr pd k) AND PAGE_PRESENT \<noteq> 0
            then pmm_free_page p (load64 mem (entry_ptr pd k) AND NOT 0xFFF)
            else p)"
proof -
  have "\<not> (load64 mem (entry_ptr pd j) AND PAGE_PRESENT \<noteq> 0)" if "j < 512" "j \<noteq> k" for j
    using assms(2) [OF that] by simp
  from for_u32_only [of k 512 "\<lambda>j. load64 mem (entry_ptr pd j) AND PAGE_PRESENT \<noteq> 0"
      "\<lambda>k p. let pt = vmm_phys_to_virt (load64 mem (entry_ptr pd k) AND NOT 0xFFF)
             in pmm_free_page p (pt - KERNEL_VIRTUAL_BASE)" p, OF assms(1) this]
  show ?thesis
    by (simp add: destroy_pd_def Let_def phys_to_virt_back)
qed

lemma destroy_pdpt_only:
  assumes "k < 512"
    and "\<And>j. j < 512 \<Longrightarrow> j \<noteq> k \<Longrightarrow> load64 mem (entry_ptr pdpt j) = 0"
  shows "destroy_pdpt mem pdpt p =
           (if load64 mem (entry_ptr pdpt k) AND PAGE_PRESENT \<noteq> 0
            then pmm_free_page
                   (destroy_pd mem (vmm_phys_to_virt (load64 mem (entry_ptr pdpt k) AND NOT 0xFFF)) p)
                   (load64 mem (entry_ptr pdpt k) AND NOT 0xFFF)
            else p)"
proof -
  have "\<not> (load64 mem (entry_ptr pdpt j) AND PAGE_PRESENT \<noteq> 0)" if "j < 512" "j \<noteq> k" for j
    using assms(2) [OF that] by simp
  from for_u32_only [of k 512 "\<lambda>j. load64 mem (entry_ptr pdpt j) AND PAGE_PRESENT \<noteq> 0"
      "\<lambda>j p. let pd = vmm_phys_to_virt (load64 mem (entry_ptr pdpt j) AND NOT 0xFFF)
             in pmm_free_page (destroy_pd mem pd p) (pd - KERNEL_VIRTUAL_BASE)" p,
      OF assms(1) this]
  show ?thesis
    by (simp add: destroy_pdpt_def Let_def phys_to_virt_back)
qed

lemma vmm_destroy_address_space_only:
  assumes "k < 256"
    and "\<And>j. j < 256 \<Longrightarrow> j \<noteq> k
           \<Longrightarrow> load64 (memory m) (entry_ptr (vmm_phys_to_virt pml4_phys) j) = 0"
  shows "vmm_destroy_address_space m pml4_phys =
           m\<lparr>pm := pmm_free_page
                     (if load64 (memory m) (entry_ptr (vmm_phys_to_virt pml4_phys) k)
                           AND PAGE_PRESENT \<noteq> 0
                      then pmm_free_page
                             (destroy_pdpt (memory m)
                                (vmm_phys_to_virt
                                   (load64 (memory m) (entry_ptr (vmm_phys_to_virt pml4_phys) k)
                                      AND NOT 0xFFF))
                                (pm m))
                             (load64 (memory m) (entry_ptr (vmm_phys_to_virt pml4_phys) k)
                                AND NOT 0xFFF)
                      else pm m)
                     pml4_phys\<rparr>"
proof -
  let ?pml4 = "vmm_phys_to_virt pml4_phys"
  have "\<not> (load64 (memory m) (entry_ptr ?pml4 j) AND PAGE_PRESENT \<noteq> 0)"
    if "j < 256" "j \<noteq> k" for j
    using assms(2) [OF that] by simp
  from for_u32_only [of k 256 "\<lambda>j. load64 (memory m) (entry_ptr ?pml4 j) AND PAGE_PRESENT \<noteq> 0"
      "\<lambda>i p. let pdpt = vmm_phys_to_virt (load64 (memory m) (entry_ptr ?pml4 i) AND NOT 0xFFF)
             in pmm_free_page (destroy_pdpt (memory m) pdpt p) (pdpt - KERNEL_VIRTUAL_BASE)"
      "pm m", OF assms(1) this]
  show ?thesis
    by (simp add: vmm_destroy_address_space_def Let_def phys_to_virt_back)
qed

lemma mm_boot_destroy:
  "vmm_destroy_address_space
     \<lparr>pm = \<lparr>page_bitmap = (\<lambda>_. 0)(0 := 255, 1 := 255, 2 := 3), total_pages = 32,
              used_pages = 18, total_memory = 0x20000\<rparr>,
       current_pml4 = 0xFFFF800000001000, cr3 = 0x1000, memory = user_memory entry\<rparr> 0xA000 =
     \<lparr>pm = \<lparr>page_bitmap = (\<lambda>_. 0)(0 := 255, 2 := 0, 1 := 123), total_pages = 32,
              used_pages = 14, total_memory = 0x20000\<rparr>,
       current_pml4 = 0xFFFF800000001000, cr3 = 0x1000, memory = user_memory entry\<rparr>"
proof -
  have a: "vmm_phys_to_virt 0xA000 = 0xFFFF80000000A000"
    "vmm_phys_to_virt 0xF000 = 0xFFFF80000000F000"
    "vmm_phys_to_virt 0x10000 = 0xFFFF800000010000"
    by (simp_all add: vmm_phys_to_virt_def KERNEL_VIRTUAL_BASE_def)
  show ?thesis
    apply (subst vmm_destroy_address_space_only [where k = 1])
      apply (simp_all add: a user_memory_pml4 word_less_nat_alt)[2]
    apply (simp add: a user_memory_pml4 PAGE_PRESENT_def split del: if_split)
    apply (subst destroy_pdpt_only [where k = 0])
      apply (simp_all add: a user_memory_pdpt word_less_nat_alt)[2]
    apply (simp add: a user_memory_pdpt PAGE_PRESENT_def split del: if_split)
    apply (subst destroy_pd_only [where k = 0])
      apply (simp_all add: a user_memory_pd word_less_nat_alt)[2]
    apply (simp add: a user_memory_pd PAGE_PRESENT_def split del: if_split)
    apply (simp add: pmm_free_page_def bitmap_test_def bitmap_clear_def PAGE_SIZE_def Let_def
        word_le_nat_alt split del: if_split)
    done
qed

text \<open>The two stacks are given back.\<close>

lemma mm_boot_free_stacks:
  "pmm_free_pages
     (pmm_free_pages
        \<lparr>page_bitmap = (\<lambda>_. 0)(0 := 255, 2 := 0, 1 := 123), total_pages = 32,
          used_pages = 14, total_memory = 0x20000\<rparr> 0x2000 4) 0x6000 4 =
     \<lparr>page_bitmap = (\<lambda>_. 0)(2 := 0, 0 := 3, 1 := 120), total_pages = 32, used_pages = 6,
      total_memory = 0x20000\<rparr>"
  apply (simp add: pmm_free_pages_def for_u64_step for_u64_done word_less_nat_alt
      split del: if_split)
  apply (simp add: pmm_free_page_def bitmap_test_def bitmap_clear_def PAGE_SIZE_def Let_def
        word_le_nat_alt split del: if_split)
  done

text \<open>
  The structure of the task is taken from the 4096-byte heap and given back: the block
  is split at 376 bytes, and the two blocks are merged again.
\<close>

definition heap_task :: heap where
  "heap_task =
     heap_demo\<lparr>allocation_count := 1,
       blocks := (\<lambda>_. \<lparr>magic = 0, bsize = 0, free = False, next = 0, prev = 0\<rparr>)
         (0xFFFF800200000000 :=
            \<lparr>magic = HEAP_MAGIC, bsize = 376, free = False, next = 0xFFFF800200000178,
             prev = 0\<rparr>,
          0xFFFF800200000178 :=
            \<lparr>magic = HEAP_MAGIC, bsize = 3720, free = True, next = 0,
             prev = 0xFFFF800200000000\<rparr>)\<rparr>"

lemma heap_demo_kzalloc:
  "kzalloc heap_demo m sizeof_process_t = Some (0xFFFF800200000020, heap_task, m, None)"
  apply (simp add: kzalloc_def kmalloc_def find_free_block_def heap_demo_def sizeof_heap_block_def
      sizeof_process_t_def MIN_BLOCK_SIZE_def Let_def split del: if_split)
  apply (simp add: heap_loops HEAP_MAGIC_def split del: if_split)
  apply (simp add: kmalloc_take_def split_block_def sizeof_heap_block_def MIN_BLOCK_SIZE_def
      HEAP_MAGIC_def Let_def fun_upd_twist heap_task_def heap_demo_def split del: if_split)
  done

definition heap_given_back :: heap where
  "heap_given_back =
     heap_demo\<lparr>blocks := (\<lambda>_. \<lparr>magic = 0, bsize = 0, free = False, next = 0, prev = 0\<rparr>)
       (0xFFFF800200000178 :=
          \<lparr>magic = HEAP_MAGIC, bsize = 3720, free = True, next = 0,
           prev = 0xFFFF800200000000\<rparr>,
        0xFFFF800200000000 :=
          \<lparr>magic = HEAP_MAGIC, bsize = 4096, free = True, next = 0, prev = 0\<rparr>)\<rparr>"

lemma heap_task_kfree: "kfree heap_task 0xFFFF800200000020 = Some (heap_given_back, None)"
  apply (simp add: kfree_def coalesce_blocks_def heap_task_def heap_demo_def sizeof_heap_block_def
      HEAP_MAGIC_def Let_def split del: if_split)
  apply (simp add: heap_loops merge_next_def Let_def heap_given_back_def heap_demo_def
      HEAP_MAGIC_def split del: if_split)
  done

text \<open>A full table: \<open>add_process\<close> finds no empty slot.\<close>

lemma add_process_full:
  assumes "length (process_table s) = 256" and "0 \<notin> set (process_table s)"
  shows "add_process s proc = (- 1, s)"
proof -
  have "process_table s ! i \<noteq> 0" if "i < 256" for i
    using assms that by (metis nth_mem)
  then have "find (\<lambda>i. process_table s ! i = 0) [0 ..< unat MAX_PROCESSES] = None"
    by (simp add: find_None_iff MAX_PROCESSES_def)
  then show ?thesis
    by (simp add: add_process_def)
qed

definition pmm_after_failure :: pmm where
  "pmm_after_failure =
     \<lparr>page_bitmap = (\<lambda>_. 0)(2 := 0, 0 := 3, 1 := 120), total_pages = 32, used_pages = 6,
      total_memory = 0x20000\<rparr>"

lemma process_create_user_table_full:
  assumes "length (process_table s) = 256" and "0 \<notin> set (process_table s)"
  shows "\<exists>s'. process_create_user s heap_demo mm_boot entry nm prio =
           Some (0, s', heap_given_back, mm_boot\<lparr>pm := pmm_after_failure, memory := user_memory entry\<rparr>)"
  apply (simp add: process_create_user_def heap_demo_kzalloc mm_boot_eq pmm_boot_stacks
      mm_boot_create alloc_pid_def Let_def vmm_phys_to_virt_def KERNEL_VIRTUAL_BASE_def
      split del: if_split)
  apply (simp add: mm_boot_map_stack mm_boot_map_code add_process_full assms
      mm_boot_destroy mm_boot_free_stacks heap_task_kfree pmm_after_failure_def
      user_memory_def [symmetric]
      split del: if_split)
  done

lemma pmm_after_failure_frames:
  "pmm_get_used_pages pmm_after_failure = pmm_get_used_pages (pm mm_boot) + 4"
  "map (pmm_is_free pmm_after_failure) [0xB000, 0xC000, 0xD000, 0xE000]
     = [False, False, False, False]"
  "map (pmm_is_free (pm mm_boot)) [0xB000, 0xC000, 0xD000, 0xE000] = [True, True, True, True]"
  "map (pmm_is_free pmm_after_failure) [0x2000, 0x6000, 0xA000, 0xF000, 0x10000, 0x11000]
     = [True, True, True, True, True, True]"
  by (simp_all add: pmm_after_failure_def mm_boot_eq pmm_get_used_pages_def pmm_is_free_def
      bitmap_test_def PAGE_SIZE_def word_le_nat_alt)

text \<open>
  Claim C3 fails in the code on the last failure path. When the process table is full,
  \<open>add_process\<close> fails after every allocation has succeeded; \<open>process_create_user\<close>
  then destroys the address space, frees the two stacks and the structure and returns
  \<open>NULL\<close>, but it does not free \<open>user_code_phys\<close>. On the small machine the four code
  frames \<open>0xB000\<close> to \<open>0xE000\<close>, free before the call, are still marked used after it and
  the allocator counts four used frames more than before, while the stacks and the
  tables of the address space are free again.
\<close>

theorem process_create_user_leaks_code_frames:
  assumes "length (process_table s) = 256" and "0 \<notin> set (process_table s)"
  shows "\<exists>s' h' m'.
           process_create_user s heap_demo mm_boot entry nm prio = Some (0, s', h', m')
           \<and> pmm_get_used_pages (pm m') = pmm_get_used_pages (pm mm_boot) + 4
           \<and> map (pmm_is_free (pm mm_boot)) [0xB000, 0xC000, 0xD000, 0xE000]
               = [True, True, True, True]
           \<and> map (pmm_is_free (pm m')) [0xB000, 0xC000, 0xD000, 0xE000]
               = [False, False, False, False]
           \<and> map (pmm_is_free (pm m')) [0x2000, 0x6000, 0xA000, 0xF000, 0x10000, 0x11000]
               = [True, True, True, True, True, True]"
proof -
  from process_create_user_table_full [OF assms, of entry nm prio]
  obtain s' where
    "process_create_user s heap_demo mm_boot entry nm prio =
       Some (0, s', heap_given_back,
             mm_boot\<lparr>pm := pmm_after_failure, memory := user_memory entry\<rparr>)"
    by blast
  then show ?thesis
    using pmm_after_failure_frames by simp
qed

text \<open>A full table: every slot holds the pointer to a task.\<close>

theorem process_create_user_leaks_code_frames_witness:
  "length (process_table (sched_boot\<lparr>process_table := replicate 256 0xA000\<rparr>)) = 256
   \<and> 0 \<notin> set (process_table (sched_boot\<lparr>process_table := replicate 256 0xA000\<rparr>))
   \<and> (\<exists>s' h' m'.
         process_create_user (sched_boot\<lparr>process_table := replicate 256 0xA000\<rparr>) heap_demo
           mm_boot 0xFFFF800000103000 ''init'' 1 = Some (0, s', h', m')
         \<and> pmm_get_used_pages (pm m') = pmm_get_used_pages (pm mm_boot) + 4
         \<and> map (pmm_is_free (pm m')) [0xB000, 0xC000, 0xD000, 0xE000]
             = [False, False, False, False])"
  using process_create_user_leaks_code_frames
    [of "sched_boot\<lparr>process_table := replicate 256 0xA000\<rparr>" "0xFFFF800000103000" "''init''" 1]
  by auto

end
